theory Spec2Isabelle
  imports Complex_Main "HOL-Library.Word"
begin

unbundle bit_operations_syntax

section \<open>JavaScript strings\<close>

text \<open>
  A JavaScript string is a sequence of UTF-16 code units; \<open>length\<close>, \<open>slice\<close>,
  \<open>split\<close>, \<open>includes\<close> and the regular expressions of the sources all work on code
  units. A code unit is modelled by its number.
\<close>

type_synonym jstring = "nat list"

definition ascii :: "string \<Rightarrow> jstring" where
  "ascii s = map of_char s"

section \<open>Rate limiter (lib/rateLimitUpstash)\<close>

record RateLimitDecision =
  allowed :: bool
  remaining :: int

definition windowMs :: int where
  "windowMs = 60000"

definition maxRequests :: nat where
  "maxRequests = 10"

text \<open>The module-level \<open>hits\<close> map: identifier to the timestamps of its allowed requests.\<close>

type_synonym hits_map = "jstring \<rightharpoonup> int list"

text \<open>\<open>hits.get(ip) || []\<close>\<close>

definition stored :: "hits_map \<Rightarrow> jstring \<Rightarrow> int list" where
  "stored hits ip = (case hits ip of None \<Rightarrow> [] | Some ts \<Rightarrow> ts)"

definition in_window :: "int \<Rightarrow> int \<Rightarrow> bool" where
  "in_window now t \<longleftrightarrow> now - t < windowMs"

text \<open>\<open>inMemoryCheck\<close>, with \<open>Date.now()\<close> and the map passed in and the new map returned.\<close>

definition inMemoryCheck :: "int \<Rightarrow> jstring \<Rightarrow> hits_map \<Rightarrow> RateLimitDecision \<times> hits_map" where
  "inMemoryCheck now ip hits =
     (let timestamps = filter (in_window now) (stored hits ip) in
      if length timestamps \<ge> maxRequests
      then (\<lparr>allowed = False, remaining = 0\<rparr>, hits(ip \<mapsto> timestamps))
      else (let timestamps' = timestamps @ [now] in
            (\<lparr>allowed = True, remaining = int maxRequests - int (length timestamps')\<rparr>,
             hits(ip \<mapsto> timestamps'))))"

text \<open>The \<open>setInterval\<close> sweep, run at time \<open>now\<close>.\<close>

definition sweep :: "int \<Rightarrow> hits_map \<Rightarrow> hits_map" where
  "sweep now hits =
     (\<lambda>key. case hits key of
        None \<Rightarrow> None
      | Some timestamps \<Rightarrow>
          (let valid = filter (in_window now) timestamps in
           if length valid = 0 then None else Some valid))"

text \<open>
  A run of the process: checks and sweeps in the order they happen, each with the clock
  reading it saw. The log records every decision.
\<close>

datatype event = Check jstring int | Sweep int

fun event_time :: "event \<Rightarrow> int" where
  "event_time (Check ip now) = now"
| "event_time (Sweep now) = now"

type_synonym rl_log = "(jstring \<times> int \<times> RateLimitDecision) list"

fun rl_step :: "hits_map \<times> rl_log \<Rightarrow> event \<Rightarrow> hits_map \<times> rl_log" where
  "rl_step (hits, lg) (Check ip now) =
     (let (d, hits') = inMemoryCheck now ip hits in (hits', lg @ [(ip, now, d)]))"
| "rl_step (hits, lg) (Sweep now) = (sweep now hits, lg)"

definition rl_run :: "event list \<Rightarrow> hits_map \<times> rl_log" where
  "rl_run es = foldl rl_step (Map.empty, []) es"

text \<open>The timestamps of the allowed decisions for \<open>ip\<close> in a log.\<close>

definition allowed_times :: "jstring \<Rightarrow> rl_log \<Rightarrow> int list" where
  "allowed_times ip lg = map (\<lambda>(i, t, d). t) (filter (\<lambda>(i, t, d). i = ip \<and> allowed d) lg)"

text \<open>Allowed decisions for ip inside the trailing window that ends at T.\<close>

definition allowed_in_window :: "jstring \<Rightarrow> int \<Rightarrow> rl_log \<Rightarrow> int list" where
  "allowed_in_window ip T lg = filter (\<lambda>t. t \<le> T \<and> in_window T t) (allowed_times ip lg)"

definition demo_ip :: jstring where
  "demo_ip = ascii ''203.0.113.7''"

definition demo_checks :: "event list" where
  "demo_checks = map (\<lambda>k. Check demo_ip (1000 * int k)) [0..<10]"

definition demo_full :: hits_map where
  "demo_full = Map.empty(demo_ip \<mapsto> map (\<lambda>k. 1000 * int k) [0..<10])"

subsection \<open>The distributed backend and \<open>checkRateLimitAsync\<close>\<close>

text \<open>A rejected promise or a thrown exception, with its message.\<close>

datatype js_error = JsError jstring

text \<open>What \<open>limiter.limit(identifier)\<close> resolves to.\<close>

record UpstashResult =
  u_success :: bool
  u_remaining :: int
  u_reset :: int

text \<open>
  The \<open>Ratelimit\<close> object is external: it is modelled by what its \<open>limit\<close> call does
  for an identifier, resolve or reject.
\<close>

type_synonym limiter = "jstring \<Rightarrow> js_error + UpstashResult"

text \<open>
  The module state: the two configuration constants read once from the process
  environment, the cached \<open>rateLimiter\<close> and the in-memory \<open>hits\<close> map.
\<close>

record rl_module =
  UPSTASH_URL :: jstring
  UPSTASH_TOKEN :: jstring
  rateLimiter :: "limiter option"
  hits :: hits_map

text \<open>
  \<open>getUpstashLimiter\<close>. The argument \<open>load\<close> is the outcome of the two dynamic imports and
  the construction of the limiter: the limiter, or the exception they raise.
\<close>

definition getUpstashLimiter ::
  "(js_error + limiter) \<Rightarrow> rl_module \<Rightarrow> (js_error + limiter option) \<times> rl_module" where
  "getUpstashLimiter load m =
     (case rateLimiter m of
        Some l \<Rightarrow> (Inr (Some l), m)
      | None \<Rightarrow>
          if UPSTASH_URL m = [] \<or> UPSTASH_TOKEN m = [] then (Inr None, m)
          else (case load of
                  Inl e \<Rightarrow> (Inl e, m)
                | Inr l \<Rightarrow> (Inr (Some l), m\<lparr>rateLimiter := Some l\<rparr>)))"

text \<open>
  \<open>checkRateLimitAsync\<close>: no \<open>try\<close> surrounds the two awaited calls, so a rejection
  leaves the function as a rejection (\<open>Inl\<close>).
\<close>

definition checkRateLimitAsync ::
  "(js_error + limiter) \<Rightarrow> int \<Rightarrow> jstring \<Rightarrow> rl_module \<Rightarrow>
     (js_error + RateLimitDecision) \<times> rl_module" where
  "checkRateLimitAsync load now identifier m =
     (case getUpstashLimiter load m of
        (Inl e, m') \<Rightarrow> (Inl e, m')
      | (Inr (Some limiter), m') \<Rightarrow>
          (case limiter identifier of
             Inl e \<Rightarrow> (Inl e, m')
           | Inr result \<Rightarrow>
               (Inr \<lparr>allowed = u_success result, remaining = u_remaining result\<rparr>, m'))
      | (Inr None, m') \<Rightarrow>
          (let (d, hits') = inMemoryCheck now identifier (hits m')
           in (Inr d, m'\<lparr>hits := hits'\<rparr>)))"

text \<open>The deprecated synchronous \<open>checkRateLimit\<close>.\<close>

definition checkRateLimit :: "int \<Rightarrow> jstring \<Rightarrow> rl_module \<Rightarrow> RateLimitDecision \<times> rl_module" where
  "checkRateLimit now ip m =
     (let (d, hits') = inMemoryCheck now ip (hits m) in (d, m\<lparr>hits := hits'\<rparr>))"

text \<open>Example data: a configured module, and a backend whose call is rejected.\<close>

definition demo_configured :: rl_module where
  "demo_configured =
     \<lparr>UPSTASH_URL = ascii ''https://eu1.upstash.io'', UPSTASH_TOKEN = ascii ''tok'',
      rateLimiter = None, hits = Map.empty\<rparr>"

definition demo_unconfigured :: rl_module where
  "demo_unconfigured =
     \<lparr>UPSTASH_URL = [], UPSTASH_TOKEN = [], rateLimiter = None, hits = Map.empty\<rparr>"

definition demo_failing_limiter :: limiter where
  "demo_failing_limiter = (\<lambda>identifier. Inl (JsError (ascii ''fetch failed'')))"

definition demo_working_limiter :: limiter where
  "demo_working_limiter =
     (\<lambda>identifier. Inr \<lparr>u_success = True, u_remaining = 9, u_reset = 60000\<rparr>)"

section \<open>String operations of the JavaScript runtime\<close>

text \<open>
  \<open>\s\<close> in a regular expression and the characters \<open>trim()\<close> removes: the white space
  and line terminator code points of ECMAScript.
\<close>

definition is_ws :: "nat \<Rightarrow> bool" where
  "is_ws c \<longleftrightarrow>
     c = 9 \<or> c = 10 \<or> c = 11 \<or> c = 12 \<or> c = 13 \<or> c = 32 \<or> c = 160 \<or> c = 5760 \<or>
     (8192 \<le> c \<and> c \<le> 8202) \<or> c = 8232 \<or> c = 8233 \<or> c = 8239 \<or> c = 8287 \<or>
     c = 12288 \<or> c = 65279"

text \<open>\<open>s.trim()\<close>\<close>

definition trim :: "jstring \<Rightarrow> jstring" where
  "trim s = rev (dropWhile is_ws (rev (dropWhile is_ws s)))"

text \<open>\<open>s.replace(/\s+/g, ' ')\<close>: every maximal run of white space becomes one space.\<close>

function collapse_ws :: "jstring \<Rightarrow> jstring" where
  "collapse_ws [] = []"
| "collapse_ws (c # cs) =
     (if is_ws c then 32 # collapse_ws (dropWhile is_ws cs) else c # collapse_ws cs)"
  by pat_completeness auto
termination
  by (relation "measure length") (auto simp: less_Suc_eq_le length_dropWhile_le)

text \<open>\<open>s.startsWith(p)\<close>\<close>

definition startsWith :: "jstring \<Rightarrow> jstring \<Rightarrow> bool" where
  "startsWith s p \<longleftrightarrow> take (length p) s = p"

text \<open>
  \<open>s.replace(/p/g, r)\<close> for a pattern \<open>p\<close> that is a literal, non-empty text: the
  occurrences are found from left to right and do not overlap.
\<close>

function replace_all :: "jstring \<Rightarrow> jstring \<Rightarrow> jstring \<Rightarrow> jstring" where
  "replace_all p r s =
     (if p = [] \<or> s = [] then s
      else if startsWith s p then r @ replace_all p r (drop (length p) s)
      else hd s # replace_all p r (tl s))"
  by pat_completeness auto
termination
  by (relation "measure (\<lambda>(p, r, s). length s)") (auto simp: neq_Nil_conv)

text \<open>\<open>s.includes(p)\<close>\<close>

fun includes_str :: "jstring \<Rightarrow> jstring \<Rightarrow> bool" where
  "includes_str [] p = (p = [])"
| "includes_str (c # cs) p = (startsWith (c # cs) p \<or> includes_str cs p)"

text \<open>\<open>parts.join(sep)\<close>\<close>

fun join :: "jstring \<Rightarrow> jstring list \<Rightarrow> jstring" where
  "join sep [] = []"
| "join sep [x] = x"
| "join sep (x # y # ys) = x @ sep @ join sep (y # ys)"

text \<open>
  \<open>s.split(sep)\<close> for a non-empty literal separator; \<open>acc\<close> is the piece being read.
  The empty string splits into one empty piece.
\<close>

function split_from :: "jstring \<Rightarrow> jstring \<Rightarrow> jstring \<Rightarrow> jstring list" where
  "split_from sep acc s =
     (if s = [] then [acc]
      else if sep \<noteq> [] \<and> startsWith s sep then acc # split_from sep [] (drop (length sep) s)
      else split_from sep (acc @ [hd s]) (tl s))"
  by pat_completeness auto
termination
  by (relation "measure (\<lambda>(sep, acc, s). length s)") (auto simp: neq_Nil_conv)

definition split :: "jstring \<Rightarrow> jstring \<Rightarrow> jstring list" where
  "split s sep = split_from sep [] s"

text \<open>
  \<open>s.split(/\n\s*\n/)\<close>. A match starts at a line feed; \<open>\s*\<close> is greedy and line feeds
  are white space, so the match runs to the last line feed of the white space that follows,
  and there is no match when that white space holds no line feed.
  \<open>blank_gap cs\<close> is the number of code units the match takes after its first line feed.
\<close>

definition blank_gap :: "jstring \<Rightarrow> nat option" where
  "blank_gap cs =
     (let run = takeWhile is_ws cs in
      if 10 \<in> set run
      then Some (length run - length (takeWhile (\<lambda>c. c \<noteq> 10) (rev run)))
      else None)"

function split_blocks_from :: "jstring \<Rightarrow> jstring \<Rightarrow> jstring list" where
  "split_blocks_from acc s =
     (if s = [] then [acc]
      else (case (if hd s = 10 then blank_gap (tl s) else None) of
              Some n \<Rightarrow> acc # split_blocks_from [] (drop n (tl s))
            | None \<Rightarrow> split_blocks_from (acc @ [hd s]) (tl s)))"
  by pat_completeness auto
termination
  by (relation "measure (\<lambda>(acc, s). length s)") (auto simp: neq_Nil_conv)

definition split_blocks :: "jstring \<Rightarrow> jstring list" where
  "split_blocks s = split_blocks_from [] s"

section \<open>Subtitle documents (lib/services/extractor.audio)\<close>

record SrtSegment =
  seg_index :: jstring
  seg_start :: jstring
  seg_end :: jstring
  seg_text :: jstring
  instrumental :: bool

text \<open>The music-note glyph U+1F3B5, two code units in a JavaScript string.\<close>

definition music_note :: jstring where
  "music_note = [55356, 57269]"

text \<open>
  The body of the \<open>for\<close> loop of \<open>srtToJson\<close> for one block: \<open>None\<close> where the source
  says \<open>continue\<close>, otherwise the entry it pushes.
\<close>

definition parse_block :: "jstring \<Rightarrow> SrtSegment option" where
  "parse_block block =
     (let lines = split block [10] in
      if length lines < 3 then None
      else
        (let index = trim (lines ! 0);
             timeLine = lines ! 1;
             parts = split timeLine (ascii '' --> '')
         in if length parts < 2 then None
            else
              (let start = trim (parts ! 0);
                   end = trim (parts ! 1);
                   text = trim (join [32] (drop 2 lines));
                   instr = (text = music_note \<or> includes_str text music_note)
               in Some \<lparr>seg_index = index, seg_start = start, seg_end = end,
                         seg_text = text, instrumental = instr\<rparr>)))"

fun srt_loop :: "jstring list \<Rightarrow> SrtSegment list \<Rightarrow> SrtSegment list" where
  "srt_loop [] entries = entries"
| "srt_loop (block # blocks) entries =
     (case parse_block block of
        None \<Rightarrow> srt_loop blocks entries
      | Some entry \<Rightarrow> srt_loop blocks (entries @ [entry]))"

definition srtToJson :: "jstring \<Rightarrow> SrtSegment list" where
  "srtToJson srt = srt_loop (split_blocks (trim srt)) []"

definition segmentsToText :: "SrtSegment list \<Rightarrow> jstring" where
  "segmentsToText segments =
     trim (collapse_ws (join [32] (map seg_text (filter (\<lambda>s. \<not> instrumental s) segments))))"

section \<open>Transcription job client (lib/services/extractor.audio)\<close>

definition MAX_POLL_ATTEMPTS :: nat where
  "MAX_POLL_ATTEMPTS = 60"

definition POLL_INTERVAL_MS :: nat where
  "POLL_INTERVAL_MS = 3000"

record AudioExtractionResult =
  a_ok :: bool
  a_text :: "jstring option"
  a_segments :: "SrtSegment list option"
  a_warnings :: "jstring list"
  a_error :: "jstring option"

text \<open>
  \<open>parseAudioDataUrl\<close>: the regular expression \<open>/^data:([^;]+);base64,(.+)$/s\<close>. The first
  group cannot hold a semicolon, so it is the text between \<open>data:\<close> and the first
  semicolon. The result is the media type and the base64 text; decoding the base64 text and
  naming the uploaded file do not decide anything below and are left to the upload.
\<close>

definition parseAudioDataUrl :: "jstring \<Rightarrow> (jstring \<times> jstring) option" where
  "parseAudioDataUrl dataUrl =
     (if startsWith dataUrl (ascii ''data:'') then
        (let rest = drop 5 dataUrl;
             mimeType = takeWhile (\<lambda>c. c \<noteq> 59) rest;
             tail = drop (length mimeType) rest
         in if mimeType \<noteq> [] \<and> startsWith tail (ascii '';base64,'') \<and> drop 8 tail \<noteq> []
            then Some (mimeType, drop 8 tail)
            else None)
      else None)"

text \<open>
  The external service. A \<open>fetch\<close> either is rejected (a network error) or resolves to a
  response with a status code; \<open>res.ok\<close> is a status from 200 to 299. Reading the body
  (\<open>text()\<close>, \<open>json()\<close>) may be rejected in turn.
\<close>

definition http_ok :: "nat \<Rightarrow> bool" where
  "http_ok status \<longleftrightarrow> 200 \<le> status \<and> status \<le> 299"

record Job =
  job_id :: jstring
  job_status :: jstring

record UploadResponse =
  up_status :: nat
  up_text :: "js_error + jstring"
  up_json :: "js_error + Job"

record PollResponse =
  poll_status :: nat
  poll_json :: "js_error + jstring"

record DownloadResponse =
  dl_status :: nat
  dl_text :: "js_error + jstring"

text \<open>
  Everything the function reads from outside: the configured key, the outcome of the upload,
  the outcome of the \<open>n\<close>-th poll request (\<open>n = 1, 2, ...\<close>) and the outcome of the download.
\<close>

record audio_env =
  WHISPER_SRT_API_KEY :: "jstring option"
  upload :: "js_error + UploadResponse"
  poll :: "nat \<Rightarrow> js_error + PollResponse"
  download :: "js_error + DownloadResponse"

text \<open>
  The \<open>while\<close> loop. Its state is the status, the attempts made and the milliseconds asked
  of \<open>setTimeout\<close> so far. A rejected \<open>fetch\<close> or \<open>json()\<close> leaves the loop as an
  exception; a response that is not \<open>ok\<close> takes the \<open>continue\<close>.
\<close>

function poll_loop ::
  "(nat \<Rightarrow> js_error + PollResponse) \<Rightarrow> jstring \<Rightarrow> nat \<Rightarrow> nat \<Rightarrow>
     (js_error + jstring) \<times> nat \<times> nat" where
  "poll_loop polls status attempts slept =
     (if status = ascii ''PROCESSING'' \<and> attempts < MAX_POLL_ATTEMPTS then
        (let slept' = slept + POLL_INTERVAL_MS;
             attempts' = attempts + 1
         in case polls attempts' of
              Inl err \<Rightarrow> (Inl err, attempts', slept')
            | Inr pollRes \<Rightarrow>
                if \<not> http_ok (poll_status pollRes) then poll_loop polls status attempts' slept'
                else (case poll_json pollRes of
                        Inl err \<Rightarrow> (Inl err, attempts', slept')
                      | Inr status' \<Rightarrow> poll_loop polls status' attempts' slept'))
      else (Inr status, attempts, slept))"
  by pat_completeness auto
termination
  by (relation "measure (\<lambda>(polls, status, attempts, slept). MAX_POLL_ATTEMPTS - attempts)") auto

text \<open>The messages of the source.\<close>

definition msg_not_configured :: jstring where
  "msg_not_configured =
     ascii ''Servi'' @ [231] @ ascii ''o de transcri'' @ [231, 227] @ ascii ''o de '' @ [225] @
     ascii ''udio n'' @ [227] @ ascii ''o configurado (WHISPER_SRT_API_KEY).''"

definition msg_invalid_audio :: jstring where
  "msg_invalid_audio =
     ascii ''Formato de '' @ [225] @ ascii ''udio inv'' @ [225] @
     ascii ''lido. Envie um arquivo de '' @ [225] @ ascii ''udio v'' @ [225] @ ascii ''lido.''"

definition msg_timeout :: jstring where
  "msg_timeout =
     ascii ''Tempo esgotado aguardando transcri'' @ [231, 227] @ ascii ''o.''"

definition msg_download_failed :: jstring where
  "msg_download_failed =
     ascii ''Falha ao baixar a transcri'' @ [231, 227] @ ascii ''o gerada.''"

definition msg_empty_transcript :: jstring where
  "msg_empty_transcript =
     ascii ''Transcri'' @ [231, 227] @ ascii ''o do '' @ [225] @ ascii ''udio est'' @ [225] @
     ascii '' vazia ou cont'' @ [233] @ ascii ''m apenas instrumentais.''"

definition msg_no_speech :: jstring where
  "msg_no_speech =
     ascii ''Nenhuma fala detectada no '' @ [225] @ ascii ''udio.''"

definition msg_instrumental_removed :: jstring where
  "msg_instrumental_removed =
     ascii ''Partes instrumentais ('' @ [55356, 57269] @
     ascii '') foram identificadas e removidas da an'' @ [225] @ ascii ''lise.''"

definition msg_unknown_error :: jstring where
  "msg_unknown_error =
     ascii ''erro desconhecido''"

text \<open>The decimal digits of a number, as a template literal prints it.\<close>

fun digits_from :: "nat \<Rightarrow> nat \<Rightarrow> jstring \<Rightarrow> jstring" where
  "digits_from 0 n acc = acc"
| "digits_from (Suc fuel) n acc =
     (if n < 10 then (48 + n) # acc else digits_from fuel (n div 10) ((48 + n mod 10) # acc))"

definition show_nat :: "nat \<Rightarrow> jstring" where
  "show_nat n = digits_from (Suc n) n []"

definition msg_upload_failed :: "nat \<Rightarrow> jstring" where
  "msg_upload_failed status =
     ascii ''Falha ao enviar '' @ [225] @ ascii ''udio para transcri'' @ [231, 227] @ ascii ''o ('' @ show_nat status @ ascii '').''"

definition msg_status_failed :: "jstring \<Rightarrow> jstring" where
  "msg_status_failed status =
     ascii ''Transcri'' @ [231, 227] @ ascii ''o falhou (status: '' @ status @ ascii '').''"

text \<open>\<open>`Erro ao transcrever audio: ${err.message || 'erro desconhecido'}`\<close>\<close>

fun msg_transcribe_error :: "js_error \<Rightarrow> jstring" where
  "msg_transcribe_error (JsError message) =
     ascii ''Erro ao transcrever '' @ [225] @ ascii ''udio: '' @
     (if message = [] then msg_unknown_error else message)"

definition audio_failure :: "jstring \<Rightarrow> jstring list \<Rightarrow> AudioExtractionResult" where
  "audio_failure err ws =
     \<lparr>a_ok = False, a_text = None, a_segments = None, a_warnings = ws, a_error = Some err\<rparr>"

text \<open>
  The steps after the upload succeeded, inside the \<open>try\<close>. \<open>Inl\<close> is a thrown exception.
  Beside the outcome, the model reports the number of poll requests made and the
  milliseconds of waiting asked for, which the source does not return.
\<close>

definition audio_after_upload ::
  "audio_env \<Rightarrow> Job \<Rightarrow> (js_error + AudioExtractionResult) \<times> nat \<times> nat" where
  "audio_after_upload env job =
     (case poll_loop (poll env) (job_status job) 0 0 of
        (Inl err, attempts, slept) \<Rightarrow> (Inl err, attempts, slept)
      | (Inr status, attempts, slept) \<Rightarrow>
          if status \<noteq> ascii ''DONE'' then
            (let reason = (if attempts \<ge> MAX_POLL_ATTEMPTS then msg_timeout
                           else msg_status_failed status)
             in (Inr (audio_failure reason []), attempts, slept))
          else
            (case download env of
               Inl err \<Rightarrow> (Inl err, attempts, slept)
             | Inr downloadRes \<Rightarrow>
                 if \<not> http_ok (dl_status downloadRes)
                 then (Inr (audio_failure msg_download_failed []), attempts, slept)
                 else
                   (case dl_text downloadRes of
                      Inl err \<Rightarrow> (Inl err, attempts, slept)
                    | Inr srtText \<Rightarrow>
                        (let segments = srtToJson srtText;
                             fullText = segmentsToText segments
                         in if fullText = [] \<or> length fullText < 5
                            then (Inr (audio_failure msg_empty_transcript [msg_no_speech]),
                                  attempts, slept)
                            else (Inr \<lparr>a_ok = True, a_text = Some fullText,
                                       a_segments = Some segments,
                                       a_warnings =
                                         (if list_ex instrumental segments
                                          then [msg_instrumental_removed] else []),
                                       a_error = None\<rparr>, attempts, slept)))))"

definition audio_try :: "audio_env \<Rightarrow> (js_error + AudioExtractionResult) \<times> nat \<times> nat" where
  "audio_try env =
     (case upload env of
        Inl err \<Rightarrow> (Inl err, 0, 0)
      | Inr uploadRes \<Rightarrow>
          if \<not> http_ok (up_status uploadRes) then
            (case up_text uploadRes of
               Inl err \<Rightarrow> (Inl err, 0, 0)
             | Inr errText \<Rightarrow>
                 (Inr (audio_failure (msg_upload_failed (up_status uploadRes)) []), 0, 0))
          else
            (case up_json uploadRes of
               Inl err \<Rightarrow> (Inl err, 0, 0)
             | Inr job \<Rightarrow> audio_after_upload env job))"

text \<open>
  \<open>extractAudioTranscript\<close>: the guards before the \<open>try\<close>, and the \<open>catch\<close> that turns
  every exception into a failed result.
\<close>

definition extractAudioTranscript ::
  "audio_env \<Rightarrow> jstring \<Rightarrow> AudioExtractionResult \<times> nat \<times> nat" where
  "extractAudioTranscript env audioDataUrl =
     (case WHISPER_SRT_API_KEY env of
        None \<Rightarrow> (audio_failure msg_not_configured [], 0, 0)
      | Some apiKey \<Rightarrow>
          if apiKey = [] then (audio_failure msg_not_configured [], 0, 0)
          else
            (case parseAudioDataUrl audioDataUrl of
               None \<Rightarrow> (audio_failure msg_invalid_audio [], 0, 0)
             | Some parsed \<Rightarrow>
                 (case audio_try env of
                    (Inl err, attempts, slept) \<Rightarrow>
                      (audio_failure (msg_transcribe_error err) [], attempts, slept)
                  | (Inr r, attempts, slept) \<Rightarrow> (r, attempts, slept))))"


text \<open>Example data: an audio payload, and services that stay busy, answer 503, or drop the connection.\<close>

definition demo_audio_url :: jstring where
  "demo_audio_url = ascii ''data:audio/mpeg;base64,SUQzBAAAAAAA''"

definition demo_upload :: "js_error + UploadResponse" where
  "demo_upload =
     Inr \<lparr>up_status = 201, up_text = Inr [],
          up_json = Inr \<lparr>job_id = ascii ''job-1'', job_status = ascii ''PROCESSING''\<rparr>\<rparr>"

definition demo_poll_busy :: "js_error + PollResponse" where
  "demo_poll_busy = Inr \<lparr>poll_status = 200, poll_json = Inr (ascii ''PROCESSING'')\<rparr>"


definition demo_poll_done :: "js_error + PollResponse" where
  "demo_poll_done = Inr \<lparr>poll_status = 200, poll_json = Inr (ascii ''DONE'')\<rparr>"




text \<open>Example data: a subtitle document with a music block and two malformed blocks.\<close>

definition demo_block_speech :: jstring where
  "demo_block_speech =
     ascii ''1'' @ [10] @ ascii ''00:00:01,000 --> 00:00:04,000'' @ [10] @
     ascii ''Bom dia a todos''"

definition demo_block_music :: jstring where
  "demo_block_music =
     ascii ''2'' @ [10] @ ascii ''00:00:04,000 --> 00:00:06,000'' @ [10, 55356, 57269]"

definition demo_block_short :: jstring where
  "demo_block_short =
     ascii ''3'' @ [10] @ ascii ''sem tempo''"

definition demo_block_no_arrow :: jstring where
  "demo_block_no_arrow =
     ascii ''4'' @ [10] @ ascii ''00:00:07,000 -> 00:00:09,000'' @ [10] @ ascii ''seta errada''"

definition demo_block_two_lines :: jstring where
  "demo_block_two_lines =
     ascii ''5'' @ [10] @ ascii ''00:00:09,000 --> 00:00:12,000'' @ [10] @ ascii ''vamos falar'' @
     [10] @ ascii ''de economia''"

definition demo_srt :: jstring where
  "demo_srt =
     demo_block_speech @ [10, 10] @ demo_block_music @ [10, 13, 10] @ demo_block_short @
     [10, 10] @ demo_block_no_arrow @ [10, 32, 10, 10] @ demo_block_two_lines @ [10]"

definition demo_seg_speech :: SrtSegment where
  "demo_seg_speech =
     \<lparr>seg_index = ascii ''1'', seg_start = ascii ''00:00:01,000'', seg_end = ascii ''00:00:04,000'',
      seg_text = ascii ''Bom dia a todos'', instrumental = False\<rparr>"

definition demo_seg_music :: SrtSegment where
  "demo_seg_music =
     \<lparr>seg_index = ascii ''2'', seg_start = ascii ''00:00:04,000'', seg_end = ascii ''00:00:06,000'',
      seg_text = music_note, instrumental = True\<rparr>"

definition demo_seg_two_lines :: SrtSegment where
  "demo_seg_two_lines =
     \<lparr>seg_index = ascii ''5'', seg_start = ascii ''00:00:09,000'', seg_end = ascii ''00:00:12,000'',
      seg_text = ascii ''vamos falar de economia'', instrumental = False\<rparr>"

definition demo_block_mixed :: jstring where
  "demo_block_mixed =
     ascii ''6'' @ [10] @ ascii ''00:00:12,000 --> 00:00:15,000'' @ [10, 55356, 57269] @
     ascii '' la la''"

definition demo_seg_mixed :: SrtSegment where
  "demo_seg_mixed =
     \<lparr>seg_index = ascii ''6'', seg_start = ascii ''00:00:12,000'', seg_end = ascii ''00:00:15,000'',
      seg_text = music_note @ ascii '' la la'', instrumental = True\<rparr>"

definition demo_env_done :: audio_env where
  "demo_env_done =
     \<lparr>WHISPER_SRT_API_KEY = Some (ascii ''key''), upload = demo_upload,
      poll = (\<lambda>n. if n < 3 then demo_poll_busy else demo_poll_done),
      download = Inr \<lparr>dl_status = 200, dl_text = Inr demo_srt\<rparr>\<rparr>"

section \<open>Caption extractor (lib/services/extractor.youtube)\<close>

text \<open>The \<open>ExtractionResult\<close> of lib/services/extractor.web, as this module fills it.\<close>

record ExtractionResult =
  x_ok :: bool
  x_text :: "jstring option"
  x_title :: "jstring option"
  x_sourceUrl :: "jstring option"
  x_warnings :: "jstring list"
  x_error :: "jstring option"

text \<open>
  \<open>YOUTUBE_ID_REGEX\<close>: one of four prefixes followed by eleven characters of \<open>[\w-]\<close>,
  at the leftmost position of the URL where that matches.
\<close>

definition is_id_char :: "nat \<Rightarrow> bool" where
  "is_id_char c \<longleftrightarrow>
     (48 \<le> c \<and> c \<le> 57) \<or> (65 \<le> c \<and> c \<le> 90) \<or> (97 \<le> c \<and> c \<le> 122) \<or> c = 95 \<or> c = 45"

definition match_id_after :: "jstring \<Rightarrow> jstring \<Rightarrow> jstring option" where
  "match_id_after prefix s =
     (if startsWith s prefix then
        (let ident = take 11 (drop (length prefix) s) in
         if length ident = 11 \<and> list_all is_id_char ident then Some ident else None)
      else None)"

definition youtube_id_here :: "jstring \<Rightarrow> jstring option" where
  "youtube_id_here s =
     (case match_id_after (ascii ''youtube.com/watch?v='') s of
        Some ident \<Rightarrow> Some ident
      | None \<Rightarrow>
     (case match_id_after (ascii ''youtube.com/shorts/'') s of
        Some ident \<Rightarrow> Some ident
      | None \<Rightarrow>
     (case match_id_after (ascii ''youtube.com/embed/'') s of
        Some ident \<Rightarrow> Some ident
      | None \<Rightarrow> match_id_after (ascii ''youtu.be/'') s)))"

fun youtube_id :: "jstring \<Rightarrow> jstring option" where
  "youtube_id [] = None"
| "youtube_id (c # cs) =
     (case youtube_id_here (c # cs) of
        Some ident \<Rightarrow> Some ident
      | None \<Rightarrow> youtube_id cs)"

definition msg_no_video_id :: jstring where
  "msg_no_video_id =
     ascii ''N'' @ [227] @ ascii ''o foi poss'' @ [237] @ ascii ''vel identificar o ID do v'' @
     [237] @ ascii ''deo no link do YouTube.''"

definition msg_no_captions :: jstring where
  "msg_no_captions =
     ascii ''Inconclusivo: este v'' @ [237] @ ascii ''deo n'' @ [227] @
     ascii ''o possui legenda/transcri'' @ [231, 227] @ ascii ''o dispon'' @ [237] @
     ascii ''vel para an'' @ [225] @ ascii ''lise. Cole a transcri'' @ [231, 227] @
     ascii ''o ou envie o '' @ [225] @ ascii ''udio.''"

definition msg_fallback_language :: jstring where
  "msg_fallback_language =
     ascii ''Transcri'' @ [231, 227] @ ascii ''o obtida em idioma alternativo (n'' @ [227] @
     ascii ''o pt-BR).''"

definition msg_too_short :: jstring where
  "msg_too_short =
     ascii ''Inconclusivo: transcri'' @ [231, 227] @ ascii ''o muito curta para an'' @ [225] @
     ascii ''lise. Cole a transcri'' @ [231, 227] @ ascii ''o completa ou envie o '' @ [225] @
     ascii ''udio.''"

definition msg_truncated :: jstring where
  "msg_truncated =
     ascii ''Transcri'' @ [231, 227] @ ascii ''o truncada em 10.000 caracteres.''"

definition yt_failure :: "jstring \<Rightarrow> jstring list \<Rightarrow> ExtractionResult" where
  "yt_failure err warnings =
     \<lparr>x_ok = False, x_text = None, x_title = None, x_sourceUrl = None,
      x_warnings = warnings, x_error = Some err\<rparr>"

text \<open>The chain of replacements at the head of \<open>buildTranscriptResult\<close>.\<close>

definition clean_transcript :: "jstring \<Rightarrow> jstring" where
  "clean_transcript text =
     trim
      (replace_all (ascii ''&quot;'') [34]
        (replace_all (ascii ''&#39;'') [39]
          (replace_all (ascii ''&gt;'') (ascii ''>'')
            (replace_all (ascii ''&lt;'') (ascii ''<'')
              (replace_all (ascii ''&amp;'') (ascii ''&'')
                (collapse_ws text))))))"

definition transcript_header :: "jstring \<Rightarrow> jstring" where
  "transcript_header videoId =
     ascii ''[Transcri'' @ [231, 227] @ ascii ''o do v'' @ [237] @ ascii ''deo YouTube: '' @ videoId @ ascii '']'' @ [10, 10]"

definition transcript_title :: "jstring \<Rightarrow> jstring" where
  "transcript_title videoId = ascii ''V'' @ [237] @ ascii ''deo YouTube: '' @ videoId"

text \<open>
  \<open>buildTranscriptResult\<close>. The \<open>warnings\<close> array is shared with the caller; the model
  returns it in the result, with the warning pushed when the text was cut.
\<close>

definition buildTranscriptResult ::
  "jstring \<Rightarrow> jstring \<Rightarrow> jstring \<Rightarrow> jstring list \<Rightarrow> ExtractionResult" where
  "buildTranscriptResult text videoId url warnings =
     (let cleaned = clean_transcript text in
      if length cleaned < 100 then yt_failure msg_too_short warnings
      else
        (let (cleaned', warnings') =
               (if length cleaned > 10000
                then (take 10000 cleaned, warnings @ [msg_truncated])
                else (cleaned, warnings))
         in \<lparr>x_ok = True,
             x_text = Some (transcript_header videoId @ cleaned'),
             x_title = Some (transcript_title videoId),
             x_sourceUrl = Some url,
             x_warnings = warnings',
             x_error = None\<rparr>))"

text \<open>
  The caption source. \<open>fetchTranscript videoId lang\<close> is rejected, or resolves to a list
  of items or to nothing; an item is modelled by its \<open>text\<close>. \<open>yt_import\<close> is the exception
  of the dynamic import, if it raises one.
\<close>

record yt_env =
  yt_import :: "js_error option"
  fetchTranscript :: "jstring \<Rightarrow> jstring option \<Rightarrow> js_error + jstring list option"

text \<open>\<open>!items || items.length === 0\<close>\<close>

fun no_items :: "jstring list option \<Rightarrow> bool" where
  "no_items None = True"
| "no_items (Some items) = (items = [])"

fun items_of :: "jstring list option \<Rightarrow> jstring list" where
  "items_of None = []"
| "items_of (Some items) = items"

text \<open>
  The body of the \<open>try\<close>. Beside the outcome the model returns the calls made to
  \<open>fetchTranscript\<close>, each with its video id and language hint.
\<close>

definition yt_try ::
  "yt_env \<Rightarrow> jstring \<Rightarrow> jstring \<Rightarrow> jstring list \<Rightarrow>
     (js_error + ExtractionResult) \<times> (jstring \<times> jstring option) list" where
  "yt_try env url videoId warnings =
     (case yt_import env of
        Some err \<Rightarrow> (Inl err, [])
      | None \<Rightarrow>
          (case fetchTranscript env videoId (Some (ascii ''pt'')) of
             Inl err \<Rightarrow> (Inl err, [(videoId, Some (ascii ''pt''))])
           | Inr transcriptItems \<Rightarrow>
               if no_items transcriptItems then
                 (let fallbackItems =
                        (case fetchTranscript env videoId None of
                           Inl err \<Rightarrow> None
                         | Inr items \<Rightarrow> items);
                      calls = [(videoId, Some (ascii ''pt'')), (videoId, None)]
                  in if no_items fallbackItems
                     then (Inr (yt_failure msg_no_captions warnings), calls)
                     else
                       (let warnings' = warnings @ [msg_fallback_language];
                            text = trim (join [32] (items_of fallbackItems))
                        in (Inr (buildTranscriptResult text videoId url warnings'), calls)))
               else
                 (let text = trim (join [32] (items_of transcriptItems))
                  in (Inr (buildTranscriptResult text videoId url warnings),
                      [(videoId, Some (ascii ''pt''))]))))"

text \<open>The \<open>catch\<close> block.\<close>

fun yt_catch :: "js_error \<Rightarrow> jstring list \<Rightarrow> ExtractionResult" where
  "yt_catch (JsError msg) warnings =
     (if includes_str msg (ascii ''disabled'') \<or> includes_str msg (ascii ''not available'') \<or>
         includes_str msg (ascii ''Could not'')
      then yt_failure msg_no_captions warnings
      else yt_failure
             (ascii ''Erro ao obter transcri'' @ [231, 227] @ ascii ''o do YouTube: '' @
              (if msg = [] then msg_unknown_error else msg) @
              ascii ''. Cole a transcri'' @ [231, 227] @ ascii ''o ou envie o '' @ [225] @ ascii ''udio.'')
             warnings)"

definition extractYouTubeTranscript ::
  "yt_env \<Rightarrow> jstring \<Rightarrow> ExtractionResult \<times> (jstring \<times> jstring option) list" where
  "extractYouTubeTranscript env url =
     (let warnings = [] in
      case youtube_id url of
        None \<Rightarrow> (yt_failure msg_no_video_id warnings, [])
      | Some videoId \<Rightarrow>
          (case yt_try env url videoId warnings of
             (Inr result, calls) \<Rightarrow> (result, calls)
           | (Inl err, calls) \<Rightarrow> (yt_catch err warnings, calls)))"

text \<open>Example data: a video whose Portuguese track is empty and whose default track is not.\<close>

definition demo_video_url :: jstring where
  "demo_video_url = ascii ''https://www.youtube.com/watch?v=dQw4w9WgXcQ''"

definition demo_video_id :: jstring where
  "demo_video_id = ascii ''dQw4w9WgXcQ''"

definition demo_items :: "jstring list" where
  "demo_items = [replicate 60 97, replicate 60 98]"

definition demo_env_fallback :: yt_env where
  "demo_env_fallback =
     \<lparr>yt_import = None,
      fetchTranscript = (\<lambda>videoId lang. if lang = None then Inr (Some demo_items) else Inr (Some []))\<rparr>"

definition demo_env_no_captions :: yt_env where
  "demo_env_no_captions =
     \<lparr>yt_import = None,
      fetchTranscript =
        (\<lambda>videoId lang. if lang = None then Inl (JsError (ascii ''Transcript is disabled''))
                        else Inr None)\<rparr>"

text \<open>A video whose Portuguese track is one long caption.\<close>

definition demo_env_main :: yt_env where
  "demo_env_main =
     \<lparr>yt_import = None,
      fetchTranscript = (\<lambda>videoId lang. Inr (Some [replicate 10001 97]))\<rparr>"

section \<open>The fingerprint: SHA-256 of the UTF-8 bytes, in hexadecimal\<close>

text \<open>
  \<open>crypto.createHash('sha256').update(s).digest('hex')\<close>. Node encodes the string as
  UTF-8: a surrogate pair is one code point of four bytes, a lone surrogate becomes U+FFFD.
\<close>

definition is_high_surrogate :: "nat \<Rightarrow> bool" where
  "is_high_surrogate c \<longleftrightarrow> 55296 \<le> c \<and> c < 56320"

definition is_low_surrogate :: "nat \<Rightarrow> bool" where
  "is_low_surrogate c \<longleftrightarrow> 56320 \<le> c \<and> c < 57344"

definition utf8_code_point :: "nat \<Rightarrow> nat list" where
  "utf8_code_point cp =
     (if cp < 128 then [cp]
      else if cp < 2048 then [192 + cp div 64, 128 + cp mod 64]
      else if cp < 65536 then [224 + cp div 4096, 128 + (cp div 64) mod 64, 128 + cp mod 64]
      else [240 + cp div 262144, 128 + (cp div 4096) mod 64, 128 + (cp div 64) mod 64,
            128 + cp mod 64])"

fun utf8 :: "jstring \<Rightarrow> nat list" where
  "utf8 [] = []"
| "utf8 [c] = (if is_high_surrogate c \<or> is_low_surrogate c then [239, 191, 189]
              else utf8_code_point c)"
| "utf8 (c # d # cs) =
     (if is_high_surrogate c \<and> is_low_surrogate d
      then utf8_code_point (65536 + (c - 55296) * 1024 + (d - 56320)) @ utf8 cs
      else if is_high_surrogate c \<or> is_low_surrogate c then [239, 191, 189] @ utf8 (d # cs)
      else utf8_code_point c @ utf8 (d # cs))"

text \<open>
  SHA-256 (FIPS 180-4) on 32-bit words, the wrap-around written out. The round constants
  and the initial hash value are given in decimal.
\<close>

definition add32 :: "nat \<Rightarrow> nat \<Rightarrow> nat" where
  "add32 x y = (x + y) mod 4294967296"

definition rotr :: "nat \<Rightarrow> nat \<Rightarrow> nat" where
  "rotr n x = (x div 2 ^ n) OR ((x * 2 ^ (32 - n)) mod 4294967296)"

definition shr :: "nat \<Rightarrow> nat \<Rightarrow> nat" where
  "shr n x = x div 2 ^ n"

definition not32 :: "nat \<Rightarrow> nat" where
  "not32 x = 4294967295 - x"

definition sha_K :: "nat list" where
  "sha_K =
     [
      1116352408, 1899447441, 3049323471, 3921009573, 961987163, 1508970993,
      2453635748, 2870763221, 3624381080, 310598401, 607225278, 1426881987,
      1925078388, 2162078206, 2614888103, 3248222580, 3835390401, 4022224774,
      264347078, 604807628, 770255983, 1249150122, 1555081692, 1996064986,
      2554220882, 2821834349, 2952996808, 3210313671, 3336571891, 3584528711,
      113926993, 338241895, 666307205, 773529912, 1294757372, 1396182291,
      1695183700, 1986661051, 2177026350, 2456956037, 2730485921, 2820302411,
      3259730800, 3345764771, 3516065817, 3600352804, 4094571909, 275423344,
      430227734, 506948616, 659060556, 883997877, 958139571, 1322822218,
      1537002063, 1747873779, 1955562222, 2024104815, 2227730452, 2361852424,
      2428436474, 2756734187, 3204031479, 3329325298]"

definition sha_H0 :: "nat list" where
  "sha_H0 =
     [
      1779033703, 3144134277, 1013904242, 2773480762, 1359893119, 2600822924,
      528734635, 1541459225]"

definition ssig0 :: "nat \<Rightarrow> nat" where
  "ssig0 x = rotr 7 x XOR rotr 18 x XOR shr 3 x"

definition ssig1 :: "nat \<Rightarrow> nat" where
  "ssig1 x = rotr 17 x XOR rotr 19 x XOR shr 10 x"

definition bsig0 :: "nat \<Rightarrow> nat" where
  "bsig0 x = rotr 2 x XOR rotr 13 x XOR rotr 22 x"

definition bsig1 :: "nat \<Rightarrow> nat" where
  "bsig1 x = rotr 6 x XOR rotr 11 x XOR rotr 25 x"

definition ch :: "nat \<Rightarrow> nat \<Rightarrow> nat \<Rightarrow> nat" where
  "ch x y z = (x AND y) XOR (not32 x AND z)"

definition maj :: "nat \<Rightarrow> nat \<Rightarrow> nat \<Rightarrow> nat" where
  "maj x y z = (x AND y) XOR (x AND z) XOR (y AND z)"

text \<open>
  The message schedule, latest word first; one word is added for each element of the first
  argument (the 48 round constants after the sixteenth).
\<close>

fun schedule :: "'a list \<Rightarrow> nat list \<Rightarrow> nat list" where
  "schedule [] ws = ws"
| "schedule (i # is) ws =
     schedule is (add32 (add32 (add32 (ssig1 (ws ! 1)) (ws ! 6)) (ssig0 (ws ! 14))) (ws ! 15) # ws)"

fun be32 :: "nat list \<Rightarrow> nat list" where
  "be32 (a # b # c # d # r) = (((a * 256 + b) * 256 + c) * 256 + d) # be32 r"
| "be32 _ = []"

fun round_step :: "nat list \<Rightarrow> nat \<times> nat \<Rightarrow> nat list" where
  "round_step [a, b, c, d, e, f, g, h] (k, w) =
     (let t1 = add32 (add32 (add32 (add32 h (bsig1 e)) (ch e f g)) k) w;
          t2 = add32 (bsig0 a) (maj a b c)
      in [add32 t1 t2, a, b, c, add32 d t1, e, f, g])"
| "round_step s _ = s"

definition compress :: "nat list \<Rightarrow> nat list \<Rightarrow> nat list" where
  "compress hs block =
     (let ws = rev (schedule (drop 16 sha_K) (rev (be32 block)))
      in map2 add32 hs (foldl round_step hs (zip sha_K ws)))"

definition be_bytes8 :: "nat \<Rightarrow> nat list" where
  "be_bytes8 v =
     [v div 72057594037927936 mod 256, v div 281474976710656 mod 256,
      v div 1099511627776 mod 256, v div 4294967296 mod 256,
      v div 16777216 mod 256, v div 65536 mod 256, v div 256 mod 256, v mod 256]"

definition pad :: "nat list \<Rightarrow> nat list" where
  "pad msg =
     msg @ [128] @ replicate ((119 - length msg mod 64) mod 64) 0 @ be_bytes8 (8 * length msg)"

function chunks64 :: "'a list \<Rightarrow> 'a list list" where
  "chunks64 xs = (if xs = [] then [] else take 64 xs # chunks64 (drop 64 xs))"
  by pat_completeness auto
termination
  by (relation "measure length") auto

definition sha256 :: "nat list \<Rightarrow> nat list" where
  "sha256 msg = foldl compress sha_H0 (chunks64 (pad msg))"

definition hex_digit :: "nat \<Rightarrow> nat" where
  "hex_digit n = (if n < 10 then 48 + n else 87 + n)"

definition hex32 :: "nat \<Rightarrow> jstring" where
  "hex32 w =
     map hex_digit
       [w div 268435456 mod 16, w div 16777216 mod 16, w div 1048576 mod 16, w div 65536 mod 16,
        w div 4096 mod 16, w div 256 mod 16, w div 16 mod 16, w mod 16]"

definition sha256_hex :: "jstring \<Rightarrow> jstring" where
  "sha256_hex s = concat (map hex32 (sha256 (utf8 s)))"

section \<open>Analysis pipeline (lib/analyzePipeline)\<close>

text \<open>
  JavaScript values as \<open>JSON.parse\<close> builds them and as the pipeline changes them. An
  array is an object too: beside its elements it can be given named properties, which
  \<open>JSON.stringify\<close> does not print.
\<close>

datatype json =
    JNull
  | JBool bool
  | JNum rat
  | JStr jstring
  | JArr "json list" "(jstring \<times> json) list"
  | JObj "(jstring \<times> json) list"

text \<open>\<open>v.k\<close> for a name \<open>k\<close> that is not an index or \<open>length\<close>: \<open>None\<close> is \<open>undefined\<close>, \<open>Inl\<close> the TypeError on \<open>null\<close>.\<close>

fun get_prop :: "json \<Rightarrow> jstring \<Rightarrow> js_error + json option" where
  "get_prop JNull k =
     Inl (JsError (ascii ''Cannot read properties of null (reading '' @ [39] @ k @ [39] @ ascii '')''))"
| "get_prop (JObj fs) k = Inr (map_of fs k)"
| "get_prop (JArr elems props) k = Inr (map_of props k)"
| "get_prop v k = Inr None"

text \<open>The fields of an object with \<open>k\<close> set: an existing key keeps its place, a new one goes last.\<close>

fun put_field :: "(jstring \<times> json) list \<Rightarrow> jstring \<Rightarrow> json \<Rightarrow> (jstring \<times> json) list" where
  "put_field [] k x = [(k, x)]"
| "put_field ((k', y) # fs) k x =
     (if k' = k then (k, x) # fs else (k', y) # put_field fs k x)"

text \<open>\<open>v.k = x\<close> in strict mode (module code): a TypeError on \<open>null\<close> and on a primitive.\<close>

fun set_prop :: "json \<Rightarrow> jstring \<Rightarrow> json \<Rightarrow> js_error + json" where
  "set_prop (JObj fs) k x = Inr (JObj (put_field fs k x))"
| "set_prop (JArr elems props) k x = Inr (JArr elems (put_field props k x))"
| "set_prop JNull k x =
     Inl (JsError (ascii ''Cannot set properties of null (setting '' @ [39] @ k @ [39] @ ascii '')''))"
| "set_prop v k x = Inl (JsError (ascii ''Cannot create property''))"

text \<open>Truthiness of \<open>v.k\<close>, for \<open>v.k || default\<close>.\<close>

fun truthy :: "json option \<Rightarrow> bool" where
  "truthy None = False"
| "truthy (Some JNull) = False"
| "truthy (Some (JBool b)) = b"
| "truthy (Some (JNum n)) = (n \<noteq> 0)"
| "truthy (Some (JStr s)) = (s \<noteq> [])"
| "truthy (Some v) = True"

text \<open>\<open>v.k = v.k || d\<close>\<close>

definition default_prop :: "json \<Rightarrow> jstring \<Rightarrow> json \<Rightarrow> js_error + json" where
  "default_prop v k d =
     (case get_prop v k of
        Inl err \<Rightarrow> Inl err
      | Inr None \<Rightarrow> set_prop v k d
      | Inr (Some cur) \<Rightarrow> if truthy (Some cur) then set_prop v k cur else set_prop v k d)"

definition SYSTEM_PROMPT :: jstring where
  "SYSTEM_PROMPT =
     ascii ''You are a neutral content analyst. Analyze the following content for signs of disinformation, bias, and manipulation.'' @
     [10, 10] @ ascii ''RULES:'' @ [10] @
     ascii ''- NEVER support candidates, parties, or ideologies'' @ [10] @
     ascii ''- ONLY evaluate explicit claims, not opinions or rhetoric'' @ [10] @
     ascii ''- Separate facts from opinions and lack of evidence'' @ [10] @
     ascii ''- In political contexts, evaluate claims only, never judge people or groups'' @
     [10] @ ascii ''- Prefer '' @ [34] @ ascii ''Inconclusivo'' @ [34] @
     ascii '' when there is insufficient basis to conclude'' @ [10] @
     ascii ''- Use neutral language, no partisan rhetoric'' @ [10] @
     ascii ''- When analyzing images, describe what you see and evaluate text/claims visible in the image'' @
     [10] @ ascii ''- When analyzing audio transcriptions, evaluate the spoken claims'' @
     [10, 10] @ ascii ''Return ONLY valid JSON (no markdown fences) with these fields:'' @ [10] @
     ascii ''{'' @ [10] @ ascii ''  '' @ [34] @ ascii ''meta'' @ [34] @ ascii '': { '' @ [34] @
     ascii ''id'' @ [34] @ ascii '': string, '' @ [34] @ ascii ''createdAt'' @ [34] @
     ascii '': string, '' @ [34] @ ascii ''inputType'' @ [34] @ ascii '': string, '' @ [34] @
     ascii ''language'' @ [34] @ ascii '': '' @ [34] @ ascii ''pt-BR'' @ [34] @ ascii '', '' @
     [34] @ ascii ''mode'' @ [34] @ ascii '': '' @ [34] @ ascii ''mvp_no_external_sources'' @
     [34] @ ascii '', '' @ [34] @ ascii ''warnings'' @ [34] @ ascii '': string[] },'' @ [10] @
     ascii ''  '' @ [34] @ ascii ''scores'' @ [34] @ ascii '': { '' @ [34] @
     ascii ''fakeProbability'' @ [34] @ ascii '': 0-100, '' @ [34] @ ascii ''verifiableTruth'' @
     [34] @ ascii '': 0-100, '' @ [34] @ ascii ''biasFraming'' @ [34] @ ascii '': 0-100, '' @
     [34] @ ascii ''manipulationRisk'' @ [34] @ ascii '': 0-100 },'' @ [10] @ ascii ''  '' @
     [34] @ ascii ''summary'' @ [34] @ ascii '': { '' @ [34] @ ascii ''headline'' @ [34] @
     ascii '': string, '' @ [34] @ ascii ''oneParagraph'' @ [34] @ ascii '': string, '' @ [34] @
     ascii ''verdict'' @ [34] @ ascii '': '' @ [34] @ ascii ''Provavel fake'' @ [34] @
     ascii '' | '' @ [34] @ ascii ''Provavel verdadeiro'' @ [34] @ ascii '' | '' @ [34] @
     ascii ''Inconclusivo'' @ [34] @ ascii '' },'' @ [10] @ ascii ''  '' @ [34] @
     ascii ''claims'' @ [34] @ ascii '': [{ '' @ [34] @ ascii ''claim'' @ [34] @
     ascii '': string, '' @ [34] @ ascii ''assessment'' @ [34] @ ascii '': string, '' @ [34] @
     ascii ''confidence'' @ [34] @ ascii '': number }],'' @ [10] @ ascii ''  '' @ [34] @
     ascii ''similar'' @ [34] @ ascii '': { '' @ [34] @ ascii ''searchQueries'' @ [34] @
     ascii '': string[], '' @ [34] @ ascii ''externalChecks'' @ [34] @ ascii '': string[] },'' @
     [10] @ ascii ''  '' @ [34] @ ascii ''reportMarkdown'' @ [34] @ ascii '': string'' @ [10] @
     ascii ''}''"

text \<open>The parts handed to the model: inline media or text.\<close>

datatype part = InlineData jstring jstring | TextPart jstring

text \<open>\<open>parseDataUrl\<close> has the regular expression of \<open>parseAudioDataUrl\<close>.\<close>

definition parseDataUrl :: "jstring \<Rightarrow> (jstring \<times> jstring) option" where
  "parseDataUrl content = parseAudioDataUrl content"

definition image_label :: jstring where
  "image_label =
     ascii ''The user uploaded an image. Describe what you see and analyze any text, claims or manipulation signs in it.''"

definition audio_label :: jstring where
  "audio_label =
     ascii ''The user uploaded an audio file. Transcribe what you hear and analyze any claims, bias or manipulation signs.''"

definition text_part :: "jstring \<Rightarrow> part" where
  "text_part content =
     (let normalized = take 20000 content
      in TextPart (SYSTEM_PROMPT @ [10, 10] @ ascii ''Content to analyze:'' @ [10] @ normalized))"

definition build_parts :: "jstring \<Rightarrow> jstring \<Rightarrow> part list" where
  "build_parts inputType content =
     (if inputType = ascii ''image'' \<or> inputType = ascii ''audio'' then
        (case parseDataUrl content of
           Some (mimeType, base64Data) \<Rightarrow>
             (let mediaLabel = (if inputType = ascii ''image'' then image_label else audio_label)
              in [InlineData mimeType base64Data, TextPart (SYSTEM_PROMPT @ [10, 10] @ mediaLabel)])
         | None \<Rightarrow> [text_part content])
      else [text_part content])"

text \<open>
  Stripping the Markdown fence: \<open>/^```(?:json)?\s*/\<close> at the start and \<open>/\s*```$/\<close> at the
  end. The second matches only when the text ends with three backticks, and then from the
  start of the white space before them.
\<close>

definition strip_fences :: "jstring \<Rightarrow> jstring" where
  "strip_fences t =
     (if startsWith t [96, 96, 96] then
        (let s1 = drop 3 t;
             s2 = (if startsWith s1 (ascii ''json'') then drop 4 s1 else s1);
             s3 = dropWhile is_ws s2
         in if startsWith (rev s3) [96, 96, 96]
            then rev (dropWhile is_ws (drop 3 (rev s3)))
            else s3)
      else t)"

text \<open>
  What the pipeline reads from outside: the reply of the model to the parts (\<open>getGemini\<close>,
  \<open>generateContent\<close> and \<open>response.text()\<close>, any of which may throw), \<open>JSON.parse\<close>
  (\<open>None\<close> is its SyntaxError), \<open>crypto.randomUUID()\<close> and \<open>new Date().toISOString()\<close>.
\<close>

record pipeline_env =
  generate :: "part list \<Rightarrow> js_error + jstring"
  JSON_parse :: "jstring \<Rightarrow> json option"
  randomUUID :: jstring
  nowISO :: jstring

definition msg_disclaimer :: jstring where
  "msg_disclaimer =
     ascii ''Analise baseada apenas no conteudo fornecido. Nao substitui verificacao profissional.''"

definition fallback_meta :: "pipeline_env \<Rightarrow> jstring \<Rightarrow> json list \<Rightarrow> json" where
  "fallback_meta env inputType warnings =
     JObj [(ascii ''id'', JStr (randomUUID env)), (ascii ''createdAt'', JStr (nowISO env)),
           (ascii ''inputType'', JStr inputType), (ascii ''language'', JStr (ascii ''pt-BR'')),
           (ascii ''mode'', JStr (ascii ''mvp_no_external_sources'')),
           (ascii ''warnings'', JArr warnings [])]"

definition scores :: "rat \<Rightarrow> rat \<Rightarrow> rat \<Rightarrow> rat \<Rightarrow> json" where
  "scores fake truth bias risk =
     JObj [(ascii ''fakeProbability'', JNum fake), (ascii ''verifiableTruth'', JNum truth),
           (ascii ''biasFraming'', JNum bias), (ascii ''manipulationRisk'', JNum risk)]"

definition empty_similar :: json where
  "empty_similar = JObj [(ascii ''searchQueries'', JArr [] []), (ascii ''externalChecks'', JArr [] [])]"

text \<open>The object of the \<open>catch\<close> after \<open>JSON.parse\<close>.\<close>

definition fallback_analysis :: "pipeline_env \<Rightarrow> jstring \<Rightarrow> json" where
  "fallback_analysis env inputType =
     JObj [(ascii ''meta'', fallback_meta env inputType [JStr msg_disclaimer]),
           (ascii ''scores'', scores 50 20 40 30),
           (ascii ''summary'',
              JObj [(ascii ''headline'', JStr (ascii ''Resultado Inconclusivo'')),
                    (ascii ''oneParagraph'',
                       JStr (ascii ''Nao ha base suficiente para uma conclusao definitiva. Recomendamos verificar em fontes confiaveis.'')),
                    (ascii ''verdict'', JStr (ascii ''Inconclusivo''))]),
           (ascii ''claims'', JArr [] []),
           (ascii ''similar'', empty_similar),
           (ascii ''reportMarkdown'',
              JStr (ascii ''# Relatorio de Analise'' @ [10, 10] @ ascii ''---'' @ [10, 10] @
                    ascii ''**Nota:** Este e um resultado inicial. Para conclusoes definitivas, consulte agencias de checagem profissionais.''))]"

text \<open>
  The assignments after the \<open>try\<close>: the defaults for missing fs, then
  \<open>parsed.meta.fingerprint = fingerprint\<close> and \<open>parsed.ok = true\<close>. Each may throw.
\<close>

definition ensure_fields :: "pipeline_env \<Rightarrow> jstring \<Rightarrow> jstring \<Rightarrow> json \<Rightarrow> js_error + json" where
  "ensure_fields env inputType fingerprint parsed =
     (case default_prop parsed (ascii ''meta'') (fallback_meta env inputType []) of
        Inl err \<Rightarrow> Inl err | Inr p1 \<Rightarrow>
     (case default_prop p1 (ascii ''scores'') (scores 0 0 0 0) of
        Inl err \<Rightarrow> Inl err | Inr p2 \<Rightarrow>
     (case default_prop p2 (ascii ''summary'')
             (JObj [(ascii ''headline'', JStr (ascii ''Resultado'')),
                    (ascii ''oneParagraph'', JStr []),
                    (ascii ''verdict'', JStr (ascii ''Inconclusivo''))]) of
        Inl err \<Rightarrow> Inl err | Inr p3 \<Rightarrow>
     (case default_prop p3 (ascii ''claims'') (JArr [] []) of
        Inl err \<Rightarrow> Inl err | Inr p4 \<Rightarrow>
     (case default_prop p4 (ascii ''similar'') empty_similar of
        Inl err \<Rightarrow> Inl err | Inr p5 \<Rightarrow>
     (case default_prop p5 (ascii ''reportMarkdown'') (JStr []) of
        Inl err \<Rightarrow> Inl err | Inr p6 \<Rightarrow>
     (case get_prop p6 (ascii ''meta'') of
        Inl err \<Rightarrow> Inl err
      | Inr None \<Rightarrow> Inl (JsError (ascii ''Cannot set properties of undefined (setting '' @ [39] @
                                    ascii ''fingerprint'' @ [39] @ ascii '')''))
      | Inr (Some meta) \<Rightarrow>
     (case set_prop meta (ascii ''fingerprint'') (JStr fingerprint) of
        Inl err \<Rightarrow> Inl err | Inr meta' \<Rightarrow>
     (case set_prop p6 (ascii ''meta'') meta' of
        Inl err \<Rightarrow> Inl err | Inr p7 \<Rightarrow>
     set_prop p7 (ascii ''ok'') (JBool True))))))))))"

definition analyzePipeline :: "pipeline_env \<Rightarrow> jstring \<Rightarrow> jstring \<Rightarrow> js_error + json" where
  "analyzePipeline env inputType content =
     (let fingerprint = sha256_hex content;
          parts = build_parts inputType content
      in case generate env parts of
           Inl err \<Rightarrow> Inl err
         | Inr reply \<Rightarrow>
             (let t = strip_fences (trim reply);
                  parsed = (case JSON_parse env t of
                              Some v \<Rightarrow> v
                            | None \<Rightarrow> fallback_analysis env inputType)
              in ensure_fields env inputType fingerprint parsed))"

text \<open>A JavaScript object, which can be given properties: an object literal or an array.\<close>

fun is_object :: "json \<Rightarrow> bool" where
  "is_object (JObj fs) = True"
| "is_object (JArr elems props) = True"
| "is_object v = False"

text \<open>The field \<open>meta\<close> of a parsed reply can take the fingerprint: absent, falsy, or an object.\<close>

definition meta_usable :: "(jstring \<times> json) list \<Rightarrow> bool" where
  "meta_usable fs =
     (case map_of fs (ascii ''meta'') of
        None \<Rightarrow> True
      | Some v \<Rightarrow> \<not> truthy (Some v) \<or> is_object v)"

text \<open>\<open>v.a.b\<close>, \<open>None\<close> when a step is missing.\<close>

definition path2 :: "json \<Rightarrow> jstring \<Rightarrow> jstring \<Rightarrow> json option" where
  "path2 v a b =
     (case get_prop v a of
        Inr (Some w) \<Rightarrow> (case get_prop w b of Inr x \<Rightarrow> x | Inl err \<Rightarrow> None)
      | _ \<Rightarrow> None)"

text \<open>Example data: a model that cannot be reached, one that answers prose, one that answers JSON.\<close>

definition demo_pipeline_down :: pipeline_env where
  "demo_pipeline_down =
     \<lparr>generate = (\<lambda>parts. Inl (JsError (ascii ''fetch failed''))),
      JSON_parse = (\<lambda>t. None),
      randomUUID = ascii ''00000000-0000-4000-8000-000000000000'',
      nowISO = ascii ''2026-01-01T00:00:00.000Z''\<rparr>"

definition demo_pipeline_prose :: pipeline_env where
  "demo_pipeline_prose =
     \<lparr>generate = (\<lambda>parts. Inr (ascii ''I cannot analyze this.'')),
      JSON_parse = (\<lambda>t. None),
      randomUUID = ascii ''00000000-0000-4000-8000-000000000000'',
      nowISO = ascii ''2026-01-01T00:00:00.000Z''\<rparr>"

definition demo_reply_fields :: "(jstring \<times> json) list" where
  "demo_reply_fields =
     [(ascii ''scores'', scores 90 5 60 70),
      (ascii ''summary'', JObj [(ascii ''verdict'', JStr (ascii ''Provavel fake''))])]"

definition demo_pipeline_json :: pipeline_env where
  "demo_pipeline_json =
     \<lparr>generate = (\<lambda>parts. Inr (ascii ''{...}'')),
      JSON_parse = (\<lambda>t. Some (JObj demo_reply_fields)),
      randomUUID = ascii ''00000000-0000-4000-8000-000000000000'',
      nowISO = ascii ''2026-01-01T00:00:00.000Z''\<rparr>"

section \<open>The request handler (app/api/check/route)\<close>

datatype InputType = InText | InLink | InImage | InAudio

fun input_type_name :: "InputType \<Rightarrow> jstring" where
  "input_type_name InText = ascii ''text''"
| "input_type_name InLink = ascii ''link''"
| "input_type_name InImage = ascii ''image''"
| "input_type_name InAudio = ascii ''audio''"

record request =
  x_forwarded_for :: "jstring option"
  req_json :: "js_error + json"

record response =
  r_status :: nat
  r_headers :: "(jstring \<times> jstring) list"
  r_body :: json

definition CORS :: "(jstring \<times> jstring) list" where
  "CORS =
     [(ascii ''Access-Control-Allow-Origin'', ascii ''*''),
      (ascii ''Access-Control-Allow-Methods'', ascii ''POST, OPTIONS''),
      (ascii ''Access-Control-Allow-Headers'', ascii ''Content-Type''),
      (ascii ''Access-Control-Max-Age'', ascii ''86400'')]"

text \<open>
  \<open>JSON.stringify\<close>, as far as it changes the value: the named properties given to an
  array are not printed.
\<close>

fun serialize :: "json \<Rightarrow> json" where
  "serialize (JArr elems props) = JArr (map serialize elems) []"
| "serialize (JObj fs) = JObj (map (\<lambda>kv. (fst kv, serialize (snd kv))) fs)"
| "serialize v = v"

text \<open>The helper \<open>json(data, status, extra)\<close>.\<close>

definition json_response :: "json \<Rightarrow> nat \<Rightarrow> (jstring \<times> jstring) list \<Rightarrow> response" where
  "json_response data status extra =
     \<lparr>r_status = status, r_headers = CORS @ extra, r_body = serialize data\<rparr>"

definition error_response :: "nat \<Rightarrow> jstring \<Rightarrow> jstring \<Rightarrow> (jstring \<times> jstring) list \<Rightarrow> response" where
  "error_response status kind message extra =
     json_response
       (JObj [(ascii ''ok'', JBool False), (ascii ''error'', JStr kind),
              (ascii ''message'', JStr message)])
       status extra"

definition msg_rate_limited :: jstring where
  "msg_rate_limited =
     ascii ''Muitas requisi'' @ [231, 245] @ ascii ''es. Aguarde um minuto.''"

definition msg_invalid_data :: jstring where
  "msg_invalid_data =
     ascii ''Dados inv'' @ [225] @ ascii ''lidos.''"

definition msg_gemini_missing :: jstring where
  "msg_gemini_missing =
     ascii ''GEMINI_API_KEY n'' @ [227] @ ascii ''o configurada no servidor (Vercel).''"

definition msg_invalid_url :: jstring where
  "msg_invalid_url =
     ascii ''URL inv'' @ [225] @ ascii ''lida. Verifique o formato e tente novamente.''"

definition msg_link_failed :: jstring where
  "msg_link_failed =
     ascii ''N'' @ [227] @ ascii ''o foi poss'' @ [237] @ ascii ''vel extrair conte'' @ [250] @
     ascii ''do do link.''"

definition msg_audio_failed :: jstring where
  "msg_audio_failed =
     ascii ''N'' @ [227] @ ascii ''o foi poss'' @ [237] @ ascii ''vel transcrever o '' @ [225] @
     ascii ''udio.''"

definition msg_analyze_failed :: jstring where
  "msg_analyze_failed =
     ascii ''Falha ao analisar no servidor. Tente novamente.''"

text \<open>
  What the handler reads from outside. \<open>isGeminiConfigured\<close> (lib/gemini), \<open>safeParse\<close> of
  \<open>analyzeSchema\<close>, \<open>isValidUrl\<close> and \<open>sanitize\<close> (\<open>sanitizeForLLM\<close>, lib/validations),
  \<open>isYouTubeUrl\<close> and \<open>extractFromUrl\<close> (lib/services/extractor) are not among the sources
  and are taken as they answer. \<open>safeParse\<close> gives the first error message, if any, or the
  validated input type and content.
\<close>

record route_env =
  rl_load :: "js_error + limiter"
  clock :: int
  isGeminiConfigured :: bool
  safeParse :: "json \<Rightarrow> jstring option + InputType \<times> jstring"
  isValidUrl :: "jstring \<Rightarrow> bool"
  isYouTubeUrl :: "jstring \<Rightarrow> bool"
  extractFromUrl :: "jstring \<Rightarrow> js_error + ExtractionResult"
  audio_service :: audio_env
  sanitize :: "jstring \<Rightarrow> nat \<Rightarrow> jstring"
  pipeline :: pipeline_env

text \<open>\<open>forwarded?.split(',')[0]?.trim() || 'unknown'\<close>\<close>

definition client_ip :: "jstring option \<Rightarrow> jstring" where
  "client_ip forwarded =
     (case forwarded of
        None \<Rightarrow> ascii ''unknown''
      | Some f \<Rightarrow>
          (case split f [44] of
             [] \<Rightarrow> ascii ''unknown''
           | first # others \<Rightarrow> if trim first = [] then ascii ''unknown'' else trim first))"

text \<open>\<open>!s\<close> for an optional string: absent or empty.\<close>

fun blank :: "jstring option \<Rightarrow> bool" where
  "blank None = True"
| "blank (Some s) = (s = [])"

text \<open>\<open>s || d\<close> for an optional string.\<close>

fun or_default :: "jstring option \<Rightarrow> jstring \<Rightarrow> jstring" where
  "or_default None d = d"
| "or_default (Some s) d = (if s = [] then d else s)"

text \<open>
  Steps 5 and 5b: the text to analyse, the source URL, the effective input type and the
  extraction warnings; or the response that ends the request; or an exception.
\<close>

definition extract_step ::
  "route_env \<Rightarrow> InputType \<Rightarrow> jstring \<Rightarrow>
     js_error + (response + jstring \<times> jstring option \<times> jstring \<times> jstring list)" where
  "extract_step env inputType content =
     (case inputType of
        InLink \<Rightarrow>
          if \<not> isValidUrl env (trim content)
          then Inr (Inl (error_response 400 (ascii ''VALIDATION'') msg_invalid_url []))
          else
            (let isYT = isYouTubeUrl env (trim content) in
             case extractFromUrl env (trim content) of
               Inl err \<Rightarrow> Inl err
             | Inr extraction \<Rightarrow>
                 if \<not> x_ok extraction \<or> blank (x_text extraction)
                 then Inr (Inl (error_response 422 (ascii ''EXTRACTION_FAILED'')
                                 (or_default (x_error extraction) msg_link_failed) []))
                 else Inr (Inr (or_default (x_text extraction) [], x_sourceUrl extraction,
                                (if isYT then ascii ''youtube_transcript'' else ascii ''link''),
                                x_warnings extraction)))
      | InAudio \<Rightarrow>
          (let audioResult = fst (extractAudioTranscript (audio_service env) content) in
           if \<not> a_ok audioResult \<or> blank (a_text audioResult)
           then Inr (Inl (error_response 422 (ascii ''EXTRACTION_FAILED'')
                           (or_default (a_error audioResult) msg_audio_failed) []))
           else Inr (Inr (or_default (a_text audioResult) [], None, ascii ''audio_transcript'',
                          a_warnings audioResult)))
      | _ \<Rightarrow> Inr (Inr (content, None, input_type_name inputType, [])))"

text \<open>Step 6: which texts are sanitized.\<close>

definition sanitize_step :: "route_env \<Rightarrow> InputType \<Rightarrow> jstring \<Rightarrow> jstring \<Rightarrow> jstring" where
  "sanitize_step env inputType effectiveInputType textForAnalysis =
     (if effectiveInputType = ascii ''text'' \<or> effectiveInputType = ascii ''youtube_transcript'' \<or>
         effectiveInputType = ascii ''audio_transcript'' \<or> inputType = InLink
      then sanitize env textForAnalysis 10000
      else textForAnalysis)"

text \<open>\<open>result.meta = result.meta || {}\<close> followed by \<open>result.meta.k = x\<close>.\<close>

definition set_meta :: "json \<Rightarrow> jstring \<Rightarrow> json \<Rightarrow> js_error + json" where
  "set_meta result k x =
     (case default_prop result (ascii ''meta'') (JObj []) of
        Inl err \<Rightarrow> Inl err
      | Inr r1 \<Rightarrow>
          (case get_prop r1 (ascii ''meta'') of
             Inl err \<Rightarrow> Inl err
           | Inr None \<Rightarrow> Inl (JsError (ascii ''Cannot set properties of undefined''))
           | Inr (Some meta) \<Rightarrow>
               (case set_prop meta k x of
                  Inl err \<Rightarrow> Inl err
                | Inr meta' \<Rightarrow> set_prop r1 (ascii ''meta'') meta')))"

text \<open>The characters a string spreads into: a surrogate pair is one element.\<close>

fun spread_string :: "jstring \<Rightarrow> json list" where
  "spread_string [] = []"
| "spread_string [c] = [JStr [c]]"
| "spread_string (c # d # cs) =
     (if is_high_surrogate c \<and> is_low_surrogate d then JStr [c, d] # spread_string cs
      else JStr [c] # spread_string (d # cs))"

text \<open>\<open>[...(w || [])]\<close>: an array or a string can be spread, anything else truthy cannot.\<close>

fun spread_or_empty :: "json option \<Rightarrow> js_error + json list" where
  "spread_or_empty (Some (JArr elems props)) = Inr elems"
| "spread_or_empty (Some (JStr s)) = Inr (spread_string s)"
| "spread_or_empty w =
     (if truthy w then Inl (JsError (ascii ''is not iterable'')) else Inr [])"

text \<open>The two blocks under \<open>Attach extraction metadata\<close>.\<close>

definition attach_metadata :: "json \<Rightarrow> jstring option \<Rightarrow> jstring list \<Rightarrow> js_error + json" where
  "attach_metadata result sourceUrl extractionWarnings =
     (case (if blank sourceUrl then Inr result
            else set_meta result (ascii ''sourceUrl'') (JStr (or_default sourceUrl []))) of
        Inl err \<Rightarrow> Inl err
      | Inr r1 \<Rightarrow>
          if length extractionWarnings > 0 then
            (case default_prop r1 (ascii ''meta'') (JObj []) of
               Inl err \<Rightarrow> Inl err
             | Inr r2 \<Rightarrow>
                 (case get_prop r2 (ascii ''meta'') of
                    Inl err \<Rightarrow> Inl err
                  | Inr None \<Rightarrow> Inl (JsError (ascii ''Cannot read properties of undefined''))
                  | Inr (Some meta) \<Rightarrow>
                      (case get_prop meta (ascii ''warnings'') of
                         Inl err \<Rightarrow> Inl err
                       | Inr w \<Rightarrow>
                           (case spread_or_empty w of
                              Inl err \<Rightarrow> Inl err
                            | Inr old \<Rightarrow>
                                set_meta r2 (ascii ''warnings'')
                                  (JArr (old @ map JStr extractionWarnings) [])))))
          else Inr r1)"

text \<open>
  The body of the \<open>try\<close> of \<open>POST\<close>. The two best-effort blocks that write to the database
  sit in their own \<open>try\<close>/\<open>catch\<close> and do not change the result; they are left out.
\<close>

definition POST_try :: "route_env \<Rightarrow> request \<Rightarrow> rl_module \<Rightarrow> (js_error + response) \<times> rl_module" where
  "POST_try env req m =
     (let ip = client_ip (x_forwarded_for req) in
      case checkRateLimitAsync (rl_load env) (clock env) ip m of
        (Inl err, m') \<Rightarrow> (Inl err, m')
      | (Inr rl, m') \<Rightarrow>
          if \<not> allowed rl
          then (Inr (error_response 429 (ascii ''RATE_LIMITED'') msg_rate_limited
                      [(ascii ''Retry-After'', ascii ''60'')]), m')
          else
            (case req_json req of
               Inl err \<Rightarrow> (Inl err, m')
             | Inr body \<Rightarrow>
                 (case safeParse env body of
                    Inl firstError \<Rightarrow>
                      (Inr (error_response 400 (ascii ''VALIDATION'')
                             (or_default firstError msg_invalid_data) []),
                       m')
                  | Inr (inputType, content) \<Rightarrow>
                      if \<not> isGeminiConfigured env
                      then (Inr (error_response 503 (ascii ''SERVER_MISCONFIG'')
                                  msg_gemini_missing []), m')
                      else
                        (case extract_step env inputType content of
                           Inl err \<Rightarrow> (Inl err, m')
                         | Inr (Inl early) \<Rightarrow> (Inr early, m')
                         | Inr (Inr (extracted, sourceUrl, effectiveInputType, extractionWarnings)) \<Rightarrow>
                             (let textForAnalysis =
                                    sanitize_step env inputType effectiveInputType extracted
                              in case analyzePipeline (pipeline env) effectiveInputType
                                        textForAnalysis of
                                   Inl err \<Rightarrow> (Inl err, m')
                                 | Inr result \<Rightarrow>
                                     (case attach_metadata result sourceUrl extractionWarnings of
                                        Inl err \<Rightarrow> (Inl err, m')
                                      | Inr result' \<Rightarrow>
                                          (Inr (json_response result' 200 []), m')))))))"

text \<open>\<open>POST\<close>: every exception of the body becomes the 500 response.\<close>

definition POST :: "route_env \<Rightarrow> request \<Rightarrow> rl_module \<Rightarrow> response \<times> rl_module" where
  "POST env req m =
     (case POST_try env req m of
        (Inl err, m') \<Rightarrow>
          (error_response 500 (ascii ''ANALYZE_FAILED'') msg_analyze_failed [], m')
      | (Inr res, m') \<Rightarrow> (res, m'))"

text \<open>\<open>body.meta.fingerprint\<close> of a response, if it is there.\<close>

definition response_fingerprint :: "response \<Rightarrow> json option" where
  "response_fingerprint res =
     (case get_prop (r_body res) (ascii ''meta'') of
        Inr (Some meta) \<Rightarrow>
          (case get_prop meta (ascii ''fingerprint'') of
             Inr fp \<Rightarrow> fp
           | Inl err \<Rightarrow> None)
      | _ \<Rightarrow> None)"

text \<open>The machine-readable error kind of a response.\<close>

definition response_error :: "response \<Rightarrow> json option" where
  "response_error res =
     (case get_prop (r_body res) (ascii ''error'') of Inr kind \<Rightarrow> kind | Inl err \<Rightarrow> None)"

text \<open>
  The request passed the first three steps: the rate limiter allowed it, its body was
  read, and validation gave the input type and content.
\<close>

definition admitted :: "route_env \<Rightarrow> request \<Rightarrow> rl_module \<Rightarrow> InputType \<Rightarrow> jstring \<Rightarrow> bool" where
  "admitted env req m inputType content =
     (case fst (checkRateLimitAsync (rl_load env) (clock env) (client_ip (x_forwarded_for req)) m) of
        Inl err \<Rightarrow> False
      | Inr rl \<Rightarrow>
          allowed rl \<and>
          (case req_json req of
             Inl err \<Rightarrow> False
           | Inr body \<Rightarrow> safeParse env body = Inr (inputType, content)))"

text \<open>The text handed to \<open>analyzePipeline\<close>, when the request gets that far.\<close>

definition analysed_text :: "route_env \<Rightarrow> InputType \<Rightarrow> jstring \<Rightarrow> jstring option" where
  "analysed_text env inputType content =
     (case extract_step env inputType content of
        Inr (Inr (extracted, sourceUrl, effectiveInputType, extractionWarnings)) \<Rightarrow>
          Some (sanitize_step env inputType effectiveInputType extracted)
      | _ \<Rightarrow> None)"

text \<open>
  Example data: a deployment with the model key set and the transcription key either set
  or missing, a sanitizer that only truncates, and an audio request.
\<close>

definition demo_route :: "audio_env \<Rightarrow> route_env" where
  "demo_route service =
     \<lparr>rl_load = Inl (JsError (ascii ''unused'')), clock = 1000, isGeminiConfigured = True,
      safeParse = (\<lambda>body. Inr (InAudio, demo_audio_url)),
      isValidUrl = (\<lambda>url. True), isYouTubeUrl = (\<lambda>url. False),
      extractFromUrl = (\<lambda>url. Inl (JsError (ascii ''unused''))),
      audio_service = service,
      sanitize = (\<lambda>t maxLength. take maxLength t),
      pipeline = demo_pipeline_prose\<rparr>"

definition demo_request :: request where
  "demo_request = \<lparr>x_forwarded_for = Some (ascii ''203.0.113.7, 10.0.0.1''), req_json = Inr (JObj [])\<rparr>"

definition demo_env_no_key :: audio_env where
  "demo_env_no_key = demo_env_done\<lparr>WHISPER_SRT_API_KEY := None\<rparr>"

definition demo_route_no_gemini :: route_env where
  "demo_route_no_gemini = (demo_route demo_env_done)\<lparr>isGeminiConfigured := False\<rparr>"

definition demo_srt_other :: jstring where
  "demo_srt_other = ascii ''1'' @ [10] @ ascii ''00:00:01,000 --> 00:00:02,000'' @ [10] @ ascii ''Boa noite''"

definition demo_env_done_other :: audio_env where
  "demo_env_done_other =
     demo_env_done\<lparr>download := Inr \<lparr>dl_status = 200, dl_text = Inr demo_srt_other\<rparr>\<rparr>"

definition demo_route_text :: "audio_env \<Rightarrow> route_env" where
  "demo_route_text service =
     (demo_route service)\<lparr>safeParse := (\<lambda>body. Inr (InText, ascii ''abc''))\<rparr>"

text \<open>A link request whose page yields a short text.\<close>

definition demo_link :: jstring where
  "demo_link = ascii '' https://example.org/noticia ''"

definition demo_page :: ExtractionResult where
  "demo_page =
     \<lparr>x_ok = True, x_text = Some (ascii ''Texto da pagina''), x_title = None,
      x_sourceUrl = Some (ascii ''https://example.org/noticia''), x_warnings = [], x_error = None\<rparr>"

definition demo_route_link :: route_env where
  "demo_route_link =
     (demo_route demo_env_done)
       \<lparr>safeParse := (\<lambda>body. Inr (InLink, demo_link)),
        extractFromUrl := (\<lambda>url. if url = ascii ''https://example.org/noticia''
                                  then Inr demo_page else Inl (JsError (ascii ''fetch failed'')))\<rparr>"

section \<open>Sanitizer (lib/validations)\<close>

text \<open>
  Modelled from the spec: \<open>sanitizeForLLM\<close> of lib/validations is not among the sources; only
  its call in the request handler is. The specification says that it is deterministic and
  pure, strips content likely to be read as instructions by the model or markup that could
  break the structured output, and truncates to \<open>maxLength\<close>. The content stripped is
  modelled as a set of code units, \<open>unsafe\<close>, that are removed wherever they stand; the
  truncation is \<open>slice(0, maxLength)\<close> of what is left.
\<close>

definition sanitizeForLLM :: "(nat \<Rightarrow> bool) \<Rightarrow> jstring \<Rightarrow> nat \<Rightarrow> jstring" where
  "sanitizeForLLM unsafe text maxLength = take maxLength (filter (\<lambda>c. \<not> unsafe c) text)"

text \<open>Example data: control characters, angle brackets and the backtick are stripped.\<close>

definition demo_unsafe :: "nat \<Rightarrow> bool" where
  "demo_unsafe c \<longleftrightarrow> c < 9 \<or> c = 11 \<or> c = 12 \<or> (14 \<le> c \<and> c < 32) \<or> c = 60 \<or> c = 62 \<or> c = 96"

section \<open>Rate limiter: the sliding window\<close>

lemma filter_window_mono:
  "now' \<le> now \<Longrightarrow> filter (in_window now) (filter (in_window now') xs) = filter (in_window now) xs"
  by (induction xs) (auto simp: in_window_def)

lemma rl_run_snoc: "rl_run (es @ [e]) = rl_step (rl_run es) e"
  by (simp add: rl_run_def)

lemma rl_run_Nil: "rl_run [] = (Map.empty, [])"
  by (simp add: rl_run_def)

lemma stored_upd: "stored (hs(ip \<mapsto> ts)) ip' = (if ip' = ip then ts else stored hs ip')"
  by (simp add: stored_def)

lemma stored_sweep: "stored (sweep now hs) ip = filter (in_window now) (stored hs ip)"
  by (simp add: stored_def sweep_def Let_def split: option.splits)

lemma stored_inMemoryCheck:
  "stored (snd (inMemoryCheck now ip hs)) ip' =
     (if ip' = ip
      then filter (in_window now) (stored hs ip) @
           (if allowed (fst (inMemoryCheck now ip hs)) then [now] else [])
      else stored hs ip')"
  by (simp add: inMemoryCheck_def Let_def stored_upd del: fun_upd_apply)

lemma rl_step_Check:
  "rl_step (hs, lg) (Check ip now) =
     (snd (inMemoryCheck now ip hs), lg @ [(ip, now, fst (inMemoryCheck now ip hs))])"
  by (simp add: split_beta)

lemma allowed_times_snoc:
  "allowed_times ip (lg @ [(i, t, d)]) = allowed_times ip lg @ (if i = ip \<and> allowed d then [t] else [])"
  by (simp add: allowed_times_def)

lemma rl_invariant:
  "sorted (map event_time es) \<Longrightarrow> \<forall>e \<in> set es. event_time e \<le> now \<Longrightarrow>
   filter (in_window now) (stored (fst (rl_run es)) ip) =
   filter (in_window now) (allowed_times ip (snd (rl_run es)))"
proof (induction es rule: rev_induct)
  case Nil
  show ?case by (simp add: rl_run_Nil stored_def allowed_times_def)
next
  case (snoc e es)
  obtain hs lg where run: "rl_run es = (hs, lg)" by (cases "rl_run es")
  from snoc.prems have srt: "sorted (map event_time es)" and le: "\<forall>e \<in> set es. event_time e \<le> now"
    and enow: "event_time e \<le> now"
    by (auto simp: sorted_append)
  from snoc.IH [OF srt le] run
  have IH: "filter (in_window now) (stored hs ip) = filter (in_window now) (allowed_times ip lg)"
    by simp
  show ?case
  proof (cases e)
    case (Check ip' now')
    with enow have n: "now' \<le> now" by simp
    show ?thesis
      using IH filter_window_mono [OF n]
      by (auto simp add: rl_run_snoc run Check rl_step_Check stored_inMemoryCheck allowed_times_snoc
            simp del: rl_step.simps)
  next
    case (Sweep now')
    with enow have n: "now' \<le> now" by simp
    show ?thesis
      using IH filter_window_mono [OF n]
      by (simp add: rl_run_snoc run Sweep stored_sweep)
  qed
qed

lemma length_filter_imp:
  "(\<And>x. x \<in> set xs \<Longrightarrow> P x \<Longrightarrow> Q x) \<Longrightarrow> length (filter P xs) \<le> length (filter Q xs)"
  by (induction xs) auto

lemma allowed_fst_inMemoryCheck:
  "allowed (fst (inMemoryCheck now ip hs)) \<longleftrightarrow>
     length (filter (in_window now) (stored hs ip)) < maxRequests"
  by (simp add: inMemoryCheck_def Let_def)

lemma rl_window_bound:
  "sorted (map event_time es) \<Longrightarrow> length (allowed_in_window ip T (snd (rl_run es))) \<le> maxRequests"
proof (induction es rule: rev_induct)
  case Nil
  show ?case by (simp add: rl_run_Nil allowed_in_window_def allowed_times_def)
next
  case (snoc e es)
  obtain hs lg where run: "rl_run es = (hs, lg)" by (cases "rl_run es")
  from snoc.prems have srt: "sorted (map event_time es)"
    and le: "\<forall>x \<in> set es. event_time x \<le> event_time e"
    by (auto simp: sorted_append)
  from snoc.IH [OF srt] run have IH: "length (allowed_in_window ip T lg) \<le> maxRequests" by simp
  show ?case
  proof (cases e)
    case (Sweep now)
    then show ?thesis using IH by (simp add: rl_run_snoc run)
  next
    case (Check ip' now)
    let ?d = "fst (inMemoryCheck now ip' hs)"
    have lg': "snd (rl_run (es @ [e])) = lg @ [(ip', now, ?d)]"
      by (simp add: rl_run_snoc run Check rl_step_Check del: rl_step.simps)
    show ?thesis
    proof (cases "ip' = ip \<and> allowed ?d \<and> now \<le> T \<and> in_window T now")
      case False
      then show ?thesis using IH
        by (auto simp: lg' allowed_in_window_def allowed_times_snoc)
    next
      case True
      from le Check have le': "\<forall>x \<in> set es. event_time x \<le> now" by simp
      have inv: "filter (in_window now) (stored hs ip) = filter (in_window now) (allowed_times ip lg)"
        using rl_invariant [OF srt le', of ip] run by simp
      from True have "length (filter (in_window now) (stored hs ip)) < maxRequests"
        by (auto simp: allowed_fst_inMemoryCheck)
      with inv have lt: "length (filter (in_window now) (allowed_times ip lg)) < maxRequests" by simp
      have "length (allowed_in_window ip T lg) \<le> length (filter (in_window now) (allowed_times ip lg))"
        unfolding allowed_in_window_def
        using True by (intro length_filter_imp) (auto simp: in_window_def)
      with lt have "length (allowed_in_window ip T lg) < maxRequests" by simp
      then show ?thesis using True
        by (simp add: lg' allowed_in_window_def allowed_times_snoc)
    qed
  qed
qed

lemma inMemoryCheck_deny:
  "maxRequests \<le> length (filter (in_window now) (stored hs ip)) \<Longrightarrow>
   inMemoryCheck now ip hs =
     (\<lparr>allowed = False, remaining = 0\<rparr>, hs(ip \<mapsto> filter (in_window now) (stored hs ip)))"
  by (simp add: inMemoryCheck_def Let_def)

lemma inMemoryCheck_allow:
  "length (filter (in_window now) (stored hs ip)) < maxRequests \<Longrightarrow>
   inMemoryCheck now ip hs =
     (\<lparr>allowed = True,
       remaining = int maxRequests - int (length (filter (in_window now) (stored hs ip) @ [now]))\<rparr>,
      hs(ip \<mapsto> filter (in_window now) (stored hs ip) @ [now]))"
  by (simp add: inMemoryCheck_def Let_def)

lemma rl_eleventh_denied:
  assumes srt: "sorted (map event_time (es @ [Check ip now]))"
    and full: "maxRequests \<le> length (filter (in_window now) (allowed_times ip (snd (rl_run es))))"
  shows "rl_run (es @ [Check ip now]) =
           ((fst (rl_run es))(ip \<mapsto> filter (in_window now) (stored (fst (rl_run es)) ip)),
            snd (rl_run es) @ [(ip, now, \<lparr>allowed = False, remaining = 0\<rparr>)])"
proof -
  obtain hs lg where run: "rl_run es = (hs, lg)" by (cases "rl_run es")
  from srt have s: "sorted (map event_time es)" and le: "\<forall>x \<in> set es. event_time x \<le> now"
    by (auto simp: sorted_append)
  have "filter (in_window now) (stored hs ip) = filter (in_window now) (allowed_times ip lg)"
    using rl_invariant [OF s le, of ip] run by simp
  with full run have "maxRequests \<le> length (filter (in_window now) (stored hs ip))" by simp
  from inMemoryCheck_deny [OF this] show ?thesis
    by (simp add: rl_run_snoc run)
qed

lemma rl_aging:
  assumes st: "hs ip = Some (t0 # rest)"
    and len: "Suc (length rest) = maxRequests"
    and inw: "\<forall>t \<in> set rest. in_window now t"
    and out: "\<not> in_window now t0"
  shows "inMemoryCheck now ip hs =
           (\<lparr>allowed = True, remaining = 0\<rparr>, hs(ip \<mapsto> rest @ [now]))"
    and "inMemoryCheck now ip (hs(ip \<mapsto> rest @ [now])) =
           (\<lparr>allowed = False, remaining = 0\<rparr>, hs(ip \<mapsto> rest @ [now]))"
proof -
  from inw have f: "filter (in_window now) rest = rest" by simp
  have nn: "in_window now now" by (simp add: in_window_def windowMs_def)
  from st out f have f1: "filter (in_window now) (stored hs ip) = rest"
    by (simp add: stored_def)
  from len have "length (filter (in_window now) (stored hs ip)) < maxRequests"
    by (simp add: f1)
  from inMemoryCheck_allow [OF this] len
  show "inMemoryCheck now ip hs = (\<lparr>allowed = True, remaining = 0\<rparr>, hs(ip \<mapsto> rest @ [now]))"
    by (simp add: f1)
  have f2: "filter (in_window now) (stored (hs(ip \<mapsto> rest @ [now])) ip) = rest @ [now]"
    using f nn by (simp add: stored_def)
  from len have "maxRequests \<le> length (filter (in_window now) (stored (hs(ip \<mapsto> rest @ [now])) ip))"
    by (simp only: f2) simp
  from inMemoryCheck_deny [OF this]
  show "inMemoryCheck now ip (hs(ip \<mapsto> rest @ [now])) =
           (\<lparr>allowed = False, remaining = 0\<rparr>, hs(ip \<mapsto> rest @ [now]))"
    by (simp only: f2) simp
qed

text \<open>
  Claim C3. The in-process limiter is a sliding window of capacity 10 per 60000 ms. With a clock
  that never runs backwards, from an empty map and with sweeps anywhere in between:
  for every identifier and every instant \<open>T\<close>, at most 10 allowed decisions carry a
  timestamp in the trailing window ending at \<open>T\<close>; a check that finds 10 allowed decisions
  still in its window is denied with \<open>remaining = 0\<close>, and stores only the purged sequence
  (no timestamp appended); an allowed check stores the purged sequence with the current
  timestamp appended and reports capacity minus the new length; and when a full sequence's
  oldest timestamp (and only it) has left the window, one check is allowed, with
  \<open>remaining = 0\<close>, and the next one at the same instant is denied.
\<close>

theorem C3_sliding_window:
  "maxRequests = 10 \<and> windowMs = 60000 \<and>
   (sorted (map event_time es) \<longrightarrow>
      length (allowed_in_window ip T (snd (rl_run es))) \<le> maxRequests) \<and>
   (sorted (map event_time (es1 @ [Check ip1 now1])) \<and>
    maxRequests \<le> length (filter (in_window now1) (allowed_times ip1 (snd (rl_run es1)))) \<longrightarrow>
      rl_run (es1 @ [Check ip1 now1]) =
        ((fst (rl_run es1))(ip1 \<mapsto> filter (in_window now1) (stored (fst (rl_run es1)) ip1)),
         snd (rl_run es1) @ [(ip1, now1, \<lparr>allowed = False, remaining = 0\<rparr>)])) \<and>
   (maxRequests \<le> length (filter (in_window now2) (stored hits2 ip2)) \<longrightarrow>
      inMemoryCheck now2 ip2 hits2 =
        (\<lparr>allowed = False, remaining = 0\<rparr>,
         hits2(ip2 \<mapsto> filter (in_window now2) (stored hits2 ip2)))) \<and>
   (length (filter (in_window now3) (stored hits3 ip3)) < maxRequests \<longrightarrow>
      inMemoryCheck now3 ip3 hits3 =
        (\<lparr>allowed = True,
          remaining = int maxRequests -
                      int (length (filter (in_window now3) (stored hits3 ip3) @ [now3]))\<rparr>,
         hits3(ip3 \<mapsto> filter (in_window now3) (stored hits3 ip3) @ [now3]))) \<and>
   (hits4 ip4 = Some (t0 # rest) \<and> Suc (length rest) = maxRequests \<and>
    list_all (in_window now4) rest \<and> \<not> in_window now4 t0 \<longrightarrow>
      inMemoryCheck now4 ip4 hits4 =
        (\<lparr>allowed = True, remaining = 0\<rparr>, hits4(ip4 \<mapsto> rest @ [now4])) \<and>
      inMemoryCheck now4 ip4 (hits4(ip4 \<mapsto> rest @ [now4])) =
        (\<lparr>allowed = False, remaining = 0\<rparr>, hits4(ip4 \<mapsto> rest @ [now4])))"
  using rl_window_bound [of es ip T] rl_eleventh_denied [of es1 ip1 now1]
    inMemoryCheck_deny [of now2 hits2 ip2] inMemoryCheck_allow [of now3 hits3 ip3]
    rl_aging [of hits4 ip4 t0 rest now4]
  by (simp add: maxRequests_def windowMs_def list_all_iff)

lemma demo_run:
  "rl_run demo_checks =
     (Map.empty(demo_ip \<mapsto> [0, 1000, 2000, 3000, 4000, 5000, 6000, 7000, 8000, 9000]),
      [(demo_ip, 0, \<lparr>allowed = True, remaining = 9\<rparr>),
       (demo_ip, 1000, \<lparr>allowed = True, remaining = 8\<rparr>),
       (demo_ip, 2000, \<lparr>allowed = True, remaining = 7\<rparr>),
       (demo_ip, 3000, \<lparr>allowed = True, remaining = 6\<rparr>),
       (demo_ip, 4000, \<lparr>allowed = True, remaining = 5\<rparr>),
       (demo_ip, 5000, \<lparr>allowed = True, remaining = 4\<rparr>),
       (demo_ip, 6000, \<lparr>allowed = True, remaining = 3\<rparr>),
       (demo_ip, 7000, \<lparr>allowed = True, remaining = 2\<rparr>),
       (demo_ip, 8000, \<lparr>allowed = True, remaining = 1\<rparr>),
       (demo_ip, 9000, \<lparr>allowed = True, remaining = 0\<rparr>)])"
  by (simp add: rl_run_def demo_checks_def upt_rec inMemoryCheck_def stored_def in_window_def
      windowMs_def maxRequests_def Let_def)

theorem C3_sliding_window_witness:
  "sorted (map event_time (demo_checks @ [Check demo_ip 10000])) \<and>
   length (allowed_in_window demo_ip 10000 (snd (rl_run (demo_checks @ [Check demo_ip 10000]))))
     \<le> maxRequests \<and>
   maxRequests \<le> length (filter (in_window 10000) (allowed_times demo_ip (snd (rl_run demo_checks)))) \<and>
   rl_run (demo_checks @ [Check demo_ip 10000]) =
     ((fst (rl_run demo_checks))
        (demo_ip \<mapsto> filter (in_window 10000) (stored (fst (rl_run demo_checks)) demo_ip)),
      snd (rl_run demo_checks) @ [(demo_ip, 10000, \<lparr>allowed = False, remaining = 0\<rparr>)]) \<and>
   maxRequests \<le> length (filter (in_window 10000) (stored demo_full demo_ip)) \<and>
   inMemoryCheck 10000 demo_ip demo_full =
     (\<lparr>allowed = False, remaining = 0\<rparr>,
      demo_full(demo_ip \<mapsto> filter (in_window 10000) (stored demo_full demo_ip))) \<and>
   length (filter (in_window 5) (stored Map.empty demo_ip)) < maxRequests \<and>
   inMemoryCheck 5 demo_ip Map.empty =
     (\<lparr>allowed = True,
       remaining = int maxRequests -
                   int (length (filter (in_window 5) (stored Map.empty demo_ip) @ [5]))\<rparr>,
      Map.empty(demo_ip \<mapsto> filter (in_window 5) (stored Map.empty demo_ip) @ [5])) \<and>
   demo_full demo_ip = Some (0 # map (\<lambda>k. 1000 * int k) [1..<10]) \<and>
   Suc (length (map (\<lambda>k. 1000 * int k) [1..<10])) = maxRequests \<and>
   list_all (in_window 60000) (map (\<lambda>k. 1000 * int k) [1..<10]) \<and>
   \<not> in_window 60000 0 \<and>
   inMemoryCheck 60000 demo_ip demo_full =
     (\<lparr>allowed = True, remaining = 0\<rparr>,
      demo_full(demo_ip \<mapsto> map (\<lambda>k. 1000 * int k) [1..<10] @ [60000])) \<and>
   inMemoryCheck 60000 demo_ip
      (demo_full(demo_ip \<mapsto> map (\<lambda>k. 1000 * int k) [1..<10] @ [60000])) =
     (\<lparr>allowed = False, remaining = 0\<rparr>,
      demo_full(demo_ip \<mapsto> map (\<lambda>k. 1000 * int k) [1..<10] @ [60000]))"
proof -
  have h0: "sorted (map event_time (demo_checks @ [Check demo_ip 10000]))"
    by (simp add: demo_checks_def upt_rec)
  have h1: "maxRequests \<le>
      length (filter (in_window 10000) (allowed_times demo_ip (snd (rl_run demo_checks))))"
    by (simp add: demo_run allowed_times_def in_window_def windowMs_def maxRequests_def)
  have h2: "maxRequests \<le> length (filter (in_window 10000) (stored demo_full demo_ip))"
    by (simp add: demo_full_def stored_def upt_rec in_window_def windowMs_def maxRequests_def)
  have h3: "length (filter (in_window 5) (stored Map.empty demo_ip)) < maxRequests"
    by (simp add: stored_def maxRequests_def)
  have h4: "demo_full demo_ip = Some (0 # map (\<lambda>k. 1000 * int k) [1..<10])"
    by (simp add: demo_full_def upt_rec)
  have h5: "Suc (length (map (\<lambda>k. 1000 * int k) [1..<10])) = maxRequests"
    by (simp add: maxRequests_def)
  have h6: "list_all (in_window 60000) (map (\<lambda>k. 1000 * int k) [1..<10])"
    by (simp add: upt_rec in_window_def windowMs_def)
  have h7: "\<not> in_window 60000 0"
    by (simp add: in_window_def windowMs_def)
  note inst = C3_sliding_window [where es = "demo_checks @ [Check demo_ip 10000]" and ip = demo_ip
      and T = 10000 and ?es1.0 = demo_checks and ?ip1.0 = demo_ip and ?now1.0 = 10000
      and ?now2.0 = 10000 and ?hits2.0 = demo_full and ?ip2.0 = demo_ip
      and ?now3.0 = 5 and ?hits3.0 = Map.empty and ?ip3.0 = demo_ip
      and ?hits4.0 = demo_full and ?ip4.0 = demo_ip and ?t0.0 = 0
      and rest = "map (\<lambda>k. 1000 * int k) [1..<10]" and ?now4.0 = 60000]
  from inst h0 h1 h2 h3 h4 h5 h6 h7 show ?thesis
    by blast
qed

section \<open>Rate limiter: what \<open>checkRateLimitAsync\<close> returns\<close>

lemma getUpstashLimiter_unconfigured:
  "rateLimiter m = None \<Longrightarrow> UPSTASH_URL m = [] \<or> UPSTASH_TOKEN m = [] \<Longrightarrow>
   getUpstashLimiter load m = (Inr None, m)"
  by (simp add: getUpstashLimiter_def)

lemma getUpstashLimiter_configured:
  "rateLimiter m = None \<Longrightarrow> UPSTASH_URL m \<noteq> [] \<Longrightarrow> UPSTASH_TOKEN m \<noteq> [] \<Longrightarrow>
   getUpstashLimiter (Inr l) m = (Inr (Some l), m\<lparr>rateLimiter := Some l\<rparr>)"
  by (simp add: getUpstashLimiter_def)

lemma getUpstashLimiter_cached:
  "rateLimiter m = Some l \<Longrightarrow> getUpstashLimiter load m = (Inr (Some l), m)"
  by (simp add: getUpstashLimiter_def)

text \<open>
  Claim C2, as the code has it. \<open>checkRateLimitAsync\<close> returns a decision when no backend
  is configured (the in-memory check cannot fail) and when the backend's call resolves
  (its \<open>success\<close> and \<open>remaining\<close>). When the backend is configured and the construction of
  the limiter or its \<open>limit\<close> call is rejected, the rejection is the outcome of
  \<open>checkRateLimitAsync\<close>: there is no fallback to the in-memory check and the map is
  not touched.
\<close>

theorem C2_checkRateLimitAsync_outcomes:
  "(rateLimiter m = None \<and> (UPSTASH_URL m = [] \<or> UPSTASH_TOKEN m = []) \<longrightarrow>
      checkRateLimitAsync load now identifier m =
        (Inr (fst (inMemoryCheck now identifier (hits m))),
         m\<lparr>hits := snd (inMemoryCheck now identifier (hits m))\<rparr>)) \<and>
   (fst (getUpstashLimiter load1 m1) = Inr (Some l1) \<and> l1 identifier1 = Inr r1 \<longrightarrow>
      fst (checkRateLimitAsync load1 now1 identifier1 m1) =
        Inr \<lparr>allowed = u_success r1, remaining = u_remaining r1\<rparr>) \<and>
   (fst (getUpstashLimiter load2 m2) = Inr (Some l2) \<and> l2 identifier2 = Inl e2 \<longrightarrow>
      checkRateLimitAsync load2 now2 identifier2 m2 = (Inl e2, snd (getUpstashLimiter load2 m2))
      \<and> hits (snd (checkRateLimitAsync load2 now2 identifier2 m2)) = hits m2) \<and>
   (fst (getUpstashLimiter load3 m3) = Inl e3 \<longrightarrow>
      checkRateLimitAsync load3 now3 identifier3 m3 = (Inl e3, m3))"
proof -
  have a: "rateLimiter m = None \<and> (UPSTASH_URL m = [] \<or> UPSTASH_TOKEN m = []) \<longrightarrow>
      checkRateLimitAsync load now identifier m =
        (Inr (fst (inMemoryCheck now identifier (hits m))),
         m\<lparr>hits := snd (inMemoryCheck now identifier (hits m))\<rparr>)"
    by (auto simp: checkRateLimitAsync_def getUpstashLimiter_unconfigured split_beta)
  have b: "fst (getUpstashLimiter load1 m1) = Inr (Some l1) \<and> l1 identifier1 = Inr r1 \<longrightarrow>
      fst (checkRateLimitAsync load1 now1 identifier1 m1) =
        Inr \<lparr>allowed = u_success r1, remaining = u_remaining r1\<rparr>"
    by (cases "getUpstashLimiter load1 m1") (auto simp: checkRateLimitAsync_def)
  have c: "fst (getUpstashLimiter load2 m2) = Inr (Some l2) \<and> l2 identifier2 = Inl e2 \<longrightarrow>
      checkRateLimitAsync load2 now2 identifier2 m2 = (Inl e2, snd (getUpstashLimiter load2 m2))
      \<and> hits (snd (checkRateLimitAsync load2 now2 identifier2 m2)) = hits m2"
    by (cases "getUpstashLimiter load2 m2")
       (auto simp: checkRateLimitAsync_def getUpstashLimiter_def split: option.splits if_splits sum.splits)
  have d: "fst (getUpstashLimiter load3 m3) = Inl e3 \<longrightarrow>
      checkRateLimitAsync load3 now3 identifier3 m3 = (Inl e3, m3)"
    by (cases "getUpstashLimiter load3 m3")
       (auto simp: checkRateLimitAsync_def getUpstashLimiter_def split: option.splits if_splits sum.splits)
  from a b c d show ?thesis by blast
qed

theorem C2_checkRateLimitAsync_outcomes_witness:
  "rateLimiter demo_unconfigured = None \<and>
   (UPSTASH_URL demo_unconfigured = [] \<or> UPSTASH_TOKEN demo_unconfigured = []) \<and>
   checkRateLimitAsync (Inr demo_failing_limiter) 5 demo_ip demo_unconfigured =
     (Inr (fst (inMemoryCheck 5 demo_ip (hits demo_unconfigured))),
      demo_unconfigured\<lparr>hits := snd (inMemoryCheck 5 demo_ip (hits demo_unconfigured))\<rparr>) \<and>
   fst (getUpstashLimiter (Inr demo_working_limiter) demo_configured) = Inr (Some demo_working_limiter) \<and>
   demo_working_limiter demo_ip = Inr \<lparr>u_success = True, u_remaining = 9, u_reset = 60000\<rparr> \<and>
   fst (checkRateLimitAsync (Inr demo_working_limiter) 5 demo_ip demo_configured) =
     Inr \<lparr>allowed = u_success \<lparr>u_success = True, u_remaining = 9, u_reset = 60000\<rparr>,
          remaining = u_remaining \<lparr>u_success = True, u_remaining = 9, u_reset = 60000\<rparr>\<rparr> \<and>
   fst (getUpstashLimiter (Inr demo_failing_limiter) demo_configured) = Inr (Some demo_failing_limiter) \<and>
   demo_failing_limiter demo_ip = Inl (JsError (ascii ''fetch failed'')) \<and>
   checkRateLimitAsync (Inr demo_failing_limiter) 5 demo_ip demo_configured =
     (Inl (JsError (ascii ''fetch failed'')),
      snd (getUpstashLimiter (Inr demo_failing_limiter) demo_configured)) \<and>
   hits (snd (checkRateLimitAsync (Inr demo_failing_limiter) 5 demo_ip demo_configured)) =
     hits demo_configured \<and>
   fst (getUpstashLimiter (Inl (JsError (ascii ''Cannot find module''))) demo_configured) =
     Inl (JsError (ascii ''Cannot find module'')) \<and>
   checkRateLimitAsync (Inl (JsError (ascii ''Cannot find module''))) 5 demo_ip demo_configured =
     (Inl (JsError (ascii ''Cannot find module'')), demo_configured)"
proof -
  have h1: "rateLimiter demo_unconfigured = None \<and>
      (UPSTASH_URL demo_unconfigured = [] \<or> UPSTASH_TOKEN demo_unconfigured = [])"
    by (simp add: demo_unconfigured_def)
  have h2: "fst (getUpstashLimiter (Inr demo_working_limiter) demo_configured) =
      Inr (Some demo_working_limiter)"
    by (simp add: getUpstashLimiter_def demo_configured_def ascii_def)
  have h3: "demo_working_limiter demo_ip = Inr \<lparr>u_success = True, u_remaining = 9, u_reset = 60000\<rparr>"
    by (simp add: demo_working_limiter_def)
  have h4: "fst (getUpstashLimiter (Inr demo_failing_limiter) demo_configured) =
      Inr (Some demo_failing_limiter)"
    by (simp add: getUpstashLimiter_def demo_configured_def ascii_def)
  have h5: "demo_failing_limiter demo_ip = Inl (JsError (ascii ''fetch failed''))"
    by (simp add: demo_failing_limiter_def)
  have h6: "fst (getUpstashLimiter (Inl (JsError (ascii ''Cannot find module''))) demo_configured) =
      Inl (JsError (ascii ''Cannot find module''))"
    by (simp add: getUpstashLimiter_def demo_configured_def ascii_def)
  note inst = C2_checkRateLimitAsync_outcomes [where ?m = demo_unconfigured
      and ?load = "Inr demo_failing_limiter" and ?now = 5 and ?identifier = demo_ip
      and ?load1.0 = "Inr demo_working_limiter" and ?m1.0 = demo_configured
      and ?l1.0 = demo_working_limiter and ?identifier1.0 = demo_ip
      and ?r1.0 = "\<lparr>u_success = True, u_remaining = 9, u_reset = 60000\<rparr>" and ?now1.0 = 5
      and ?load2.0 = "Inr demo_failing_limiter" and ?m2.0 = demo_configured
      and ?l2.0 = demo_failing_limiter and ?identifier2.0 = demo_ip
      and ?e2.0 = "JsError (ascii ''fetch failed'')" and ?now2.0 = 5
      and ?load3.0 = "Inl (JsError (ascii ''Cannot find module''))" and ?m3.0 = demo_configured
      and ?e3.0 = "JsError (ascii ''Cannot find module'')" and ?now3.0 = 5 and ?identifier3.0 = demo_ip]
  from inst h1 h2 h3 h4 h5 h6 show ?thesis by blast
qed

text \<open>
  The claim as written fails: with the backend configured and its call rejected,
  \<open>checkRateLimitAsync\<close> is rejected too and returns no decision.
\<close>

theorem C2_never_throws_counterexample:
  "fst (checkRateLimitAsync (Inr demo_failing_limiter) 5 demo_ip demo_configured) =
     Inl (JsError (ascii ''fetch failed''))"
  by (simp add: checkRateLimitAsync_def getUpstashLimiter_def demo_configured_def
      demo_failing_limiter_def ascii_def)

section \<open>Transcription job client: the poll loop\<close>

declare poll_loop.simps [simp del]






















section \<open>Subtitle parsing\<close>

declare split_from.simps [simp del] replace_all.simps [simp del] split_blocks_from.simps [simp del]

lemma split_from_Nil: "split_from sep acc [] = [acc]"
  by (subst split_from.simps) simp

lemma split_from_Cons:
  "split_from sep acc (c # cs) =
     (if sep \<noteq> [] \<and> startsWith (c # cs) sep
      then acc # split_from sep [] (drop (length sep) (c # cs))
      else split_from sep (acc @ [c]) cs)"
  by (subst split_from.simps) simp

lemma replace_all_Nil: "replace_all p r [] = []"
  by (subst replace_all.simps) simp

lemma replace_all_Cons:
  "replace_all p r (c # cs) =
     (if p = [] then c # cs
      else if startsWith (c # cs) p then r @ replace_all p r (drop (length p) (c # cs))
      else c # replace_all p r cs)"
  by (subst replace_all.simps) simp

lemma split_blocks_from_Nil: "split_blocks_from acc [] = [acc]"
  by (subst split_blocks_from.simps) simp

lemma split_blocks_from_Cons:
  "split_blocks_from acc (c # cs) =
     (case (if c = 10 then blank_gap cs else None) of
        Some n \<Rightarrow> acc # split_blocks_from [] (drop n cs)
      | None \<Rightarrow> split_blocks_from (acc @ [c]) cs)"
  by (subst split_blocks_from.simps) (simp split: option.splits)

lemma startsWith_iff: "startsWith s p \<longleftrightarrow> (\<exists>ys. s = p @ ys)"
proof
  assume "startsWith s p"
  then have "s = p @ drop (length p) s"
    by (metis append_take_drop_id startsWith_def)
  then show "\<exists>ys. s = p @ ys" ..
next
  assume "\<exists>ys. s = p @ ys"
  then show "startsWith s p" by (auto simp: startsWith_def)
qed

lemma includes_str_iff: "includes_str s p \<longleftrightarrow> (\<exists>xs ys. s = xs @ p @ ys)"
proof (induction s)
  case Nil
  show ?case by auto
next
  case (Cons c cs)
  show ?case
  proof
    assume "includes_str (c # cs) p"
    then consider "startsWith (c # cs) p" | "includes_str cs p" by auto
    then show "\<exists>xs ys. c # cs = xs @ p @ ys"
    proof cases
      case 1
      then obtain ys where "c # cs = p @ ys" by (auto simp: startsWith_iff)
      then have "c # cs = [] @ p @ ys" by simp
      then show ?thesis by blast
    next
      case 2
      with Cons.IH obtain xs ys where "cs = xs @ p @ ys" by blast
      then have "c # cs = (c # xs) @ p @ ys" by simp
      then show ?thesis by blast
    qed
  next
    assume "\<exists>xs ys. c # cs = xs @ p @ ys"
    then obtain xs ys where e: "c # cs = xs @ p @ ys" by blast
    show "includes_str (c # cs) p"
    proof (cases xs)
      case Nil
      with e have "startsWith (c # cs) p" by (auto simp: startsWith_iff)
      then show ?thesis by simp
    next
      case (Cons x xs')
      with e have "cs = xs' @ p @ ys" by simp
      with Cons.IH have "includes_str cs p" by blast
      then show ?thesis by simp
    qed
  qed
qed

lemma includes_str_append: "includes_str s p \<Longrightarrow> includes_str (a @ s @ b) p"
proof -
  assume "includes_str s p"
  then obtain xs ys where "s = xs @ p @ ys" by (auto simp: includes_str_iff)
  then have "a @ s @ b = (a @ xs) @ p @ (ys @ b)" by simp
  then show ?thesis unfolding includes_str_iff by blast
qed

lemma includes_str_sub: "includes_str s (a @ p @ b) \<Longrightarrow> includes_str s p"
proof -
  assume "includes_str s (a @ p @ b)"
  then obtain xs ys where "s = xs @ (a @ p @ b) @ ys" by (auto simp: includes_str_iff)
  then have "s = (xs @ a) @ p @ (b @ ys)" by simp
  then show ?thesis unfolding includes_str_iff by blast
qed

lemma split_from_no_sep:
  "\<not> includes_str s sep \<Longrightarrow> split_from sep acc s = [acc @ s]"
proof (induction s arbitrary: acc)
  case Nil
  show ?case by (simp add: split_from_Nil)
next
  case (Cons c cs)
  from Cons.prems have "\<not> startsWith (c # cs) sep" "\<not> includes_str cs sep" by auto
  with Cons.IH [of "acc @ [c]"] show ?case by (simp add: split_from_Cons)
qed

lemma parse_block_few_lines: "length (split block [10]) < 3 \<Longrightarrow> parse_block block = None"
  by (simp add: parse_block_def Let_def)

lemma parse_block_no_arrow:
  assumes "\<not> includes_str (split block [10] ! 1) (ascii ''-->'')"
  shows "parse_block block = None"
proof -
  have sep: "ascii '' --> '' = [32] @ ascii ''-->'' @ [32]" by (simp add: ascii_def)
  from assms have "\<not> includes_str (split block [10] ! 1) (ascii '' --> '')"
    unfolding sep using includes_str_sub by blast
  then have "split (split block [10] ! 1) (ascii '' --> '') = [split block [10] ! 1]"
    by (simp add: split_def split_from_no_sep)
  then show ?thesis by (simp add: parse_block_def Let_def)
qed

lemma split_from_nonempty: "split_from sep acc s \<noteq> []"
  by (induction s arbitrary: acc) (simp_all add: split_from_Nil split_from_Cons)

lemma split_from_two:
  "sep \<noteq> [] \<Longrightarrow> includes_str s sep \<Longrightarrow> 2 \<le> length (split_from sep acc s)"
proof (induction s arbitrary: acc)
  case Nil
  then show ?case by simp
next
  case (Cons c cs)
  show ?case
  proof (cases "startsWith (c # cs) sep")
    case True
    have "1 \<le> length (split_from sep [] (drop (length sep) (c # cs)))"
      using split_from_nonempty [of sep "[]" "drop (length sep) (c # cs)"]
      by (cases "split_from sep [] (drop (length sep) (c # cs))") simp_all
    with True Cons.prems(1) show ?thesis by (simp add: split_from_Cons)
  next
    case False
    with Cons.prems(2) have "includes_str cs sep" by simp
    from Cons.IH [OF Cons.prems(1) this, of "acc @ [c]"] False
    show ?thesis by (simp add: split_from_Cons)
  qed
qed

lemma parse_block_well_formed:
  assumes "3 \<le> length (split block [10])"
    and "includes_str (split block [10] ! 1) (ascii '' --> '')"
  shows "parse_block block =
     Some \<lparr>seg_index = trim (split block [10] ! 0),
           seg_start = trim (split (split block [10] ! 1) (ascii '' --> '') ! 0),
           seg_end = trim (split (split block [10] ! 1) (ascii '' --> '') ! 1),
           seg_text = trim (join [32] (drop 2 (split block [10]))),
           instrumental = includes_str (trim (join [32] (drop 2 (split block [10])))) music_note\<rparr>"
proof -
  have self: "includes_str music_note music_note" by (simp add: music_note_def startsWith_def)
  have "ascii '' --> '' \<noteq> []" by (simp add: ascii_def)
  from split_from_two [OF this assms(2), of "[]"]
  have "\<not> length (split (split block [10] ! 1) (ascii '' --> '')) < 2"
    by (simp add: split_def)
  moreover from assms(1) have "\<not> length (split block [10]) < 3" by simp
  ultimately show ?thesis using self
    by (auto simp: parse_block_def Let_def)
qed

lemma parse_block_instrumental:
  "parse_block block = Some seg \<Longrightarrow> instrumental seg = includes_str (seg_text seg) music_note"
proof -
  have self: "includes_str music_note music_note" by (simp add: music_note_def startsWith_def)
  assume "parse_block block = Some seg"
  then show ?thesis using self
    by (auto simp: parse_block_def Let_def split: if_splits)
qed

lemma srt_loop_map_filter:
  "srt_loop blocks entries = entries @ List.map_filter parse_block blocks"
  by (induction blocks arbitrary: entries) (auto simp: List.map_filter_simps split: option.splits)


lemma includes_pair_Cons:
  "includes_str (c # cs) [g1, g2] \<longleftrightarrow> (c = g1 \<and> (\<exists>cs'. cs = g2 # cs')) \<or> includes_str cs [g1, g2]"
  by (cases cs) (auto simp: startsWith_def)

lemma includes_pair_Nil: "\<not> includes_str [] [g1, g2]"
  by simp

lemma no_pair_space_between:
  "\<not> includes_str a [g1, g2] \<Longrightarrow> \<not> includes_str b [g1, g2] \<Longrightarrow> g1 \<noteq> 32 \<Longrightarrow> g2 \<noteq> 32 \<Longrightarrow>
   \<not> includes_str (a @ 32 # b) [g1, g2]"
proof (induction a)
  case Nil
  then show ?case by (simp add: includes_pair_Cons del: includes_str.simps)
next
  case (Cons c a)
  then show ?case
    by (cases a) (auto simp: includes_pair_Cons simp del: includes_str.simps)
qed

lemma no_pair_join:
  "\<forall>x \<in> set xs. \<not> includes_str x [g1, g2] \<Longrightarrow> g1 \<noteq> 32 \<Longrightarrow> g2 \<noteq> 32 \<Longrightarrow>
   \<not> includes_str (join [32] xs) [g1, g2]"
proof (induction "[32::nat]" xs rule: join.induct)
  case 1
  show ?case by simp
next
  case (2 x)
  then show ?case by simp
next
  case (3 x y ys)
  then have "\<not> includes_str x [g1, g2]" "\<not> includes_str (join [32] (y # ys)) [g1, g2]" by auto
  from no_pair_space_between [OF this 3(3,4)] show ?case by simp
qed

lemma collapse_ws_head:
  "collapse_ws cs = d # rest \<Longrightarrow> d \<noteq> 32 \<Longrightarrow> \<exists>cs'. cs = d # cs'"
  by (cases cs) (auto split: if_splits)

lemma includes_str_suffix: "includes_str (drop n s) p \<Longrightarrow> includes_str s p"
  using includes_str_append [of "drop n s" p "take n s" "[]"] by simp

lemma includes_str_dropWhile: "includes_str (dropWhile P s) p \<Longrightarrow> includes_str s p"
proof -
  assume a: "includes_str (dropWhile P s) p"
  have "s = takeWhile P s @ dropWhile P s @ []" by simp
  then show ?thesis using includes_str_append [OF a, of "takeWhile P s" "[]"] by metis
qed

lemma no_pair_collapse_ws:
  "\<not> includes_str s [g1, g2] \<Longrightarrow> g1 \<noteq> 32 \<Longrightarrow> g2 \<noteq> 32 \<Longrightarrow>
   \<not> includes_str (collapse_ws s) [g1, g2]"
proof (induction s rule: collapse_ws.induct)
  case 1
  show ?case by simp
next
  case (2 c cs)
  show ?case
  proof (cases "is_ws c")
    case True
    from 2(3) have "\<not> includes_str cs [g1, g2]" by (simp add: includes_pair_Cons del: includes_str.simps)
    then have "\<not> includes_str (dropWhile is_ws cs) [g1, g2]" using includes_str_dropWhile by blast
    from 2(1) [OF True this 2(4,5)] True 2(4) show ?thesis
      by (simp add: includes_pair_Cons del: includes_str.simps)
  next
    case False
    from 2(3) have rest: "\<not> includes_str cs [g1, g2]"
      and hd: "\<not> (c = g1 \<and> (\<exists>cs'. cs = g2 # cs'))"
      by (simp_all add: includes_pair_Cons del: includes_str.simps)
    from 2(2) [OF False rest 2(4,5)] have "\<not> includes_str (collapse_ws cs) [g1, g2]" .
    moreover have "\<not> (c = g1 \<and> (\<exists>r. collapse_ws cs = g2 # r))"
      using hd collapse_ws_head [of cs g2] 2(5) by blast
    ultimately show ?thesis using False
      by (simp add: includes_pair_Cons del: includes_str.simps)
  qed
qed

lemma includes_str_trim: "includes_str (trim s) p \<Longrightarrow> includes_str s p"
proof -
  assume a: "includes_str (trim s) p"
  let ?t = "dropWhile is_ws s"
  have "?t = trim s @ rev (takeWhile is_ws (rev ?t))"
  proof -
    have "rev ?t = takeWhile is_ws (rev ?t) @ dropWhile is_ws (rev ?t)" by simp
    then have "rev (rev ?t) = rev (takeWhile is_ws (rev ?t) @ dropWhile is_ws (rev ?t))" by simp
    then show ?thesis by (simp add: trim_def del: takeWhile_dropWhile_id)
  qed
  then have "?t = [] @ trim s @ rev (takeWhile is_ws (rev ?t))" by simp
  with includes_str_append [OF a, of "[]" "rev (takeWhile is_ws (rev ?t))"]
  have "includes_str ?t p" by metis
  then show ?thesis by (rule includes_str_dropWhile)
qed

lemma srtToJson_instrumental:
  "seg \<in> set (srtToJson srt) \<Longrightarrow> instrumental seg = includes_str (seg_text seg) music_note"
  by (auto simp: srtToJson_def srt_loop_map_filter List.map_filter_def parse_block_instrumental)

lemma segmentsToText_no_note:
  assumes "\<forall>seg \<in> set segments. instrumental seg = includes_str (seg_text seg) music_note"
  shows "\<not> includes_str (segmentsToText segments) music_note"
proof -
  let ?texts = "map seg_text (filter (\<lambda>s. \<not> instrumental s) segments)"
  from assms have "\<forall>x \<in> set ?texts. \<not> includes_str x [55356, 57269]"
    by (auto simp: music_note_def)
  then have "\<not> includes_str (join [32] ?texts) [55356, 57269]"
    by (rule no_pair_join) simp_all
  then have "\<not> includes_str (collapse_ws (join [32] ?texts)) [55356, 57269]"
    by (rule no_pair_collapse_ws) simp_all
  then show ?thesis
    unfolding segmentsToText_def music_note_def using includes_str_trim by blast
qed

lemma segmentsToText_filter:
  "segmentsToText (filter (\<lambda>s. \<not> instrumental s) segments) = segmentsToText segments"
  by (simp add: segmentsToText_def)

lemma extractAudioTranscript_ok:
  assumes "a_ok (fst (extractAudioTranscript env url))"
  shows "\<exists>d srtText. download env = Inr d \<and> dl_text d = Inr srtText \<and>
           a_segments (fst (extractAudioTranscript env url)) = Some (srtToJson srtText) \<and>
           a_text (fst (extractAudioTranscript env url)) = Some (segmentsToText (srtToJson srtText))"
  using assms
  by (auto simp: extractAudioTranscript_def audio_try_def audio_after_upload_def audio_failure_def
      Let_def split: option.splits sum.splits if_splits prod.splits)

lemmas str_eval = ascii_def startsWith_def split_def split_from_Nil split_from_Cons trim_def
  is_ws_def collapse_ws.simps join.simps music_note_def Let_def
  split_blocks_def split_blocks_from_Nil split_blocks_from_Cons blank_gap_def

lemmas demo_srt_defs = demo_srt_def demo_block_speech_def demo_block_music_def demo_block_short_def
  demo_block_no_arrow_def demo_block_two_lines_def demo_seg_speech_def demo_seg_music_def
  demo_seg_two_lines_def demo_block_mixed_def demo_seg_mixed_def

lemma srt_loop_skip:
  "parse_block block = None \<Longrightarrow>
   srt_loop (before @ block # after) entries = srt_loop (before @ after) entries"
  by (simp add: srt_loop_map_filter List.map_filter_def)

lemma srt_loop_keep:
  "parse_block block = Some seg \<Longrightarrow>
   srt_loop (before @ block # after) entries =
     srt_loop before entries @ seg # srt_loop after []"
  by (simp add: srt_loop_map_filter List.map_filter_def)

lemma srtToJson_member:
  assumes "block \<in> set (split_blocks (trim srt))" and "parse_block block = Some seg"
  shows "seg \<in> set (srtToJson srt)"
proof -
  from assms have "seg = the (parse_block block) \<and> parse_block block \<noteq> None" by simp
  with assms(1) show ?thesis
    by (auto simp: srtToJson_def srt_loop_map_filter List.map_filter_def image_iff)
qed

text \<open>
  Claim C5. Parsing a subtitle document is lenient: a block with fewer than three lines,
  and a block whose second line has no \<open>-->\<close>, adds no entry and the loop goes on with
  the next block; \<open>srtToJson\<close> returns the entries of the blocks that parse, in order.
  A block of three lines or more whose second line holds \<open> --> \<close> does parse: its entry
  has the trimmed first line as index, the trimmed texts before and after the first
  separator as start and end, and the lines from the third on joined by spaces and trimmed
  as text; the entry is appended where the block stands, so it is among the entries
  \<open>srtToJson\<close> returns.
  An entry is marked instrumental exactly when its text contains the music-note glyph
  (so also when it is the glyph). \<open>segmentsToText\<close> drops the instrumental entries, and
  the text flattened from a parsed document never contains the glyph; a successful
  \<open>extractAudioTranscript\<close> returns all entries of the downloaded document, instrumental
  ones with them, beside that text.
\<close>

theorem C5_subtitle_parsing:
  "(length (split block [10]) < 3 \<longrightarrow> parse_block block = None) \<and>
   (3 \<le> length (split block1 [10]) \<and> \<not> includes_str (split block1 [10] ! 1) (ascii ''-->'') \<longrightarrow>
      parse_block block1 = None) \<and>
   (parse_block block2 = None \<longrightarrow>
      srt_loop (before @ block2 # after) entries = srt_loop (before @ after) entries) \<and>
   srtToJson srt = List.map_filter parse_block (split_blocks (trim srt)) \<and>
   (parse_block block3 = Some seg \<longrightarrow>
      instrumental seg = includes_str (seg_text seg) music_note \<and>
      (seg_text seg = music_note \<longrightarrow> instrumental seg)) \<and>
   segmentsToText (filter (\<lambda>s. \<not> instrumental s) segments) = segmentsToText segments \<and>
   \<not> includes_str (segmentsToText (srtToJson srt)) music_note \<and>
   (a_ok (fst (extractAudioTranscript env url)) \<longrightarrow>
      (\<exists>d srtText. download env = Inr d \<and> dl_text d = Inr srtText \<and>
         a_segments (fst (extractAudioTranscript env url)) = Some (srtToJson srtText) \<and>
         a_text (fst (extractAudioTranscript env url)) =
           Some (segmentsToText (srtToJson srtText)))) \<and>
   (3 \<le> length (split block4 [10]) \<and> includes_str (split block4 [10] ! 1) (ascii '' --> '') \<longrightarrow>
      parse_block block4 =
        Some \<lparr>seg_index = trim (split block4 [10] ! 0),
              seg_start = trim (split (split block4 [10] ! 1) (ascii '' --> '') ! 0),
              seg_end = trim (split (split block4 [10] ! 1) (ascii '' --> '') ! 1),
              seg_text = trim (join [32] (drop 2 (split block4 [10]))),
              instrumental =
                includes_str (trim (join [32] (drop 2 (split block4 [10])))) music_note\<rparr>) \<and>
   (parse_block block5 = Some seg5 \<longrightarrow>
      srt_loop (before5 @ block5 # after5) entries5 =
        srt_loop before5 entries5 @ seg5 # srt_loop after5 []) \<and>
   (block6 \<in> set (split_blocks (trim srt6)) \<and> parse_block block6 = Some seg6 \<longrightarrow>
      seg6 \<in> set (srtToJson srt6))"
proof -
  have self: "includes_str music_note music_note" by (simp add: music_note_def startsWith_def)
  have c1: "length (split block [10]) < 3 \<longrightarrow> parse_block block = None"
    using parse_block_few_lines [of block] by blast
  have c2: "3 \<le> length (split block1 [10]) \<and>
      \<not> includes_str (split block1 [10] ! 1) (ascii ''-->'') \<longrightarrow> parse_block block1 = None"
    using parse_block_no_arrow [of block1] by blast
  have c3: "parse_block block2 = None \<longrightarrow>
      srt_loop (before @ block2 # after) entries = srt_loop (before @ after) entries"
    using srt_loop_skip [of block2 before after entries] by blast
  have c4: "srtToJson srt = List.map_filter parse_block (split_blocks (trim srt))"
    by (simp add: srtToJson_def srt_loop_map_filter)
  have c5: "parse_block block3 = Some seg \<longrightarrow>
      instrumental seg = includes_str (seg_text seg) music_note \<and>
      (seg_text seg = music_note \<longrightarrow> instrumental seg)"
    using parse_block_instrumental [of block3 seg] self by auto
  have c6: "segmentsToText (filter (\<lambda>s. \<not> instrumental s) segments) = segmentsToText segments"
    by (rule segmentsToText_filter)
  have c7: "\<not> includes_str (segmentsToText (srtToJson srt)) music_note"
    by (rule segmentsToText_no_note) (simp add: srtToJson_instrumental)
  have c8: "a_ok (fst (extractAudioTranscript env url)) \<longrightarrow>
      (\<exists>d srtText. download env = Inr d \<and> dl_text d = Inr srtText \<and>
         a_segments (fst (extractAudioTranscript env url)) = Some (srtToJson srtText) \<and>
         a_text (fst (extractAudioTranscript env url)) =
           Some (segmentsToText (srtToJson srtText)))"
    using extractAudioTranscript_ok [of env url] by blast
  have c9: "3 \<le> length (split block4 [10]) \<and>
      includes_str (split block4 [10] ! 1) (ascii '' --> '') \<longrightarrow>
      parse_block block4 =
        Some \<lparr>seg_index = trim (split block4 [10] ! 0),
              seg_start = trim (split (split block4 [10] ! 1) (ascii '' --> '') ! 0),
              seg_end = trim (split (split block4 [10] ! 1) (ascii '' --> '') ! 1),
              seg_text = trim (join [32] (drop 2 (split block4 [10]))),
              instrumental =
                includes_str (trim (join [32] (drop 2 (split block4 [10])))) music_note\<rparr>"
    using parse_block_well_formed [of block4] by blast
  have c10: "parse_block block5 = Some seg5 \<longrightarrow>
      srt_loop (before5 @ block5 # after5) entries5 =
        srt_loop before5 entries5 @ seg5 # srt_loop after5 []"
    using srt_loop_keep [of block5 seg5 before5 after5 entries5] by blast
  have c11: "block6 \<in> set (split_blocks (trim srt6)) \<and> parse_block block6 = Some seg6 \<longrightarrow>
      seg6 \<in> set (srtToJson srt6)"
    using srtToJson_member [of block6 srt6 seg6] by blast
  show ?thesis
    by (intro conjI) (fact c1 c2 c3 c4 c5 c6 c7 c8 c9 c10 c11)+
qed

lemma demo_parse:
  "parse_block demo_block_speech = Some demo_seg_speech"
  "parse_block demo_block_music = Some demo_seg_music"
  "parse_block demo_block_two_lines = Some demo_seg_two_lines"
  "parse_block demo_block_mixed = Some demo_seg_mixed"
  by (simp_all add: parse_block_def demo_srt_defs str_eval)

lemma demo_blocks:
  "split_blocks (trim demo_srt) =
     [demo_block_speech, demo_block_music, demo_block_short, demo_block_no_arrow, demo_block_two_lines]"
  by (simp add: demo_srt_defs str_eval)

lemma demo_done_run:
  "extractAudioTranscript demo_env_done demo_audio_url =
     (\<lparr>a_ok = True, a_text = Some (ascii ''Bom dia a todos vamos falar de economia''),
       a_segments = Some [demo_seg_speech, demo_seg_music, demo_seg_two_lines],
       a_warnings = [msg_instrumental_removed], a_error = None\<rparr>, 3, 9000)"
proof -
  have p: "poll_loop (poll demo_env_done) (ascii ''PROCESSING'') 0 0 = (Inr (ascii ''DONE''), 3, 9000)"
    by (simp add: poll_loop.simps demo_env_done_def demo_poll_busy_def demo_poll_done_def
        MAX_POLL_ATTEMPTS_def POLL_INTERVAL_MS_def http_ok_def ascii_def Let_def)
  have short: "parse_block demo_block_short = None" "parse_block demo_block_no_arrow = None"
    by (simp_all add: parse_block_def demo_srt_defs str_eval)
  have j: "srtToJson demo_srt = [demo_seg_speech, demo_seg_music, demo_seg_two_lines]"
    by (simp add: srtToJson_def demo_blocks demo_parse short)
  have t: "segmentsToText [demo_seg_speech, demo_seg_music, demo_seg_two_lines] =
      ascii ''Bom dia a todos vamos falar de economia''"
    by (simp add: segmentsToText_def demo_srt_defs str_eval)
  have u: "parseAudioDataUrl demo_audio_url \<noteq> None"
    by (simp add: parseAudioDataUrl_def demo_audio_url_def str_eval)
  have len: "\<not> length (ascii ''Bom dia a todos vamos falar de economia'') < 5"
    "ascii ''Bom dia a todos vamos falar de economia'' \<noteq> []"
    by (simp_all add: ascii_def)
  have ex: "list_ex instrumental [demo_seg_speech, demo_seg_music, demo_seg_two_lines]"
    by (simp add: demo_srt_defs)
  have st: "job_status \<lparr>job_id = ascii ''job-1'', job_status = ascii ''PROCESSING''\<rparr> = ascii ''PROCESSING''"
    by simp
  have "audio_after_upload demo_env_done \<lparr>job_id = ascii ''job-1'', job_status = ascii ''PROCESSING''\<rparr> =
      (Inr \<lparr>a_ok = True, a_text = Some (ascii ''Bom dia a todos vamos falar de economia''),
       a_segments = Some [demo_seg_speech, demo_seg_music, demo_seg_two_lines],
       a_warnings = [msg_instrumental_removed], a_error = None\<rparr>, 3, 9000)"
    unfolding audio_after_upload_def st p
    using len ex by (simp add: demo_env_done_def http_ok_def j t)
  with u show ?thesis
    by (auto simp add: extractAudioTranscript_def audio_try_def demo_env_done_def demo_upload_def
        http_ok_def ascii_def)
qed

theorem C5_subtitle_parsing_witness:
  "length (split demo_block_short [10]) < 3 \<and> parse_block demo_block_short = None \<and>
   3 \<le> length (split demo_block_no_arrow [10]) \<and>
   \<not> includes_str (split demo_block_no_arrow [10] ! 1) (ascii ''-->'') \<and>
   parse_block demo_block_no_arrow = None \<and>
   srt_loop ([demo_block_speech, demo_block_music] @ demo_block_short # [demo_block_two_lines]) [] =
     srt_loop ([demo_block_speech, demo_block_music] @ [demo_block_two_lines]) [] \<and>
   parse_block demo_block_music = Some demo_seg_music \<and>
   seg_text demo_seg_music = music_note \<and> instrumental demo_seg_music \<and>
   a_ok (fst (extractAudioTranscript demo_env_done demo_audio_url)) \<and>
   a_segments (fst (extractAudioTranscript demo_env_done demo_audio_url)) =
     Some [demo_seg_speech, demo_seg_music, demo_seg_two_lines] \<and>
   a_text (fst (extractAudioTranscript demo_env_done demo_audio_url)) =
     Some (ascii ''Bom dia a todos vamos falar de economia'') \<and>
   \<not> includes_str (segmentsToText (srtToJson demo_srt)) music_note \<and>
   3 \<le> length (split demo_block_mixed [10]) \<and>
   includes_str (split demo_block_mixed [10] ! 1) (ascii '' --> '') \<and>
   parse_block demo_block_mixed = Some demo_seg_mixed \<and>
   seg_text demo_seg_mixed = music_note @ ascii '' la la'' \<and> instrumental demo_seg_mixed \<and>
   srt_loop ([demo_block_speech] @ demo_block_mixed # [demo_block_two_lines]) [] =
     srt_loop [demo_block_speech] [] @ demo_seg_mixed # srt_loop [demo_block_two_lines] [] \<and>
   demo_block_music \<in> set (split_blocks (trim demo_srt)) \<and>
   demo_seg_music \<in> set (srtToJson demo_srt)"
proof -
  have h1: "length (split demo_block_short [10]) < 3"
    by (simp add: demo_srt_defs str_eval)
  have h2: "3 \<le> length (split demo_block_no_arrow [10])"
    "\<not> includes_str (split demo_block_no_arrow [10] ! 1) (ascii ''-->'')"
    by (simp_all add: demo_srt_defs str_eval)
  have h3: "seg_text demo_seg_music = music_note"
    by (simp add: demo_seg_music_def)
  have h4: "a_ok (fst (extractAudioTranscript demo_env_done demo_audio_url))"
    "a_segments (fst (extractAudioTranscript demo_env_done demo_audio_url)) =
      Some [demo_seg_speech, demo_seg_music, demo_seg_two_lines]"
    "a_text (fst (extractAudioTranscript demo_env_done demo_audio_url)) =
      Some (ascii ''Bom dia a todos vamos falar de economia'')"
    by (simp_all add: demo_done_run)
  have h5: "3 \<le> length (split demo_block_mixed [10])"
    "includes_str (split demo_block_mixed [10] ! 1) (ascii '' --> '')"
    by (simp_all add: demo_srt_defs str_eval)
  have h6: "seg_text demo_seg_mixed = music_note @ ascii '' la la''"
    by (simp add: demo_seg_mixed_def)
  have h7: "demo_block_music \<in> set (split_blocks (trim demo_srt))"
    by (simp add: demo_blocks)
  note inst = C5_subtitle_parsing [where ?block = demo_block_short
      and ?block1.0 = demo_block_no_arrow and ?block2.0 = demo_block_short
      and ?before = "[demo_block_speech, demo_block_music]" and ?after = "[demo_block_two_lines]"
      and ?entries = "[]" and ?srt = demo_srt and ?block3.0 = demo_block_music
      and ?seg = demo_seg_music and ?segments = "[]" and ?env = demo_env_done
      and ?url = demo_audio_url and ?block4.0 = demo_block_mixed
      and ?block5.0 = demo_block_mixed and ?seg5.0 = demo_seg_mixed
      and ?before5.0 = "[demo_block_speech]" and ?after5.0 = "[demo_block_two_lines]"
      and ?entries5.0 = "[]" and ?block6.0 = demo_block_music and ?srt6.0 = demo_srt
      and ?seg6.0 = demo_seg_music]
  note few = inst [THEN conjunct1]
  note arrow = inst [THEN conjunct2, THEN conjunct1]
  note skip = inst [THEN conjunct2, THEN conjunct2, THEN conjunct1]
  note marked = inst [THEN conjunct2, THEN conjunct2, THEN conjunct2, THEN conjunct2,
      THEN conjunct1]
  note clean = inst [THEN conjunct2, THEN conjunct2, THEN conjunct2, THEN conjunct2,
      THEN conjunct2, THEN conjunct2, THEN conjunct1]
  note well = inst [THEN conjunct2, THEN conjunct2, THEN conjunct2, THEN conjunct2,
      THEN conjunct2, THEN conjunct2, THEN conjunct2, THEN conjunct2, THEN conjunct1]
  note keep = inst [THEN conjunct2, THEN conjunct2, THEN conjunct2, THEN conjunct2,
      THEN conjunct2, THEN conjunct2, THEN conjunct2, THEN conjunct2, THEN conjunct2,
      THEN conjunct1]
  note member = inst [THEN conjunct2, THEN conjunct2, THEN conjunct2, THEN conjunct2,
      THEN conjunct2, THEN conjunct2, THEN conjunct2, THEN conjunct2, THEN conjunct2,
      THEN conjunct2]
  from few h1 have g1: "parse_block demo_block_short = None" by (rule mp)
  from h2 have "3 \<le> length (split demo_block_no_arrow [10]) \<and>
      \<not> includes_str (split demo_block_no_arrow [10] ! 1) (ascii ''-->'')" by (rule conjI)
  with arrow have g2: "parse_block demo_block_no_arrow = None" by (rule mp)
  from skip g1
  have g3: "srt_loop ([demo_block_speech, demo_block_music] @ demo_block_short # [demo_block_two_lines]) [] =
     srt_loop ([demo_block_speech, demo_block_music] @ [demo_block_two_lines]) []"
    by (rule mp)
  from marked demo_parse(2) h3 have g4: "instrumental demo_seg_music" by blast
  from h5 have "3 \<le> length (split demo_block_mixed [10]) \<and>
      includes_str (split demo_block_mixed [10] ! 1) (ascii '' --> '')" by (rule conjI)
  with well have "parse_block demo_block_mixed =
        Some \<lparr>seg_index = trim (split demo_block_mixed [10] ! 0),
              seg_start = trim (split (split demo_block_mixed [10] ! 1) (ascii '' --> '') ! 0),
              seg_end = trim (split (split demo_block_mixed [10] ! 1) (ascii '' --> '') ! 1),
              seg_text = trim (join [32] (drop 2 (split demo_block_mixed [10]))),
              instrumental =
                includes_str (trim (join [32] (drop 2 (split demo_block_mixed [10])))) music_note\<rparr>"
    by (rule mp)
  also have "\<dots> = Some demo_seg_mixed"
    by (simp add: demo_srt_defs str_eval)
  finally have g5: "parse_block demo_block_mixed = Some demo_seg_mixed" .
  have g6: "instrumental demo_seg_mixed" by (simp add: demo_seg_mixed_def)
  from keep g5
  have g7: "srt_loop ([demo_block_speech] @ demo_block_mixed # [demo_block_two_lines]) [] =
     srt_loop [demo_block_speech] [] @ demo_seg_mixed # srt_loop [demo_block_two_lines] []"
    by (rule mp)
  from h7 demo_parse(2)
  have "demo_block_music \<in> set (split_blocks (trim demo_srt)) \<and>
      parse_block demo_block_music = Some demo_seg_music" by (rule conjI)
  with member have g8: "demo_seg_music \<in> set (srtToJson demo_srt)" by (rule mp)
  show ?thesis
    by (intro conjI)
      (fact h1 g1 h2 g2 g3 demo_parse(2) h3 g4 h4 clean h5 g5 h6 g6 g7 h7 g8)+
qed

section \<open>Caption extractor: length policy and language fallback\<close>

lemma collapse_ws_id: "\<forall>c \<in> set s. \<not> is_ws c \<Longrightarrow> collapse_ws s = s"
  by (induction s) auto

lemma replace_all_id: "p \<noteq> [] \<Longrightarrow> hd p \<notin> set s \<Longrightarrow> replace_all p r s = s"
proof (induction s)
  case Nil
  show ?case by (simp add: replace_all_Nil)
next
  case (Cons c cs)
  from Cons.prems have "\<not> startsWith (c # cs) p"
    by (cases p) (auto simp: startsWith_def)
  with Cons show ?case by (simp add: replace_all_Cons)
qed

lemma trim_id: "\<forall>c \<in> set s. \<not> is_ws c \<Longrightarrow> trim s = s"
proof -
  assume a: "\<forall>c \<in> set s. \<not> is_ws c"
  then have "dropWhile is_ws s = s" by (cases s) auto
  moreover from a have "dropWhile is_ws (rev s) = rev s" by (cases "rev s") auto
  ultimately show ?thesis by (simp add: trim_def)
qed

lemma clean_transcript_id:
  "\<forall>c \<in> set s. \<not> is_ws c \<and> c \<noteq> 38 \<Longrightarrow> clean_transcript s = s"
proof -
  assume a: "\<forall>c \<in> set s. \<not> is_ws c \<and> c \<noteq> 38"
  then have "38 \<notin> set s" by auto
  then have r: "\<And>p r. p \<noteq> [] \<Longrightarrow> hd p = 38 \<Longrightarrow> replace_all p r s = s"
    by (simp add: replace_all_id)
  from a show ?thesis
    by (simp add: clean_transcript_def collapse_ws_id trim_id r ascii_def)
qed

lemma buildTranscriptResult_short:
  "length (clean_transcript tx) < 100 \<Longrightarrow>
   buildTranscriptResult tx videoId url warnings = yt_failure msg_too_short warnings"
  by (simp add: buildTranscriptResult_def Let_def)

lemma buildTranscriptResult_long:
  "10000 < length (clean_transcript tx) \<Longrightarrow>
   buildTranscriptResult tx videoId url warnings =
     \<lparr>x_ok = True,
      x_text = Some (transcript_header videoId @ take 10000 (clean_transcript tx)),
      x_title = Some (transcript_title videoId), x_sourceUrl = Some url,
      x_warnings = warnings @ [msg_truncated], x_error = None\<rparr>"
  by (simp add: buildTranscriptResult_def Let_def)

lemma buildTranscriptResult_fits:
  "100 \<le> length (clean_transcript tx) \<Longrightarrow> length (clean_transcript tx) \<le> 10000 \<Longrightarrow>
   buildTranscriptResult tx videoId url warnings =
     \<lparr>x_ok = True,
      x_text = Some (transcript_header videoId @ clean_transcript tx),
      x_title = Some (transcript_title videoId), x_sourceUrl = Some url,
      x_warnings = warnings, x_error = None\<rparr>"
  by (simp add: buildTranscriptResult_def Let_def)

lemma buildTranscriptResult_warnings:
  "set warnings \<subseteq> set (x_warnings (buildTranscriptResult tx videoId url warnings))"
  by (auto simp: buildTranscriptResult_def Let_def yt_failure_def)

lemma yt_try_fallback_calls:
  "yt_import env = None \<Longrightarrow> fetchTranscript env videoId (Some (ascii ''pt'')) = Inr first \<Longrightarrow>
   no_items first \<Longrightarrow>
   snd (yt_try env url videoId warnings) = [(videoId, Some (ascii ''pt'')), (videoId, None)]"
  by (simp add: yt_try_def Let_def)

lemma yt_try_fallback_ok:
  "yt_import env = None \<Longrightarrow> fetchTranscript env videoId (Some (ascii ''pt'')) = Inr first \<Longrightarrow>
   no_items first \<Longrightarrow> fetchTranscript env videoId None = Inr (Some items) \<Longrightarrow> items \<noteq> [] \<Longrightarrow>
   fst (yt_try env url videoId warnings) =
     Inr (buildTranscriptResult (trim (join [32] items)) videoId url
           (warnings @ [msg_fallback_language]))"
  by (simp add: yt_try_def Let_def)

lemma yt_try_fallback_failed:
  "yt_import env = None \<Longrightarrow> fetchTranscript env videoId (Some (ascii ''pt'')) = Inr first \<Longrightarrow>
   no_items first \<Longrightarrow>
   (\<exists>err. fetchTranscript env videoId None = Inl err) \<or>
   (\<exists>fallback. fetchTranscript env videoId None = Inr fallback \<and> no_items fallback) \<Longrightarrow>
   fst (yt_try env url videoId warnings) = Inr (yt_failure msg_no_captions warnings)"
  by (auto simp: yt_try_def Let_def)

lemma extractYouTubeTranscript_try:
  "youtube_id url = Some videoId \<Longrightarrow> fst (yt_try env url videoId []) = Inr result \<Longrightarrow>
   extractYouTubeTranscript env url = (result, snd (yt_try env url videoId []))"
  by (cases "yt_try env url videoId []") (simp add: extractYouTubeTranscript_def)

lemma yt_try_main_path:
  "yt_import env = None \<Longrightarrow> fetchTranscript env videoId (Some (ascii ''pt'')) = Inr (Some items) \<Longrightarrow>
   items \<noteq> [] \<Longrightarrow>
   yt_try env url videoId warnings =
     (Inr (buildTranscriptResult (trim (join [32] items)) videoId url warnings),
      [(videoId, Some (ascii ''pt''))])"
  by (simp add: yt_try_def Let_def)

lemma yt_catch_failed: "\<not> x_ok (yt_catch err warnings)"
  by (cases err) (simp add: yt_failure_def)

lemma yt_try_built:
  "fst (yt_try env url videoId warnings) = Inr result \<Longrightarrow> x_ok result \<Longrightarrow>
   \<exists>tx ws. result = buildTranscriptResult tx videoId url ws"
  by (auto simp: yt_try_def Let_def yt_failure_def split: option.splits sum.splits if_splits)

lemma buildTranscriptResult_ok:
  assumes "x_ok (buildTranscriptResult tx videoId url warnings)"
  shows "100 \<le> length (clean_transcript tx) \<and>
     x_text (buildTranscriptResult tx videoId url warnings) =
       Some (transcript_header videoId @ take 10000 (clean_transcript tx)) \<and>
     (10000 < length (clean_transcript tx) \<longrightarrow>
        msg_truncated \<in> set (x_warnings (buildTranscriptResult tx videoId url warnings)))"
  using assms by (auto simp: buildTranscriptResult_def Let_def yt_failure_def split: if_splits)

lemma extractYouTubeTranscript_ok:
  assumes "x_ok (fst (extractYouTubeTranscript env url))"
  shows "\<exists>videoId tx ws. youtube_id url = Some videoId \<and>
     fst (extractYouTubeTranscript env url) = buildTranscriptResult tx videoId url ws"
proof (cases "youtube_id url")
  case None
  with assms show ?thesis by (simp add: extractYouTubeTranscript_def yt_failure_def)
next
  case (Some videoId)
  obtain outcome calls where t: "yt_try env url videoId [] = (outcome, calls)"
    by (cases "yt_try env url videoId []")
  show ?thesis
  proof (cases outcome)
    case (Inl err)
    with Some t assms show ?thesis
      by (simp add: extractYouTubeTranscript_def yt_catch_failed)
  next
    case (Inr result)
    with Some t have r: "fst (extractYouTubeTranscript env url) = result"
      by (simp add: extractYouTubeTranscript_def)
    from t Inr have "fst (yt_try env url videoId []) = Inr result" by simp
    from yt_try_built [OF this] assms r
    obtain tx ws where "result = buildTranscriptResult tx videoId url ws" by auto
    with Some r show ?thesis by auto
  qed
qed

lemma demo_video_id: "youtube_id demo_video_url = Some demo_video_id"
  by (simp add: demo_video_url_def demo_video_id_def youtube_id_here_def match_id_after_def
      startsWith_def is_id_char_def ascii_def Let_def)

text \<open>
  Claim C7. \<open>buildTranscriptResult\<close> measures the cleaned text (white space collapsed,
  five entities decoded, trimmed). Shorter than 100 code units: the failed result with the
  too-short message, the warnings as they were. Longer than 10000: a successful result
  whose text is the header followed by the first 10000 code units, with the truncation
  warning appended to the warnings. Otherwise the whole cleaned text follows the header and
  no warning is added, so nothing is cut without the warning. The extractor returns what
  \<open>buildTranscriptResult\<close> makes of the captions: when the fetch with the language hint
  \<open>pt\<close> resolves to items, the result is built from their texts joined by spaces, with no
  warning before the policy; and every successful result of the extractor was built this
  way, so its cleaned transcript has at least 100 code units, its text holds at most the
  first 10000 of them, and a longer transcript carries the truncation warning.
\<close>

theorem C7_length_policy:
  "(length (clean_transcript tx) < 100 \<longrightarrow>
      buildTranscriptResult tx videoId url warnings = yt_failure msg_too_short warnings \<and>
      \<not> x_ok (buildTranscriptResult tx videoId url warnings) \<and>
      x_error (buildTranscriptResult tx videoId url warnings) = Some msg_too_short) \<and>
   (10000 < length (clean_transcript tx1) \<longrightarrow>
      buildTranscriptResult tx1 videoId1 url1 warnings1 =
        \<lparr>x_ok = True,
         x_text = Some (transcript_header videoId1 @ take 10000 (clean_transcript tx1)),
         x_title = Some (transcript_title videoId1), x_sourceUrl = Some url1,
         x_warnings = warnings1 @ [msg_truncated], x_error = None\<rparr> \<and>
      length (take 10000 (clean_transcript tx1)) = 10000) \<and>
   (100 \<le> length (clean_transcript tx2) \<and> length (clean_transcript tx2) \<le> 10000 \<longrightarrow>
      buildTranscriptResult tx2 videoId2 url2 warnings2 =
        \<lparr>x_ok = True,
         x_text = Some (transcript_header videoId2 @ clean_transcript tx2),
         x_title = Some (transcript_title videoId2), x_sourceUrl = Some url2,
         x_warnings = warnings2, x_error = None\<rparr>) \<and>
   (youtube_id url3 = Some videoId3 \<and> yt_import env3 = None \<and>
    fetchTranscript env3 videoId3 (Some (ascii ''pt'')) = Inr (Some items3) \<and> items3 \<noteq> [] \<longrightarrow>
      fst (extractYouTubeTranscript env3 url3) =
        buildTranscriptResult (trim (join [32] items3)) videoId3 url3 []) \<and>
   (x_ok (fst (extractYouTubeTranscript env4 url4)) \<longrightarrow>
      (\<exists>videoId4 tx4 warnings4. youtube_id url4 = Some videoId4 \<and>
         fst (extractYouTubeTranscript env4 url4) =
           buildTranscriptResult tx4 videoId4 url4 warnings4 \<and>
         100 \<le> length (clean_transcript tx4) \<and>
         x_text (fst (extractYouTubeTranscript env4 url4)) =
           Some (transcript_header videoId4 @ take 10000 (clean_transcript tx4)) \<and>
         (10000 < length (clean_transcript tx4) \<longrightarrow>
            msg_truncated \<in> set (x_warnings (fst (extractYouTubeTranscript env4 url4))))))"
proof -
  have a: "length (clean_transcript tx) < 100 \<longrightarrow>
      buildTranscriptResult tx videoId url warnings = yt_failure msg_too_short warnings \<and>
      \<not> x_ok (buildTranscriptResult tx videoId url warnings) \<and>
      x_error (buildTranscriptResult tx videoId url warnings) = Some msg_too_short"
    using buildTranscriptResult_short [of tx videoId url warnings]
    by (auto simp: yt_failure_def)
  have b: "10000 < length (clean_transcript tx1) \<longrightarrow>
      buildTranscriptResult tx1 videoId1 url1 warnings1 =
        \<lparr>x_ok = True,
         x_text = Some (transcript_header videoId1 @ take 10000 (clean_transcript tx1)),
         x_title = Some (transcript_title videoId1), x_sourceUrl = Some url1,
         x_warnings = warnings1 @ [msg_truncated], x_error = None\<rparr> \<and>
      length (take 10000 (clean_transcript tx1)) = 10000"
    using buildTranscriptResult_long [of tx1 videoId1 url1 warnings1] by auto
  have c: "100 \<le> length (clean_transcript tx2) \<and> length (clean_transcript tx2) \<le> 10000 \<longrightarrow>
      buildTranscriptResult tx2 videoId2 url2 warnings2 =
        \<lparr>x_ok = True,
         x_text = Some (transcript_header videoId2 @ clean_transcript tx2),
         x_title = Some (transcript_title videoId2), x_sourceUrl = Some url2,
         x_warnings = warnings2, x_error = None\<rparr>"
    using buildTranscriptResult_fits [of tx2 videoId2 url2 warnings2] by blast
  have d: "fst (extractYouTubeTranscript env3 url3) =
        buildTranscriptResult (trim (join [32] items3)) videoId3 url3 []"
    if "youtube_id url3 = Some videoId3" "yt_import env3 = None"
      "fetchTranscript env3 videoId3 (Some (ascii ''pt'')) = Inr (Some items3)" "items3 \<noteq> []"
    using that(1) yt_try_main_path [OF that(2-4), of url3 "[]"]
    by (simp add: extractYouTubeTranscript_def)
  have e: "\<exists>videoId4 tx4 warnings4. youtube_id url4 = Some videoId4 \<and>
         fst (extractYouTubeTranscript env4 url4) =
           buildTranscriptResult tx4 videoId4 url4 warnings4 \<and>
         100 \<le> length (clean_transcript tx4) \<and>
         x_text (fst (extractYouTubeTranscript env4 url4)) =
           Some (transcript_header videoId4 @ take 10000 (clean_transcript tx4)) \<and>
         (10000 < length (clean_transcript tx4) \<longrightarrow>
            msg_truncated \<in> set (x_warnings (fst (extractYouTubeTranscript env4 url4))))"
    if ok: "x_ok (fst (extractYouTubeTranscript env4 url4))"
  proof -
    from extractYouTubeTranscript_ok [OF ok] obtain videoId4 tx4 warnings4 where
      v: "youtube_id url4 = Some videoId4" and
      r: "fst (extractYouTubeTranscript env4 url4) = buildTranscriptResult tx4 videoId4 url4 warnings4"
      by blast
    from ok r have "x_ok (buildTranscriptResult tx4 videoId4 url4 warnings4)" by simp
    from buildTranscriptResult_ok [OF this] v r show ?thesis by auto
  qed
  from a b c d e show ?thesis by blast
qed

theorem C7_length_policy_witness:
  "length (clean_transcript (ascii ''muito  curto '')) < 100 \<and>
   buildTranscriptResult (ascii ''muito  curto '') demo_video_id demo_video_url [] =
     yt_failure msg_too_short [] \<and>
   \<not> x_ok (buildTranscriptResult (ascii ''muito  curto '') demo_video_id demo_video_url []) \<and>
   10000 < length (clean_transcript (replicate 10001 97)) \<and>
   buildTranscriptResult (replicate 10001 97) demo_video_id demo_video_url [msg_fallback_language] =
     \<lparr>x_ok = True,
      x_text = Some (transcript_header demo_video_id @ take 10000 (clean_transcript (replicate 10001 97))),
      x_title = Some (transcript_title demo_video_id), x_sourceUrl = Some demo_video_url,
      x_warnings = [msg_fallback_language] @ [msg_truncated], x_error = None\<rparr> \<and>
   100 \<le> length (clean_transcript (replicate 150 97)) \<and>
   length (clean_transcript (replicate 150 97)) \<le> 10000 \<and>
   buildTranscriptResult (replicate 150 97) demo_video_id demo_video_url [] =
     \<lparr>x_ok = True,
      x_text = Some (transcript_header demo_video_id @ clean_transcript (replicate 150 97)),
      x_title = Some (transcript_title demo_video_id), x_sourceUrl = Some demo_video_url,
      x_warnings = [], x_error = None\<rparr> \<and>
   youtube_id demo_video_url = Some demo_video_id \<and> yt_import demo_env_main = None \<and>
   fetchTranscript demo_env_main demo_video_id (Some (ascii ''pt'')) =
     Inr (Some [replicate 10001 97]) \<and>
   [replicate 10001 (97::nat)] \<noteq> [] \<and>
   fst (extractYouTubeTranscript demo_env_main demo_video_url) =
     buildTranscriptResult (trim (join [32] [replicate 10001 97])) demo_video_id demo_video_url [] \<and>
   fst (extractYouTubeTranscript demo_env_main demo_video_url) =
     \<lparr>x_ok = True,
      x_text = Some (transcript_header demo_video_id @ replicate 10000 97),
      x_title = Some (transcript_title demo_video_id), x_sourceUrl = Some demo_video_url,
      x_warnings = [msg_truncated], x_error = None\<rparr> \<and>
   x_ok (fst (extractYouTubeTranscript demo_env_main demo_video_url)) \<and>
   (\<exists>videoId4 tx4 warnings4. youtube_id demo_video_url = Some videoId4 \<and>
      fst (extractYouTubeTranscript demo_env_main demo_video_url) =
        buildTranscriptResult tx4 videoId4 demo_video_url warnings4 \<and>
      100 \<le> length (clean_transcript tx4))"
proof -
  have c: "clean_transcript (replicate n 97) = replicate n 97" for n
    by (rule clean_transcript_id) (simp add: is_ws_def)
  have h1: "length (clean_transcript (ascii ''muito  curto '')) < 100"
    by (simp add: clean_transcript_def ascii_def trim_def is_ws_def replace_all_Cons replace_all_Nil
        startsWith_def)
  have h2: "10000 < length (clean_transcript (replicate 10001 97))" by (simp add: c)
  have h3: "100 \<le> length (clean_transcript (replicate 150 97))"
    "length (clean_transcript (replicate 150 97)) \<le> 10000" by (simp_all add: c)
  note inst = C7_length_policy [where ?tx = "ascii ''muito  curto ''" and ?videoId = demo_video_id
      and ?url = demo_video_url and ?warnings = "[]" and ?tx1.0 = "replicate 10001 97"
      and ?videoId1.0 = demo_video_id and ?url1.0 = demo_video_url
      and ?warnings1.0 = "[msg_fallback_language]" and ?tx2.0 = "replicate 150 97"
      and ?videoId2.0 = demo_video_id and ?url2.0 = demo_video_url and ?warnings2.0 = "[]"
      and ?url3.0 = demo_video_url and ?videoId3.0 = demo_video_id and ?env3.0 = demo_env_main
      and ?items3.0 = "[replicate 10001 97]" and ?env4.0 = demo_env_main
      and ?url4.0 = demo_video_url]
  note short = inst [THEN conjunct1]
  note long = inst [THEN conjunct2, THEN conjunct1]
  note fits = inst [THEN conjunct2, THEN conjunct2, THEN conjunct1]
  note main = inst [THEN conjunct2, THEN conjunct2, THEN conjunct2, THEN conjunct1]
  note every = inst [THEN conjunct2, THEN conjunct2, THEN conjunct2, THEN conjunct2]
  from short h1
  have g1: "buildTranscriptResult (ascii ''muito  curto '') demo_video_id demo_video_url [] =
      yt_failure msg_too_short []"
    "\<not> x_ok (buildTranscriptResult (ascii ''muito  curto '') demo_video_id demo_video_url [])"
    by blast+
  from long h2
  have g2: "buildTranscriptResult (replicate 10001 97) demo_video_id demo_video_url [msg_fallback_language] =
     \<lparr>x_ok = True,
      x_text = Some (transcript_header demo_video_id @ take 10000 (clean_transcript (replicate 10001 97))),
      x_title = Some (transcript_title demo_video_id), x_sourceUrl = Some demo_video_url,
      x_warnings = [msg_fallback_language] @ [msg_truncated], x_error = None\<rparr>"
    by blast
  from fits h3
  have g3: "buildTranscriptResult (replicate 150 97) demo_video_id demo_video_url [] =
     \<lparr>x_ok = True,
      x_text = Some (transcript_header demo_video_id @ clean_transcript (replicate 150 97)),
      x_title = Some (transcript_title demo_video_id), x_sourceUrl = Some demo_video_url,
      x_warnings = [], x_error = None\<rparr>"
    by blast
  have h4: "yt_import demo_env_main = None"
    "fetchTranscript demo_env_main demo_video_id (Some (ascii ''pt'')) =
       Inr (Some [replicate 10001 97])"
    "[replicate 10001 (97::nat)] \<noteq> []"
    by (simp_all add: demo_env_main_def)
  have t: "trim (join [32] [replicate 10001 97]) = replicate 10001 97"
    by (simp add: trim_id is_ws_def)
  from main demo_video_id h4
  have h5: "fst (extractYouTubeTranscript demo_env_main demo_video_url) =
      buildTranscriptResult (trim (join [32] [replicate 10001 97])) demo_video_id demo_video_url []"
    by blast
  have "buildTranscriptResult (replicate 10001 97) demo_video_id demo_video_url [] =
     \<lparr>x_ok = True,
      x_text = Some (transcript_header demo_video_id @ replicate 10000 97),
      x_title = Some (transcript_title demo_video_id), x_sourceUrl = Some demo_video_url,
      x_warnings = [msg_truncated], x_error = None\<rparr>"
    unfolding buildTranscriptResult_long [OF h2] by (simp add: c)
  then have h6: "fst (extractYouTubeTranscript demo_env_main demo_video_url) =
     \<lparr>x_ok = True,
      x_text = Some (transcript_header demo_video_id @ replicate 10000 97),
      x_title = Some (transcript_title demo_video_id), x_sourceUrl = Some demo_video_url,
      x_warnings = [msg_truncated], x_error = None\<rparr>"
    unfolding h5 t .
  have h7: "x_ok (fst (extractYouTubeTranscript demo_env_main demo_video_url))"
    unfolding h6 by simp
  from every h7
  have "\<exists>videoId4 tx4 warnings4. youtube_id demo_video_url = Some videoId4 \<and>
         fst (extractYouTubeTranscript demo_env_main demo_video_url) =
           buildTranscriptResult tx4 videoId4 demo_video_url warnings4 \<and>
         100 \<le> length (clean_transcript tx4) \<and>
         x_text (fst (extractYouTubeTranscript demo_env_main demo_video_url)) =
           Some (transcript_header videoId4 @ take 10000 (clean_transcript tx4)) \<and>
         (10000 < length (clean_transcript tx4) \<longrightarrow>
            msg_truncated \<in> set (x_warnings (fst (extractYouTubeTranscript demo_env_main demo_video_url))))"
    by (rule mp)
  then obtain videoId4 tx4 warnings4 where
    "youtube_id demo_video_url = Some videoId4"
    "fst (extractYouTubeTranscript demo_env_main demo_video_url) =
       buildTranscriptResult tx4 videoId4 demo_video_url warnings4"
    "100 \<le> length (clean_transcript tx4)"
    by blast
  then have h8: "\<exists>videoId4 tx4 warnings4. youtube_id demo_video_url = Some videoId4 \<and>
      fst (extractYouTubeTranscript demo_env_main demo_video_url) =
        buildTranscriptResult tx4 videoId4 demo_video_url warnings4 \<and>
      100 \<le> length (clean_transcript tx4)"
    by blast
  show ?thesis
    by (intro conjI) (fact h1 g1 h2 g2 h3 g3 demo_video_id h4 h5 h6 h7 h8)+
qed

text \<open>
  Claim C6. When the fetch with the language hint \<open>pt\<close> resolves to no items, the extractor
  makes exactly one more call, without a language hint, and no other. If that call resolves
  to items, the result is built from them with the fallback-language warning in its
  warnings; if it is rejected or resolves to no items, the result is the failed
  no-captions result.
\<close>

theorem C6_caption_fallback:
  "(youtube_id url = Some videoId \<and> yt_import env = None \<and>
    fetchTranscript env videoId (Some (ascii ''pt'')) = Inr first \<and> no_items first \<longrightarrow>
      snd (extractYouTubeTranscript env url) = [(videoId, Some (ascii ''pt'')), (videoId, None)]) \<and>
   (youtube_id url1 = Some videoId1 \<and> yt_import env1 = None \<and>
    fetchTranscript env1 videoId1 (Some (ascii ''pt'')) = Inr first1 \<and> no_items first1 \<and>
    fetchTranscript env1 videoId1 None = Inr (Some items) \<and> items \<noteq> [] \<longrightarrow>
      fst (extractYouTubeTranscript env1 url1) =
        buildTranscriptResult (trim (join [32] items)) videoId1 url1 [msg_fallback_language] \<and>
      msg_fallback_language \<in> set (x_warnings (fst (extractYouTubeTranscript env1 url1)))) \<and>
   (youtube_id url2 = Some videoId2 \<and> yt_import env2 = None \<and>
    fetchTranscript env2 videoId2 (Some (ascii ''pt'')) = Inr first2 \<and> no_items first2 \<and>
    ((\<exists>err. fetchTranscript env2 videoId2 None = Inl err) \<or>
     (\<exists>fallback. fetchTranscript env2 videoId2 None = Inr fallback \<and> no_items fallback)) \<longrightarrow>
      fst (extractYouTubeTranscript env2 url2) = yt_failure msg_no_captions [] \<and>
      \<not> x_ok (fst (extractYouTubeTranscript env2 url2)))"
proof -
  have a: "snd (extractYouTubeTranscript env url) = [(videoId, Some (ascii ''pt'')), (videoId, None)]"
    if "youtube_id url = Some videoId" "yt_import env = None"
      "fetchTranscript env videoId (Some (ascii ''pt'')) = Inr first" "no_items first"
  proof -
    from yt_try_fallback_calls [OF that(2-4), of url "[]"]
    show ?thesis using that(1)
      by (cases "yt_try env url videoId []")
         (auto simp add: extractYouTubeTranscript_def split: sum.splits)
  qed
  have b: "fst (extractYouTubeTranscript env1 url1) =
        buildTranscriptResult (trim (join [32] items)) videoId1 url1 [msg_fallback_language] \<and>
      msg_fallback_language \<in> set (x_warnings (fst (extractYouTubeTranscript env1 url1)))"
    if "youtube_id url1 = Some videoId1" "yt_import env1 = None"
      "fetchTranscript env1 videoId1 (Some (ascii ''pt'')) = Inr first1" "no_items first1"
      "fetchTranscript env1 videoId1 None = Inr (Some items)" "items \<noteq> []"
  proof -
    from yt_try_fallback_ok [OF that(2-6), of url1 "[]"]
    have "fst (yt_try env1 url1 videoId1 []) =
        Inr (buildTranscriptResult (trim (join [32] items)) videoId1 url1 [msg_fallback_language])"
      by simp
    from extractYouTubeTranscript_try [OF that(1) this]
    have r: "fst (extractYouTubeTranscript env1 url1) =
        buildTranscriptResult (trim (join [32] items)) videoId1 url1 [msg_fallback_language]"
      by simp
    with buildTranscriptResult_warnings [of "[msg_fallback_language]" "trim (join [32] items)" videoId1 url1]
    show ?thesis by simp
  qed
  have c: "fst (extractYouTubeTranscript env2 url2) = yt_failure msg_no_captions [] \<and>
      \<not> x_ok (fst (extractYouTubeTranscript env2 url2))"
    if "youtube_id url2 = Some videoId2" "yt_import env2 = None"
      "fetchTranscript env2 videoId2 (Some (ascii ''pt'')) = Inr first2" "no_items first2"
      "(\<exists>err. fetchTranscript env2 videoId2 None = Inl err) \<or>
       (\<exists>fallback. fetchTranscript env2 videoId2 None = Inr fallback \<and> no_items fallback)"
  proof -
    from yt_try_fallback_failed [OF that(2-5), of url2 "[]"]
    have "fst (yt_try env2 url2 videoId2 []) = Inr (yt_failure msg_no_captions [])" .
    from extractYouTubeTranscript_try [OF that(1) this]
    show ?thesis by (simp add: yt_failure_def)
  qed
  from a b c show ?thesis by blast
qed

theorem C6_caption_fallback_witness:
  "youtube_id demo_video_url = Some demo_video_id \<and> yt_import demo_env_fallback = None \<and>
   fetchTranscript demo_env_fallback demo_video_id (Some (ascii ''pt'')) = Inr (Some []) \<and>
   no_items (Some []) \<and>
   snd (extractYouTubeTranscript demo_env_fallback demo_video_url) =
     [(demo_video_id, Some (ascii ''pt'')), (demo_video_id, None)] \<and>
   fetchTranscript demo_env_fallback demo_video_id None = Inr (Some demo_items) \<and>
   demo_items \<noteq> [] \<and>
   fst (extractYouTubeTranscript demo_env_fallback demo_video_url) =
     buildTranscriptResult (trim (join [32] demo_items)) demo_video_id demo_video_url
       [msg_fallback_language] \<and>
   msg_fallback_language \<in>
     set (x_warnings (fst (extractYouTubeTranscript demo_env_fallback demo_video_url))) \<and>
   yt_import demo_env_no_captions = None \<and>
   fetchTranscript demo_env_no_captions demo_video_id (Some (ascii ''pt'')) = Inr None \<and>
   no_items None \<and>
   fetchTranscript demo_env_no_captions demo_video_id None =
     Inl (JsError (ascii ''Transcript is disabled'')) \<and>
   fst (extractYouTubeTranscript demo_env_no_captions demo_video_url) =
     yt_failure msg_no_captions [] \<and>
   \<not> x_ok (fst (extractYouTubeTranscript demo_env_no_captions demo_video_url))"
proof -
  have h1: "yt_import demo_env_fallback = None"
    "fetchTranscript demo_env_fallback demo_video_id (Some (ascii ''pt'')) = Inr (Some [])"
    "fetchTranscript demo_env_fallback demo_video_id None = Inr (Some demo_items)"
    by (simp_all add: demo_env_fallback_def)
  have h2: "no_items (Some [])" "no_items None" "demo_items \<noteq> []"
    by (simp_all add: demo_items_def)
  have h3: "yt_import demo_env_no_captions = None"
    "fetchTranscript demo_env_no_captions demo_video_id (Some (ascii ''pt'')) = Inr None"
    "fetchTranscript demo_env_no_captions demo_video_id None =
       Inl (JsError (ascii ''Transcript is disabled''))"
    by (simp_all add: demo_env_no_captions_def)
  note inst = C6_caption_fallback [where ?url = demo_video_url and ?videoId = demo_video_id
      and ?env = demo_env_fallback and ?first = "Some []"
      and ?url1.0 = demo_video_url and ?videoId1.0 = demo_video_id
      and ?env1.0 = demo_env_fallback and ?first1.0 = "Some []" and ?items = demo_items
      and ?url2.0 = demo_video_url and ?videoId2.0 = demo_video_id
      and ?env2.0 = demo_env_no_captions and ?first2.0 = None]
  from inst demo_video_id h1 h2 h3 show ?thesis by blast
qed

section \<open>Evaluating the fingerprint\<close>

declare chunks64.simps [simp del]

lemma replicate_numeral: "replicate (numeral k) x = x # replicate (pred_numeral k) x"
  by (simp add: numeral_eq_Suc)

lemma chunks64_Nil: "chunks64 [] = []"
  by (subst chunks64.simps) simp

lemma chunks64_Cons: "chunks64 (x # xs) = take 64 (x # xs) # chunks64 (drop 64 (x # xs))"
  by (subst chunks64.simps) simp

lemmas sha_eval = sha256_hex_def sha256_def pad_def be_bytes8_def replicate_numeral chunks64_Nil
  chunks64_Cons compress_def sha_K_def sha_H0_def add32_def shr_def not32_def ssig0_def ssig1_def
  bsig0_def bsig1_def ch_def maj_def rotr_def Let_def hex32_def hex_digit_def
  utf8_code_point_def is_high_surrogate_def is_low_surrogate_def ascii_def

text \<open>The digest of the standard test message.\<close>

lemma sha256_hex_abc:
  "sha256_hex (ascii ''abc'') =
     ascii ''ba7816bf8f01cfea414140de5dae2223b00361a396177a9cb410ff61f20015ad''"
  by (simp add: sha_eval)

section \<open>Analysis pipeline: what it returns\<close>

lemma map_of_put_field:
  "map_of (put_field fs k x) k' = (if k' = k then Some x else map_of fs k')"
  by (induction fs) auto

lemma get_prop_set_prop:
  "set_prop v k x = Inr v' \<Longrightarrow> get_prop v' k' = (if k' = k then Inr (Some x) else get_prop v k')"
  by (cases v) (auto simp: map_of_put_field)

lemma set_prop_object: "is_object v \<Longrightarrow> \<exists>v'. set_prop v k x = Inr v' \<and> is_object v'"
  by (cases v) auto

lemma default_prop_object:
  assumes "is_object v"
  shows "\<exists>v'. default_prop v k d = Inr v' \<and> is_object v' \<and>
           get_prop v' k = Inr (Some (case get_prop v k of
                                        Inr (Some cur) \<Rightarrow> if truthy (Some cur) then cur else d
                                      | _ \<Rightarrow> d)) \<and>
           (\<forall>k'. k' \<noteq> k \<longrightarrow> get_prop v' k' = get_prop v k')"
  using assms by (cases v) (auto simp: default_prop_def map_of_put_field split: option.splits)


lemma key_distinct:
  "ascii ''meta'' \<noteq> ascii ''scores''" "ascii ''meta'' \<noteq> ascii ''summary''"
  "ascii ''meta'' \<noteq> ascii ''claims''" "ascii ''meta'' \<noteq> ascii ''similar''"
  "ascii ''meta'' \<noteq> ascii ''reportMarkdown''" "ascii ''meta'' \<noteq> ascii ''ok''"
  "ascii ''ok'' \<noteq> ascii ''meta''"
  by (simp_all add: ascii_def)

lemma ensure_fields_object:
  assumes obj: "is_object parsed"
    and meta: "case get_prop parsed (ascii ''meta'') of
                 Inr (Some v) \<Rightarrow> \<not> truthy (Some v) \<or> is_object v
               | _ \<Rightarrow> True"
  shows "\<exists>result. ensure_fields env inputType fp parsed = Inr result \<and>
           get_prop result (ascii ''ok'') = Inr (Some (JBool True)) \<and>
           path2 result (ascii ''meta'') (ascii ''fingerprint'') = Some (JStr fp)"
proof -
  from default_prop_object [OF obj, of "ascii ''meta''" "fallback_meta env inputType []"]
  obtain p1 where p1: "default_prop parsed (ascii ''meta'') (fallback_meta env inputType []) = Inr p1"
    "is_object p1"
    and m1: "get_prop p1 (ascii ''meta'') =
      Inr (Some (case get_prop parsed (ascii ''meta'') of
                   Inr (Some cur) \<Rightarrow> if truthy (Some cur) then cur else fallback_meta env inputType []
                 | _ \<Rightarrow> fallback_meta env inputType []))"
    by blast
  define m where "m = (case get_prop parsed (ascii ''meta'') of
                   Inr (Some cur) \<Rightarrow> if truthy (Some cur) then cur else fallback_meta env inputType []
                 | _ \<Rightarrow> fallback_meta env inputType [])"
  have mobj: "is_object m"
    using meta unfolding m_def
    by (auto simp: fallback_meta_def split: sum.splits option.splits)
  from m1 have g1: "get_prop p1 (ascii ''meta'') = Inr (Some m)" by (simp add: m_def)
  from default_prop_object [OF p1(2), of "ascii ''scores''" "scores 0 0 0 0"]
  obtain p2 where p2: "default_prop p1 (ascii ''scores'') (scores 0 0 0 0) = Inr p2" "is_object p2"
    and k2: "\<forall>k'. k' \<noteq> ascii ''scores'' \<longrightarrow> get_prop p2 k' = get_prop p1 k'" by blast
  from default_prop_object [OF p2(2), of "ascii ''summary''"
      "JObj [(ascii ''headline'', JStr (ascii ''Resultado'')), (ascii ''oneParagraph'', JStr []),
             (ascii ''verdict'', JStr (ascii ''Inconclusivo''))]"]
  obtain p3 where p3: "default_prop p2 (ascii ''summary'')
      (JObj [(ascii ''headline'', JStr (ascii ''Resultado'')), (ascii ''oneParagraph'', JStr []),
             (ascii ''verdict'', JStr (ascii ''Inconclusivo''))]) = Inr p3" "is_object p3"
    and k3: "\<forall>k'. k' \<noteq> ascii ''summary'' \<longrightarrow> get_prop p3 k' = get_prop p2 k'" by blast
  from default_prop_object [OF p3(2), of "ascii ''claims''" "JArr [] []"]
  obtain p4 where p4: "default_prop p3 (ascii ''claims'') (JArr [] []) = Inr p4" "is_object p4"
    and k4: "\<forall>k'. k' \<noteq> ascii ''claims'' \<longrightarrow> get_prop p4 k' = get_prop p3 k'" by blast
  from default_prop_object [OF p4(2), of "ascii ''similar''" empty_similar]
  obtain p5 where p5: "default_prop p4 (ascii ''similar'') empty_similar = Inr p5" "is_object p5"
    and k5: "\<forall>k'. k' \<noteq> ascii ''similar'' \<longrightarrow> get_prop p5 k' = get_prop p4 k'" by blast
  from default_prop_object [OF p5(2), of "ascii ''reportMarkdown''" "JStr []"]
  obtain p6 where p6: "default_prop p5 (ascii ''reportMarkdown'') (JStr []) = Inr p6" "is_object p6"
    and k6: "\<forall>k'. k' \<noteq> ascii ''reportMarkdown'' \<longrightarrow> get_prop p6 k' = get_prop p5 k'" by blast
  from g1 k2 k3 k4 k5 k6 have g6: "get_prop p6 (ascii ''meta'') = Inr (Some m)"
    by (simp add: key_distinct)
  from set_prop_object [OF mobj, of "ascii ''fingerprint''" "JStr fp"]
  obtain m' where m': "set_prop m (ascii ''fingerprint'') (JStr fp) = Inr m'" by blast
  from set_prop_object [OF p6(2), of "ascii ''meta''" m']
  obtain p7 where p7: "set_prop p6 (ascii ''meta'') m' = Inr p7" "is_object p7" by blast
  from set_prop_object [OF p7(2), of "ascii ''ok''" "JBool True"]
  obtain result where r: "set_prop p7 (ascii ''ok'') (JBool True) = Inr result" by blast
  have e: "ensure_fields env inputType fp parsed = Inr result"
    by (simp add: ensure_fields_def p1 p2 p3 p4 p5 p6 g6 m' p7 r)
  have ok: "get_prop result (ascii ''ok'') = Inr (Some (JBool True))"
    using get_prop_set_prop [OF r, of "ascii ''ok''"] by simp
  have "get_prop result (ascii ''meta'') = get_prop p7 (ascii ''meta'')"
    using get_prop_set_prop [OF r, of "ascii ''meta''"] by (simp add: key_distinct)
  also have "\<dots> = Inr (Some m')"
    using get_prop_set_prop [OF p7(1), of "ascii ''meta''"] by simp
  finally have gm: "get_prop result (ascii ''meta'') = Inr (Some m')" .
  have gf: "get_prop m' (ascii ''fingerprint'') = Inr (Some (JStr fp))"
    using get_prop_set_prop [OF m', of "ascii ''fingerprint''"] by simp
  from e ok gm gf show ?thesis by (simp add: path2_def)
qed

lemma analyzePipeline_throws:
  "generate env (build_parts inputType content) = Inl err \<Longrightarrow>
   analyzePipeline env inputType content = Inl err"
  by (simp add: analyzePipeline_def Let_def)

lemma fallback_analysis_object:
  "is_object (fallback_analysis env inputType)"
  "get_prop (fallback_analysis env inputType) (ascii ''meta'') =
     Inr (Some (fallback_meta env inputType [JStr msg_disclaimer]))"
  by (simp_all add: fallback_analysis_def)

lemma analyzePipeline_unparseable:
  assumes "generate env (build_parts inputType content) = Inr reply"
    and "JSON_parse env (strip_fences (trim reply)) = None"
  shows "analyzePipeline env inputType content =
           ensure_fields env inputType (sha256_hex content) (fallback_analysis env inputType)"
  using assms by (simp add: analyzePipeline_def Let_def)

lemma analyzePipeline_parsed:
  assumes "generate env (build_parts inputType content) = Inr reply"
    and "JSON_parse env (strip_fences (trim reply)) = Some v"
  shows "analyzePipeline env inputType content = ensure_fields env inputType (sha256_hex content) v"
  using assms by (simp add: analyzePipeline_def Let_def)


lemma ensure_fields_fallback:
  "\<exists>result. ensure_fields env inputType fp (fallback_analysis env inputType) = Inr result \<and>
     get_prop result (ascii ''ok'') = Inr (Some (JBool True)) \<and>
     path2 result (ascii ''meta'') (ascii ''fingerprint'') = Some (JStr fp) \<and>
     path2 result (ascii ''summary'') (ascii ''verdict'') = Some (JStr (ascii ''Inconclusivo'')) \<and>
     get_prop result (ascii ''scores'') = Inr (Some (scores 50 20 40 30))"
  by (simp add: ensure_fields_def fallback_analysis_def default_prop_def fallback_meta_def
      path2_def empty_similar_def scores_def ascii_def)


text \<open>
  Claim C10, as the code has it. When the model call returns a reply that is not parseable
  JSON (after trimming and removing a Markdown fence), \<open>analyzePipeline\<close> returns the fixed
  object with verdict \<open>Inconclusivo\<close> and the scores 50, 20, 40, 30, with \<open>ok\<close> true and
  \<open>meta.fingerprint\<close> the SHA-256 hex digest of the content argument. When the reply parses
  to an object whose \<open>meta\<close> is absent, falsy or an object, the object returned has \<open>ok\<close>
  true and that fingerprint. When the model call throws, \<open>analyzePipeline\<close> throws: it has
  no \<open>try\<close> around the call.
\<close>

theorem C10_pipeline_outcomes:
  "(generate env (build_parts inputType content) = Inr reply \<and>
    JSON_parse env (strip_fences (trim reply)) = None \<longrightarrow>
      (\<exists>result. analyzePipeline env inputType content = Inr result \<and>
         get_prop result (ascii ''ok'') = Inr (Some (JBool True)) \<and>
         path2 result (ascii ''meta'') (ascii ''fingerprint'') = Some (JStr (sha256_hex content)) \<and>
         path2 result (ascii ''summary'') (ascii ''verdict'') = Some (JStr (ascii ''Inconclusivo'')) \<and>
         get_prop result (ascii ''scores'') = Inr (Some (scores 50 20 40 30)))) \<and>
   (generate env1 (build_parts inputType1 content1) = Inr reply1 \<and>
    JSON_parse env1 (strip_fences (trim reply1)) = Some (JObj fs) \<and> meta_usable fs \<longrightarrow>
      (\<exists>result. analyzePipeline env1 inputType1 content1 = Inr result \<and>
         get_prop result (ascii ''ok'') = Inr (Some (JBool True)) \<and>
         path2 result (ascii ''meta'') (ascii ''fingerprint'') = Some (JStr (sha256_hex content1)))) \<and>
   (generate env2 (build_parts inputType2 content2) = Inl err \<longrightarrow>
      analyzePipeline env2 inputType2 content2 = Inl err)"
proof -
  have a: "\<exists>result. analyzePipeline env inputType content = Inr result \<and>
         get_prop result (ascii ''ok'') = Inr (Some (JBool True)) \<and>
         path2 result (ascii ''meta'') (ascii ''fingerprint'') = Some (JStr (sha256_hex content)) \<and>
         path2 result (ascii ''summary'') (ascii ''verdict'') = Some (JStr (ascii ''Inconclusivo'')) \<and>
         get_prop result (ascii ''scores'') = Inr (Some (scores 50 20 40 30))"
    if "generate env (build_parts inputType content) = Inr reply"
      "JSON_parse env (strip_fences (trim reply)) = None"
    using analyzePipeline_unparseable [OF that]
      ensure_fields_fallback [of env inputType "sha256_hex content"] by simp
  have b: "\<exists>result. analyzePipeline env1 inputType1 content1 = Inr result \<and>
         get_prop result (ascii ''ok'') = Inr (Some (JBool True)) \<and>
         path2 result (ascii ''meta'') (ascii ''fingerprint'') = Some (JStr (sha256_hex content1))"
    if "generate env1 (build_parts inputType1 content1) = Inr reply1"
      "JSON_parse env1 (strip_fences (trim reply1)) = Some (JObj fs)" "meta_usable fs"
  proof -
    have "case get_prop (JObj fs) (ascii ''meta'') of
            Inr (Some v) \<Rightarrow> \<not> truthy (Some v) \<or> is_object v | _ \<Rightarrow> True"
      using that(3) by (simp add: meta_usable_def split: option.splits)
    from ensure_fields_object [OF _ this, of env1 inputType1 "sha256_hex content1"]
      analyzePipeline_parsed [OF that(1,2)]
    show ?thesis by simp
  qed
  from a b analyzePipeline_throws [of env2 inputType2 content2 err] show ?thesis by blast
qed

theorem C10_pipeline_outcomes_witness:
  "generate demo_pipeline_prose (build_parts (ascii ''text'') (ascii ''abc'')) =
     Inr (ascii ''I cannot analyze this.'') \<and>
   JSON_parse demo_pipeline_prose (strip_fences (trim (ascii ''I cannot analyze this.''))) = None \<and>
   (\<exists>result. analyzePipeline demo_pipeline_prose (ascii ''text'') (ascii ''abc'') = Inr result \<and>
      get_prop result (ascii ''ok'') = Inr (Some (JBool True)) \<and>
      path2 result (ascii ''meta'') (ascii ''fingerprint'') = Some (JStr (sha256_hex (ascii ''abc''))) \<and>
      path2 result (ascii ''summary'') (ascii ''verdict'') = Some (JStr (ascii ''Inconclusivo'')) \<and>
      get_prop result (ascii ''scores'') = Inr (Some (scores 50 20 40 30))) \<and>
   generate demo_pipeline_json (build_parts (ascii ''text'') (ascii ''abc'')) = Inr (ascii ''{...}'') \<and>
   JSON_parse demo_pipeline_json (strip_fences (trim (ascii ''{...}''))) =
     Some (JObj demo_reply_fields) \<and>
   meta_usable demo_reply_fields \<and>
   (\<exists>result. analyzePipeline demo_pipeline_json (ascii ''text'') (ascii ''abc'') = Inr result \<and>
      get_prop result (ascii ''ok'') = Inr (Some (JBool True)) \<and>
      path2 result (ascii ''meta'') (ascii ''fingerprint'') = Some (JStr (sha256_hex (ascii ''abc'')))) \<and>
   generate demo_pipeline_down (build_parts (ascii ''text'') (ascii ''abc'')) =
     Inl (JsError (ascii ''fetch failed'')) \<and>
   analyzePipeline demo_pipeline_down (ascii ''text'') (ascii ''abc'') =
     Inl (JsError (ascii ''fetch failed''))"
proof -
  have h1: "generate demo_pipeline_prose (build_parts (ascii ''text'') (ascii ''abc'')) =
      Inr (ascii ''I cannot analyze this.'')"
    "JSON_parse demo_pipeline_prose (strip_fences (trim (ascii ''I cannot analyze this.''))) = None"
    by (simp_all add: demo_pipeline_prose_def)
  have h2: "generate demo_pipeline_json (build_parts (ascii ''text'') (ascii ''abc'')) =
      Inr (ascii ''{...}'')"
    "JSON_parse demo_pipeline_json (strip_fences (trim (ascii ''{...}''))) =
      Some (JObj demo_reply_fields)"
    by (simp_all add: demo_pipeline_json_def)
  have h3: "meta_usable demo_reply_fields"
    by (simp add: meta_usable_def demo_reply_fields_def ascii_def)
  have h4: "generate demo_pipeline_down (build_parts (ascii ''text'') (ascii ''abc'')) =
      Inl (JsError (ascii ''fetch failed''))"
    by (simp add: demo_pipeline_down_def)
  note inst = C10_pipeline_outcomes [where ?env = demo_pipeline_prose and ?inputType = "ascii ''text''"
      and ?content = "ascii ''abc''" and ?reply = "ascii ''I cannot analyze this.''"
      and ?env1.0 = demo_pipeline_json and ?inputType1.0 = "ascii ''text''"
      and ?content1.0 = "ascii ''abc''" and ?reply1.0 = "ascii ''{...}''" and ?fs = demo_reply_fields
      and ?env2.0 = demo_pipeline_down and ?inputType2.0 = "ascii ''text''"
      and ?content2.0 = "ascii ''abc''" and ?err = "JsError (ascii ''fetch failed'')"]
  from inst h1 h2 h3 h4 show ?thesis by blast
qed

text \<open>
  The claim as written fails: when the model cannot be reached, \<open>analyzePipeline\<close> returns
  no object at all.
\<close>

theorem C10_never_fails_counterexample:
  "analyzePipeline demo_pipeline_down (ascii ''text'') (ascii ''abc'') =
     Inl (JsError (ascii ''fetch failed''))"
  by (simp add: analyzePipeline_def demo_pipeline_down_def Let_def)

text \<open>
  Beside that, a reply that is the JSON text \<open>null\<close> parses, and the first assignment to
  \<open>parsed.meta\<close> throws a TypeError.
\<close>

lemma analyzePipeline_null_reply:
  "generate env (build_parts inputType content) = Inr reply \<Longrightarrow>
   JSON_parse env (strip_fences (trim reply)) = Some JNull \<Longrightarrow>
   analyzePipeline env inputType content =
     Inl (JsError (ascii ''Cannot read properties of null (reading '' @ [39] @ ascii ''meta'' @ [39] @
                   ascii '')''))"
  by (simp add: analyzePipeline_def Let_def ensure_fields_def default_prop_def)

section \<open>The request handler: credentials and the fingerprint\<close>

lemma admittedD:
  "admitted env req m inputType content \<Longrightarrow>
   \<exists>rl m' body. checkRateLimitAsync (rl_load env) (clock env) (client_ip (x_forwarded_for req)) m =
       (Inr rl, m') \<and> allowed rl \<and> req_json req = Inr body \<and>
       safeParse env body = Inr (inputType, content)"
  by (cases "checkRateLimitAsync (rl_load env) (clock env) (client_ip (x_forwarded_for req)) m")
     (auto simp: admitted_def split: sum.splits)

lemma POST_try_admitted:
  assumes "admitted env req m inputType content"
  shows "fst (POST_try env req m) =
     (if \<not> isGeminiConfigured env
      then Inr (error_response 503 (ascii ''SERVER_MISCONFIG'') msg_gemini_missing [])
      else
        (case extract_step env inputType content of
           Inl err \<Rightarrow> Inl err
         | Inr (Inl early) \<Rightarrow> Inr early
         | Inr (Inr (extracted, sourceUrl, effectiveInputType, extractionWarnings)) \<Rightarrow>
             (case analyzePipeline (pipeline env) effectiveInputType
                     (sanitize_step env inputType effectiveInputType extracted) of
                Inl err \<Rightarrow> Inl err
              | Inr result \<Rightarrow>
                  (case attach_metadata result sourceUrl extractionWarnings of
                     Inl err \<Rightarrow> Inl err
                   | Inr result' \<Rightarrow> Inr (json_response result' 200 [])))))"
proof -
  from admittedD [OF assms] obtain rl m' body where
    "checkRateLimitAsync (rl_load env) (clock env) (client_ip (x_forwarded_for req)) m = (Inr rl, m')"
    "allowed rl" "req_json req = Inr body" "safeParse env body = Inr (inputType, content)"
    by blast
  then show ?thesis
    by (simp add: POST_try_def Let_def split: sum.splits prod.splits)
qed

lemma POST_fst: "fst (POST env req m) =
  (case fst (POST_try env req m) of
     Inl err \<Rightarrow> error_response 500 (ascii ''ANALYZE_FAILED'') msg_analyze_failed []
   | Inr res \<Rightarrow> res)"
  by (cases "POST_try env req m") (simp add: POST_def split: sum.splits)

lemma POST_no_gemini:
  "admitted env req m inputType content \<Longrightarrow> \<not> isGeminiConfigured env \<Longrightarrow>
   fst (POST env req m) = error_response 503 (ascii ''SERVER_MISCONFIG'') msg_gemini_missing []"
  by (simp add: POST_fst POST_try_admitted)

lemma extractAudioTranscript_no_key:
  "blank (WHISPER_SRT_API_KEY env) \<Longrightarrow>
   extractAudioTranscript env url = (audio_failure msg_not_configured [], 0, 0)"
  by (cases "WHISPER_SRT_API_KEY env") (auto simp: extractAudioTranscript_def)

lemma POST_no_whisper_key:
  assumes "admitted env req m InAudio content" "isGeminiConfigured env"
    "blank (WHISPER_SRT_API_KEY (audio_service env))"
  shows "fst (POST env req m) =
           error_response 422 (ascii ''EXTRACTION_FAILED'') msg_not_configured []"
proof -
  have ne: "msg_not_configured \<noteq> []" by (simp add: msg_not_configured_def ascii_def)
  have "extract_step env InAudio content =
      Inr (Inl (error_response 422 (ascii ''EXTRACTION_FAILED'') msg_not_configured []))"
    using ne by (simp add: extract_step_def extractAudioTranscript_no_key [OF assms(3)]
        audio_failure_def)
  with assms(1,2) show ?thesis by (simp add: POST_fst POST_try_admitted)
qed

lemma error_response_simps:
  "r_status (error_response status kind message extra) = status"
  "response_error (error_response status kind message extra) = Some (JStr kind)"
  by (simp_all add: error_response_def json_response_def response_error_def ascii_def)


text \<open>
  Claim C8, as the code has it. For a request that passed admission (rate limit, body,
  validation): when the analysis-model credential is not configured the response is 503
  with the error kind \<open>SERVER_MISCONFIG\<close> and a message; when that credential is configured
  and the transcription key is absent, an audio request is answered 422 with the error kind
  \<open>EXTRACTION_FAILED\<close> and the extractor's not-configured message.
\<close>

theorem C8_missing_credentials:
  "(admitted env req m inputType content \<and> \<not> isGeminiConfigured env \<longrightarrow>
      fst (POST env req m) =
        error_response 503 (ascii ''SERVER_MISCONFIG'') msg_gemini_missing [] \<and>
      r_status (fst (POST env req m)) = 503 \<and>
      response_error (fst (POST env req m)) = Some (JStr (ascii ''SERVER_MISCONFIG''))) \<and>
   (admitted env1 req1 m1 InAudio content1 \<and> isGeminiConfigured env1 \<and>
    blank (WHISPER_SRT_API_KEY (audio_service env1)) \<longrightarrow>
      fst (POST env1 req1 m1) =
        error_response 422 (ascii ''EXTRACTION_FAILED'') msg_not_configured [] \<and>
      r_status (fst (POST env1 req1 m1)) = 422 \<and>
      response_error (fst (POST env1 req1 m1)) = Some (JStr (ascii ''EXTRACTION_FAILED'')))"
  using POST_no_gemini [of env req m inputType content]
    POST_no_whisper_key [of env1 req1 m1 content1]
  by (auto simp: error_response_simps)

lemma demo_admitted:
  "admitted (demo_route service) demo_request demo_unconfigured InAudio demo_audio_url"
  "admitted demo_route_no_gemini demo_request demo_unconfigured InAudio demo_audio_url"
  by (simp_all add: admitted_def demo_route_def demo_route_no_gemini_def demo_request_def
      checkRateLimitAsync_def
      getUpstashLimiter_def demo_unconfigured_def inMemoryCheck_def stored_def maxRequests_def
      Let_def)

theorem C8_missing_credentials_witness:
  "admitted demo_route_no_gemini demo_request demo_unconfigured InAudio demo_audio_url \<and>
   \<not> isGeminiConfigured demo_route_no_gemini \<and>
   r_status (fst (POST demo_route_no_gemini demo_request demo_unconfigured)) = 503 \<and>
   response_error (fst (POST demo_route_no_gemini demo_request demo_unconfigured)) =
     Some (JStr (ascii ''SERVER_MISCONFIG'')) \<and>
   admitted (demo_route demo_env_no_key) demo_request demo_unconfigured InAudio demo_audio_url \<and>
   isGeminiConfigured (demo_route demo_env_no_key) \<and>
   blank (WHISPER_SRT_API_KEY (audio_service (demo_route demo_env_no_key))) \<and>
   fst (POST (demo_route demo_env_no_key) demo_request demo_unconfigured) =
     error_response 422 (ascii ''EXTRACTION_FAILED'') msg_not_configured []"
proof -
  have h1: "\<not> isGeminiConfigured demo_route_no_gemini"
    by (simp add: demo_route_no_gemini_def)
  have h2: "isGeminiConfigured (demo_route demo_env_no_key)"
    "blank (WHISPER_SRT_API_KEY (audio_service (demo_route demo_env_no_key)))"
    by (simp_all add: demo_route_def demo_env_no_key_def)
  note inst = C8_missing_credentials [where ?env = demo_route_no_gemini and ?req = demo_request
      and ?m = demo_unconfigured and ?inputType = InAudio and ?content = demo_audio_url
      and ?env1.0 = "demo_route demo_env_no_key" and ?req1.0 = demo_request
      and ?m1.0 = demo_unconfigured and ?content1.0 = demo_audio_url]
  from inst demo_admitted(2) demo_admitted(1) [of demo_env_no_key] h1 h2 show ?thesis by blast
qed

text \<open>
  The claim as written fails for the transcription key: with the model key configured and
  \<open>WHISPER_SRT_API_KEY\<close> absent, an audio request is answered 422 \<open>EXTRACTION_FAILED\<close>, not 503.
\<close>

theorem C8_transcription_key_counterexample:
  "isGeminiConfigured (demo_route demo_env_no_key) \<and>
   WHISPER_SRT_API_KEY (audio_service (demo_route demo_env_no_key)) = None \<and>
   r_status (fst (POST (demo_route demo_env_no_key) demo_request demo_unconfigured)) = 422 \<and>
   response_error (fst (POST (demo_route demo_env_no_key) demo_request demo_unconfigured)) =
     Some (JStr (ascii ''EXTRACTION_FAILED''))"
proof -
  have k: "isGeminiConfigured (demo_route demo_env_no_key)"
    "WHISPER_SRT_API_KEY (audio_service (demo_route demo_env_no_key)) = None"
    by (simp_all add: demo_route_def demo_env_no_key_def)
  then have "blank (WHISPER_SRT_API_KEY (audio_service (demo_route demo_env_no_key)))" by simp
  from POST_no_whisper_key [OF demo_admitted(1) k(1) this] k show ?thesis
    by (simp add: error_response_simps)
qed


lemma path2_I:
  "get_prop v a = Inr (Some w) \<Longrightarrow> get_prop w b = Inr x \<Longrightarrow> path2 v a b = x"
  by (simp add: path2_def)

lemma path2_SomeD:
  "path2 v a b = Some x \<Longrightarrow> \<exists>w. get_prop v a = Inr (Some w) \<and> get_prop w b = Inr (Some x)"
  by (auto simp: path2_def split: sum.splits option.splits)

lemma get_prop_Some_object: "get_prop w b = Inr (Some x) \<Longrightarrow> is_object w"
  by (cases w) auto

lemma ensure_fields_fingerprint:
  assumes "ensure_fields env inputType fp parsed = Inr result"
  shows "path2 result (ascii ''meta'') (ascii ''fingerprint'') = Some (JStr fp)"
proof -
  from assms obtain p6 meta meta' p7 where
    m: "set_prop meta (ascii ''fingerprint'') (JStr fp) = Inr meta'"
    and p7: "set_prop p6 (ascii ''meta'') meta' = Inr p7"
    and r: "set_prop p7 (ascii ''ok'') (JBool True) = Inr result"
    by (auto simp: ensure_fields_def split: sum.splits option.splits)
  have "get_prop result (ascii ''meta'') = get_prop p7 (ascii ''meta'')"
    using get_prop_set_prop [OF r, of "ascii ''meta''"] by (simp add: key_distinct)
  also have "\<dots> = Inr (Some meta')"
    using get_prop_set_prop [OF p7, of "ascii ''meta''"] by simp
  finally have "get_prop result (ascii ''meta'') = Inr (Some meta')" .
  moreover have "get_prop meta' (ascii ''fingerprint'') = Inr (Some (JStr fp))"
    using get_prop_set_prop [OF m, of "ascii ''fingerprint''"] by simp
  ultimately show ?thesis by (rule path2_I)
qed

lemma analyzePipeline_fingerprint:
  "analyzePipeline env inputType content = Inr result \<Longrightarrow>
   path2 result (ascii ''meta'') (ascii ''fingerprint'') = Some (JStr (sha256_hex content))"
  by (auto simp: analyzePipeline_def Let_def split: sum.splits
      intro: ensure_fields_fingerprint)

lemma truthy_object: "is_object w \<Longrightarrow> truthy (Some w)"
  by (cases w) auto

lemma set_meta_keeps:
  assumes s: "set_meta result k x = Inr r'" and k: "k \<noteq> ascii ''fingerprint''"
    and f: "path2 result (ascii ''meta'') (ascii ''fingerprint'') = Some v"
  shows "path2 r' (ascii ''meta'') (ascii ''fingerprint'') = Some v"
proof -
  from path2_SomeD [OF f] obtain w where
    w: "get_prop result (ascii ''meta'') = Inr (Some w)" "get_prop w (ascii ''fingerprint'') = Inr (Some v)"
    by blast
  from get_prop_Some_object [OF w(2)] have tw: "truthy (Some w)" by (rule truthy_object)
  from s w(1) tw obtain r1 where r1: "set_prop result (ascii ''meta'') w = Inr r1"
    by (auto simp: set_meta_def default_prop_def split: sum.splits)
  have g1: "get_prop r1 (ascii ''meta'') = Inr (Some w)"
    using get_prop_set_prop [OF r1, of "ascii ''meta''"] by simp
  from s w(1) tw r1 g1 obtain w' where w': "set_prop w k x = Inr w'"
    and r': "set_prop r1 (ascii ''meta'') w' = Inr r'"
    by (auto simp: set_meta_def default_prop_def split: sum.splits)
  have "get_prop r' (ascii ''meta'') = Inr (Some w')"
    using get_prop_set_prop [OF r', of "ascii ''meta''"] by simp
  moreover have "get_prop w' (ascii ''fingerprint'') = Inr (Some v)"
    using get_prop_set_prop [OF w', of "ascii ''fingerprint''"] k w(2) by simp
  ultimately show ?thesis by (rule path2_I)
qed

lemma default_meta_keeps:
  assumes s: "default_prop result (ascii ''meta'') d = Inr r'"
    and f: "path2 result (ascii ''meta'') (ascii ''fingerprint'') = Some v"
  shows "path2 r' (ascii ''meta'') (ascii ''fingerprint'') = Some v"
proof -
  from path2_SomeD [OF f] obtain w where
    w: "get_prop result (ascii ''meta'') = Inr (Some w)" "get_prop w (ascii ''fingerprint'') = Inr (Some v)"
    by blast
  from get_prop_Some_object [OF w(2)] have tw: "truthy (Some w)" by (rule truthy_object)
  from s w(1) tw have r1: "set_prop result (ascii ''meta'') w = Inr r'"
    by (auto simp: default_prop_def split: sum.splits)
  have "get_prop r' (ascii ''meta'') = Inr (Some w)"
    using get_prop_set_prop [OF r1, of "ascii ''meta''"] by simp
  from this w(2) show ?thesis by (rule path2_I)
qed

lemma attach_metadata_keeps:
  assumes a: "attach_metadata result sourceUrl extractionWarnings = Inr r'"
    and f: "path2 result (ascii ''meta'') (ascii ''fingerprint'') = Some v"
  shows "path2 r' (ascii ''meta'') (ascii ''fingerprint'') = Some v"
proof -
  have ks: "ascii ''sourceUrl'' \<noteq> ascii ''fingerprint''" "ascii ''warnings'' \<noteq> ascii ''fingerprint''"
    by (simp_all add: ascii_def)
  obtain r1 where r1: "(if blank sourceUrl then Inr result
            else set_meta result (ascii ''sourceUrl'') (JStr (or_default sourceUrl []))) = Inr r1"
    using a by (auto simp: attach_metadata_def split: sum.splits)
  have f1: "path2 r1 (ascii ''meta'') (ascii ''fingerprint'') = Some v"
    using r1 f set_meta_keeps [OF _ ks(1) f] by (auto split: if_splits)
  show ?thesis
  proof (cases "length extractionWarnings > 0")
    case False
    with a r1 f1 show ?thesis by (simp add: attach_metadata_def)
  next
    case True
    with a r1 obtain r2 x where r2: "default_prop r1 (ascii ''meta'') (JObj []) = Inr r2"
      and r': "set_meta r2 (ascii ''warnings'') x = Inr r'"
      by (auto simp: attach_metadata_def split: sum.splits option.splits)
    from default_meta_keeps [OF r2 f1] have "path2 r2 (ascii ''meta'') (ascii ''fingerprint'') = Some v" .
    from set_meta_keeps [OF r' ks(2) this] show ?thesis .
  qed
qed

lemma map_of_serialize:
  "map_of (map (\<lambda>kv. (fst kv, serialize (snd kv))) fs) k = map_option serialize (map_of fs k)"
  by (induction fs) auto

lemma serialize_fingerprint:
  assumes "path2 r (ascii ''meta'') (ascii ''fingerprint'') = Some (JStr fp)"
  shows "path2 (serialize r) (ascii ''meta'') (ascii ''fingerprint'') = None \<or>
         path2 (serialize r) (ascii ''meta'') (ascii ''fingerprint'') = Some (JStr fp)"
proof -
  from path2_SomeD [OF assms] obtain w where
    w: "get_prop r (ascii ''meta'') = Inr (Some w)"
       "get_prop w (ascii ''fingerprint'') = Inr (Some (JStr fp))" by blast
  show ?thesis
  proof (cases r)
    case (JObj fs)
    with w(1) have "get_prop (serialize r) (ascii ''meta'') = Inr (Some (serialize w))"
      by (simp add: map_of_serialize)
    moreover from w(2) have "get_prop (serialize w) (ascii ''fingerprint'') = Inr None \<or>
        get_prop (serialize w) (ascii ''fingerprint'') = Inr (Some (JStr fp))"
      by (cases w) (auto simp: map_of_serialize)
    ultimately show ?thesis by (auto simp: path2_def)
  qed (use w in \<open>auto simp: path2_def\<close>)
qed

lemma response_fingerprint_json:
  "response_fingerprint (json_response r status extra) =
     path2 (serialize r) (ascii ''meta'') (ascii ''fingerprint'')"
  by (simp add: response_fingerprint_def json_response_def path2_def)

lemma extract_step_early:
  "extract_step env inputType content = Inr (Inl early) \<Longrightarrow> r_status early \<noteq> 200"
  by (auto simp: extract_step_def Let_def error_response_simps
      split: InputType.splits sum.splits if_splits)

lemma POST_success:
  assumes adm: "admitted env req m inputType content"
    and ok: "r_status (fst (POST env req m)) = 200"
  shows "\<exists>t. analysed_text env inputType content = Some t \<and>
           (response_fingerprint (fst (POST env req m)) = None \<or>
            response_fingerprint (fst (POST env req m)) = Some (JStr (sha256_hex t)))"
proof -
  have g: "isGeminiConfigured env"
  proof (rule ccontr)
    assume "\<not> isGeminiConfigured env"
    from POST_no_gemini [OF adm this] ok show False
      by (simp add: error_response_simps)
  qed
  from POST_try_admitted [OF adm] g
  have P: "fst (POST_try env req m) =
        (case extract_step env inputType content of
           Inl err \<Rightarrow> Inl err
         | Inr (Inl early) \<Rightarrow> Inr early
         | Inr (Inr (extracted, sourceUrl, effectiveInputType, extractionWarnings)) \<Rightarrow>
             (case analyzePipeline (pipeline env) effectiveInputType
                     (sanitize_step env inputType effectiveInputType extracted) of
                Inl err \<Rightarrow> Inl err
              | Inr result \<Rightarrow>
                  (case attach_metadata result sourceUrl extractionWarnings of
                     Inl err \<Rightarrow> Inl err
                   | Inr result' \<Rightarrow> Inr (json_response result' 200 []))))"
    by simp
  show ?thesis
  proof (cases "extract_step env inputType content")
    case (Inl err)
    with ok P g show ?thesis by (simp add: POST_fst error_response_simps)
  next
    case (Inr e)
    show ?thesis
    proof (cases e)
      case (Inl early)
      with Inr ok P g extract_step_early [of env inputType content early]
      show ?thesis by (simp add: POST_fst)
    next
      case (Inr tup)
      obtain extracted sourceUrl eff ws where tup: "tup = (extracted, sourceUrl, eff, ws)"
        by (cases tup) auto
      let ?t = "sanitize_step env inputType eff extracted"
      have at: "analysed_text env inputType content = Some ?t"
        using \<open>extract_step env inputType content = Inr e\<close> Inr tup
        by (simp add: analysed_text_def)
      show ?thesis
      proof (cases "analyzePipeline (pipeline env) eff ?t")
        case (Inl err)
        with \<open>extract_step env inputType content = Inr e\<close> Inr tup ok P g
        show ?thesis by (simp add: POST_fst error_response_simps)
      next
        case res: (Inr result)
        show ?thesis
        proof (cases "attach_metadata result sourceUrl ws")
          case (Inl err)
          with res \<open>extract_step env inputType content = Inr e\<close> Inr tup ok P g
          show ?thesis by (simp add: POST_fst error_response_simps)
        next
          case att: (Inr result')
          from res att \<open>extract_step env inputType content = Inr e\<close> Inr tup P g
          have resp: "fst (POST env req m) = json_response result' 200 []"
            by (simp add: POST_fst)
          from attach_metadata_keeps [OF att analyzePipeline_fingerprint [OF res]]
          have "path2 result' (ascii ''meta'') (ascii ''fingerprint'') = Some (JStr (sha256_hex ?t))" .
          from serialize_fingerprint [OF this] at show ?thesis
            by (simp add: resp response_fingerprint_json)
        qed
      qed
    qed
  qed
qed

lemma analysed_text_direct:
  "analysed_text env InText content = Some (sanitize env content 10000)"
  "analysed_text env InImage content = Some content"
  by (simp_all add: analysed_text_def extract_step_def sanitize_step_def ascii_def)

lemma analysed_text_link:
  assumes "isValidUrl env (trim content)"
    and "extractFromUrl env (trim content) = Inr extraction"
    and "x_ok extraction" and "x_text extraction = Some tx" and "tx \<noteq> []"
  shows "analysed_text env InLink content = Some (sanitize env tx 10000)"
  using assms
  by (simp add: analysed_text_def extract_step_def sanitize_step_def Let_def)

lemma analysed_text_audio:
  assumes "a_ok (fst (extractAudioTranscript (audio_service env) content))"
    and "a_text (fst (extractAudioTranscript (audio_service env) content)) = Some tx"
    and "tx \<noteq> []"
  shows "analysed_text env InAudio content = Some (sanitize env tx 10000)"
  using assms
  by (simp add: analysed_text_def extract_step_def sanitize_step_def Let_def)


lemma POST_unparseable_reply:
  assumes adm: "admitted env req m inputType content" and g: "isGeminiConfigured env"
    and ex: "extract_step env inputType content = Inr (Inr (extracted, None, eff, ws))"
    and gen: "generate (pipeline env)
                (build_parts eff (sanitize_step env inputType eff extracted)) = Inr reply"
    and un: "JSON_parse (pipeline env) (strip_fences (trim reply)) = None"
  shows "r_status (fst (POST env req m)) = 200 \<and>
         response_fingerprint (fst (POST env req m)) =
           Some (JStr (sha256_hex (sanitize_step env inputType eff extracted)))"
proof -
  let ?t = "sanitize_step env inputType eff extracted"
  let ?fb = "ensure_fields (pipeline env) eff (sha256_hex ?t) (fallback_analysis (pipeline env) eff)"
  have a: "analyzePipeline (pipeline env) eff ?t = ?fb"
    by (rule analyzePipeline_unparseable [OF gen un])
  have "\<exists>r r'. ?fb = Inr r \<and> attach_metadata r None ws = Inr r' \<and>
      path2 (serialize r') (ascii ''meta'') (ascii ''fingerprint'') = Some (JStr (sha256_hex ?t))"
    by (simp add: ensure_fields_def fallback_analysis_def default_prop_def fallback_meta_def
        attach_metadata_def set_meta_def path2_def empty_similar_def scores_def ascii_def)
  then obtain r r' where r: "?fb = Inr r" "attach_metadata r None ws = Inr r'"
    "path2 (serialize r') (ascii ''meta'') (ascii ''fingerprint'') = Some (JStr (sha256_hex ?t))"
    by blast
  from POST_try_admitted [OF adm] g ex a r(1,2)
  have "fst (POST env req m) = json_response r' 200 []"
    by (simp add: POST_fst)
  then have "r_status (fst (POST env req m)) = 200"
    "response_fingerprint (fst (POST env req m)) =
       path2 (serialize r') (ascii ''meta'') (ascii ''fingerprint'')"
    by (simp_all add: response_fingerprint_json) (simp add: json_response_def)
  with r(3) show ?thesis by simp
qed

text \<open>
  Claim C1, as the code has it. The fingerprint of a successful response, where the response
  carries one, is the SHA-256 hex digest of the text handed to \<open>analyzePipeline\<close>: the
  sanitized content for the kind \<open>text\<close>, the raw content for \<open>image\<close>, and for \<open>link\<close> and
  \<open>audio\<close> the sanitized text the extraction produced. So two requests of kind \<open>text\<close> or
  \<open>image\<close> with the same raw content get the same fingerprint; for \<open>link\<close> and \<open>audio\<close> the
  fingerprint follows the extracted text: the text analysed is the sanitized page text or
  captions of a link and the sanitized transcript of an audio payload, and two requests of
  any kind for which the same text is analysed get the same fingerprint.
\<close>

theorem C1_fingerprint_of_analysed_text:
  "(admitted env req m inputType content \<and> r_status (fst (POST env req m)) = 200 \<longrightarrow>
      (\<exists>t. analysed_text env inputType content = Some t \<and>
         (response_fingerprint (fst (POST env req m)) = None \<or>
          response_fingerprint (fst (POST env req m)) = Some (JStr (sha256_hex t))))) \<and>
   analysed_text env InText content = Some (sanitize env content 10000) \<and>
   analysed_text env InImage content = Some content \<and>
   (admitted env1 req1 m1 kind raw \<and> admitted env2 req2 m2 kind raw \<and>
    (kind = InText \<or> kind = InImage) \<and> sanitize env1 raw 10000 = sanitize env2 raw 10000 \<and>
    r_status (fst (POST env1 req1 m1)) = 200 \<and> r_status (fst (POST env2 req2 m2)) = 200 \<and>
    response_fingerprint (fst (POST env1 req1 m1)) \<noteq> None \<and>
    response_fingerprint (fst (POST env2 req2 m2)) \<noteq> None \<longrightarrow>
      response_fingerprint (fst (POST env1 req1 m1)) =
      response_fingerprint (fst (POST env2 req2 m2))) \<and>
   (isValidUrl env3 (trim content3) \<and> extractFromUrl env3 (trim content3) = Inr extraction \<and>
    x_ok extraction \<and> x_text extraction = Some tx3 \<and> tx3 \<noteq> [] \<longrightarrow>
      analysed_text env3 InLink content3 = Some (sanitize env3 tx3 10000)) \<and>
   (a_ok (fst (extractAudioTranscript (audio_service env4) content4)) \<and>
    a_text (fst (extractAudioTranscript (audio_service env4) content4)) = Some tx4 \<and>
    tx4 \<noteq> [] \<longrightarrow>
      analysed_text env4 InAudio content4 = Some (sanitize env4 tx4 10000)) \<and>
   (admitted env5 req5 m5 kind5 raw5 \<and> admitted env6 req6 m6 kind6 raw6 \<and>
    analysed_text env5 kind5 raw5 = analysed_text env6 kind6 raw6 \<and>
    r_status (fst (POST env5 req5 m5)) = 200 \<and> r_status (fst (POST env6 req6 m6)) = 200 \<and>
    response_fingerprint (fst (POST env5 req5 m5)) \<noteq> None \<and>
    response_fingerprint (fst (POST env6 req6 m6)) \<noteq> None \<longrightarrow>
      response_fingerprint (fst (POST env5 req5 m5)) =
      response_fingerprint (fst (POST env6 req6 m6)))"
proof -
  have c: "response_fingerprint (fst (POST env1 req1 m1)) =
      response_fingerprint (fst (POST env2 req2 m2))"
    if "admitted env1 req1 m1 kind raw" "admitted env2 req2 m2 kind raw"
      "kind = InText \<or> kind = InImage" "sanitize env1 raw 10000 = sanitize env2 raw 10000"
      "r_status (fst (POST env1 req1 m1)) = 200" "r_status (fst (POST env2 req2 m2)) = 200"
      "response_fingerprint (fst (POST env1 req1 m1)) \<noteq> None"
      "response_fingerprint (fst (POST env2 req2 m2)) \<noteq> None"
  proof -
    from POST_success [OF that(1,5)] that(7) obtain t1 where
      t1: "analysed_text env1 kind raw = Some t1"
        "response_fingerprint (fst (POST env1 req1 m1)) = Some (JStr (sha256_hex t1))" by auto
    from POST_success [OF that(2,6)] that(8) obtain t2 where
      t2: "analysed_text env2 kind raw = Some t2"
        "response_fingerprint (fst (POST env2 req2 m2)) = Some (JStr (sha256_hex t2))" by auto
    from t1(1) t2(1) that(3,4) have "t1 = t2"
      by (auto simp: analysed_text_direct)
    with t1(2) t2(2) show ?thesis by simp
  qed
  have d: "response_fingerprint (fst (POST env5 req5 m5)) =
      response_fingerprint (fst (POST env6 req6 m6))"
    if "admitted env5 req5 m5 kind5 raw5" "admitted env6 req6 m6 kind6 raw6"
      "analysed_text env5 kind5 raw5 = analysed_text env6 kind6 raw6"
      "r_status (fst (POST env5 req5 m5)) = 200" "r_status (fst (POST env6 req6 m6)) = 200"
      "response_fingerprint (fst (POST env5 req5 m5)) \<noteq> None"
      "response_fingerprint (fst (POST env6 req6 m6)) \<noteq> None"
  proof -
    from POST_success [OF that(1,4)] that(6) obtain t5 where
      t5: "analysed_text env5 kind5 raw5 = Some t5"
        "response_fingerprint (fst (POST env5 req5 m5)) = Some (JStr (sha256_hex t5))" by auto
    from POST_success [OF that(2,5)] that(7) obtain t6 where
      t6: "analysed_text env6 kind6 raw6 = Some t6"
        "response_fingerprint (fst (POST env6 req6 m6)) = Some (JStr (sha256_hex t6))" by auto
    from t5(1) t6(1) that(3) have "t5 = t6" by simp
    with t5(2) t6(2) show ?thesis by simp
  qed
  have c1: "admitted env req m inputType content \<and> r_status (fst (POST env req m)) = 200 \<longrightarrow>
      (\<exists>t. analysed_text env inputType content = Some t \<and>
         (response_fingerprint (fst (POST env req m)) = None \<or>
          response_fingerprint (fst (POST env req m)) = Some (JStr (sha256_hex t))))"
    using POST_success [of env req m inputType content] by blast
  have c2: "analysed_text env InText content = Some (sanitize env content 10000)"
    "analysed_text env InImage content = Some content"
    by (rule analysed_text_direct)+
  have c3: "admitted env1 req1 m1 kind raw \<and> admitted env2 req2 m2 kind raw \<and>
    (kind = InText \<or> kind = InImage) \<and> sanitize env1 raw 10000 = sanitize env2 raw 10000 \<and>
    r_status (fst (POST env1 req1 m1)) = 200 \<and> r_status (fst (POST env2 req2 m2)) = 200 \<and>
    response_fingerprint (fst (POST env1 req1 m1)) \<noteq> None \<and>
    response_fingerprint (fst (POST env2 req2 m2)) \<noteq> None \<longrightarrow>
      response_fingerprint (fst (POST env1 req1 m1)) =
      response_fingerprint (fst (POST env2 req2 m2))"
    using c by blast
  have c4: "isValidUrl env3 (trim content3) \<and> extractFromUrl env3 (trim content3) = Inr extraction \<and>
    x_ok extraction \<and> x_text extraction = Some tx3 \<and> tx3 \<noteq> [] \<longrightarrow>
      analysed_text env3 InLink content3 = Some (sanitize env3 tx3 10000)"
    using analysed_text_link [of env3 content3 extraction tx3] by blast
  have c5: "a_ok (fst (extractAudioTranscript (audio_service env4) content4)) \<and>
    a_text (fst (extractAudioTranscript (audio_service env4) content4)) = Some tx4 \<and>
    tx4 \<noteq> [] \<longrightarrow>
      analysed_text env4 InAudio content4 = Some (sanitize env4 tx4 10000)"
    using analysed_text_audio [of env4 content4 tx4] by blast
  have c6: "admitted env5 req5 m5 kind5 raw5 \<and> admitted env6 req6 m6 kind6 raw6 \<and>
    analysed_text env5 kind5 raw5 = analysed_text env6 kind6 raw6 \<and>
    r_status (fst (POST env5 req5 m5)) = 200 \<and> r_status (fst (POST env6 req6 m6)) = 200 \<and>
    response_fingerprint (fst (POST env5 req5 m5)) \<noteq> None \<and>
    response_fingerprint (fst (POST env6 req6 m6)) \<noteq> None \<longrightarrow>
      response_fingerprint (fst (POST env5 req5 m5)) =
      response_fingerprint (fst (POST env6 req6 m6))"
    using d by blast
  show ?thesis
    by (intro conjI) (fact c1 c2 c3 c4 c5 c6)+
qed

lemma demo_done_other_run:
  "fst (extractAudioTranscript demo_env_done_other demo_audio_url) =
     \<lparr>a_ok = True, a_text = Some (ascii ''Boa noite''),
      a_segments = Some [\<lparr>seg_index = ascii ''1'', seg_start = ascii ''00:00:01,000'',
                           seg_end = ascii ''00:00:02,000'', seg_text = ascii ''Boa noite'',
                           instrumental = False\<rparr>],
      a_warnings = [], a_error = None\<rparr>"
proof -
  have p: "poll_loop (poll demo_env_done_other) (ascii ''PROCESSING'') 0 0 =
      (Inr (ascii ''DONE''), 3, 9000)"
    by (simp add: poll_loop.simps demo_env_done_other_def demo_env_done_def demo_poll_busy_def
        demo_poll_done_def MAX_POLL_ATTEMPTS_def POLL_INTERVAL_MS_def http_ok_def ascii_def Let_def)
  have j: "srtToJson demo_srt_other =
      [\<lparr>seg_index = ascii ''1'', seg_start = ascii ''00:00:01,000'',
        seg_end = ascii ''00:00:02,000'', seg_text = ascii ''Boa noite'', instrumental = False\<rparr>]"
    by (simp add: srtToJson_def parse_block_def demo_srt_other_def str_eval)
  have t: "segmentsToText
      [\<lparr>seg_index = ascii ''1'', seg_start = ascii ''00:00:01,000'',
        seg_end = ascii ''00:00:02,000'', seg_text = ascii ''Boa noite'', instrumental = False\<rparr>] =
      ascii ''Boa noite''"
    by (simp add: segmentsToText_def str_eval)
  have u: "parseAudioDataUrl demo_audio_url \<noteq> None"
    by (simp add: parseAudioDataUrl_def demo_audio_url_def str_eval)
  have len: "\<not> length (ascii ''Boa noite'') < 5" "ascii ''Boa noite'' \<noteq> []"
    by (simp_all add: ascii_def)
  have st: "job_status \<lparr>job_id = ascii ''job-1'', job_status = ascii ''PROCESSING''\<rparr> =
      ascii ''PROCESSING''" by simp
  have "audio_after_upload demo_env_done_other
      \<lparr>job_id = ascii ''job-1'', job_status = ascii ''PROCESSING''\<rparr> =
      (Inr \<lparr>a_ok = True, a_text = Some (ascii ''Boa noite''),
        a_segments = Some [\<lparr>seg_index = ascii ''1'', seg_start = ascii ''00:00:01,000'',
                           seg_end = ascii ''00:00:02,000'', seg_text = ascii ''Boa noite'',
                           instrumental = False\<rparr>],
        a_warnings = [], a_error = None\<rparr>, 3, 9000)"
    unfolding audio_after_upload_def st p
    using len by (simp add: demo_env_done_other_def demo_env_done_def http_ok_def j t Let_def)
  with u show ?thesis
    by (auto simp add: extractAudioTranscript_def audio_try_def demo_env_done_other_def
        demo_env_done_def demo_upload_def http_ok_def ascii_def)
qed

lemma demo_extract_steps:
  "extract_step (demo_route demo_env_done) InAudio demo_audio_url =
     Inr (Inr (ascii ''Bom dia a todos vamos falar de economia'', None, ascii ''audio_transcript'',
               [msg_instrumental_removed]))"
  "extract_step (demo_route demo_env_done_other) InAudio demo_audio_url =
     Inr (Inr (ascii ''Boa noite'', None, ascii ''audio_transcript'', []))"
  "extract_step (demo_route_text service) InText (ascii ''abc'') =
     Inr (Inr (ascii ''abc'', None, ascii ''text'', []))"
proof -
  have n: "ascii ''Bom dia a todos vamos falar de economia'' \<noteq> []" "ascii ''Boa noite'' \<noteq> []"
    by (simp_all add: ascii_def)
  show "extract_step (demo_route demo_env_done) InAudio demo_audio_url =
     Inr (Inr (ascii ''Bom dia a todos vamos falar de economia'', None, ascii ''audio_transcript'',
               [msg_instrumental_removed]))"
    using n by (simp add: extract_step_def demo_route_def demo_done_run)
  show "extract_step (demo_route demo_env_done_other) InAudio demo_audio_url =
     Inr (Inr (ascii ''Boa noite'', None, ascii ''audio_transcript'', []))"
    using n by (simp add: extract_step_def demo_route_def demo_done_other_run)
  show "extract_step (demo_route_text service) InText (ascii ''abc'') =
     Inr (Inr (ascii ''abc'', None, ascii ''text'', []))"
    by (simp add: extract_step_def)
qed

lemma demo_sanitized:
  "sanitize_step (demo_route service) InAudio (ascii ''audio_transcript'') (ascii ''Bom dia a todos vamos falar de economia'') = ascii ''Bom dia a todos vamos falar de economia''"
  "sanitize_step (demo_route service) InAudio (ascii ''audio_transcript'') (ascii ''Boa noite'') = ascii ''Boa noite''"
  "sanitize_step (demo_route_text service) InText (ascii ''text'') (ascii ''abc'') = ascii ''abc''"
  by (simp_all add: sanitize_step_def demo_route_def demo_route_text_def ascii_def)

lemma demo_admitted_text:
  "admitted (demo_route_text service) demo_request demo_unconfigured InText (ascii ''abc'')"
  by (simp add: admitted_def demo_route_text_def demo_route_def demo_request_def
      checkRateLimitAsync_def getUpstashLimiter_def demo_unconfigured_def inMemoryCheck_def
      stored_def maxRequests_def Let_def)

lemma demo_responses:
  "r_status (fst (POST (demo_route demo_env_done) demo_request demo_unconfigured)) = 200 \<and>
   response_fingerprint (fst (POST (demo_route demo_env_done) demo_request demo_unconfigured)) =
     Some (JStr (sha256_hex (ascii ''Bom dia a todos vamos falar de economia'')))"
  "r_status (fst (POST (demo_route demo_env_done_other) demo_request demo_unconfigured)) = 200 \<and>
   response_fingerprint (fst (POST (demo_route demo_env_done_other) demo_request demo_unconfigured)) =
     Some (JStr (sha256_hex (ascii ''Boa noite'')))"
  "r_status (fst (POST (demo_route_text service) demo_request demo_unconfigured)) = 200 \<and>
   response_fingerprint (fst (POST (demo_route_text service) demo_request demo_unconfigured)) =
     Some (JStr (sha256_hex (ascii ''abc'')))"
proof -
  have g: "isGeminiConfigured (demo_route s)" "isGeminiConfigured (demo_route_text s)"
    "pipeline (demo_route s) = demo_pipeline_prose"
    "pipeline (demo_route_text s) = demo_pipeline_prose" for s
    by (simp_all add: demo_route_def demo_route_text_def)
  have gen: "generate demo_pipeline_prose ps = Inr (ascii ''I cannot analyze this.'')"
    "JSON_parse demo_pipeline_prose x = None" for ps x
    by (simp_all add: demo_pipeline_prose_def)
  from POST_unparseable_reply [OF demo_admitted(1) g(1) demo_extract_steps(1), unfolded g, OF gen]
  show "r_status (fst (POST (demo_route demo_env_done) demo_request demo_unconfigured)) = 200 \<and>
   response_fingerprint (fst (POST (demo_route demo_env_done) demo_request demo_unconfigured)) =
     Some (JStr (sha256_hex (ascii ''Bom dia a todos vamos falar de economia'')))"
    by (simp add: demo_sanitized)
  from POST_unparseable_reply [OF demo_admitted(1) g(1) demo_extract_steps(2), unfolded g, OF gen]
  show "r_status (fst (POST (demo_route demo_env_done_other) demo_request demo_unconfigured)) = 200 \<and>
   response_fingerprint (fst (POST (demo_route demo_env_done_other) demo_request demo_unconfigured)) =
     Some (JStr (sha256_hex (ascii ''Boa noite'')))"
    by (simp add: demo_sanitized)
  from POST_unparseable_reply [OF demo_admitted_text g(2) demo_extract_steps(3), unfolded g, OF gen]
  show "r_status (fst (POST (demo_route_text service) demo_request demo_unconfigured)) = 200 \<and>
   response_fingerprint (fst (POST (demo_route_text service) demo_request demo_unconfigured)) =
     Some (JStr (sha256_hex (ascii ''abc'')))"
    by (simp add: demo_sanitized)
qed

lemma demo_digests:
  "sha256_hex (ascii ''Bom dia a todos vamos falar de economia'') =
     ascii ''65c7fe5b147a423a0880ac38cd96fc83ea6d5376da9b356101e265d0aff2507a''"
  "sha256_hex (ascii ''Boa noite'') =
     ascii ''53d32016ee7aa629d304464c2172e0cb821b701e7dc705aa7d2d317da3916b8b''"
  by (simp_all add: sha_eval)


theorem C1_fingerprint_of_analysed_text_witness:
  "admitted (demo_route demo_env_done) demo_request demo_unconfigured InAudio demo_audio_url \<and>
   r_status (fst (POST (demo_route demo_env_done) demo_request demo_unconfigured)) = 200 \<and>
   (\<exists>t. analysed_text (demo_route demo_env_done) InAudio demo_audio_url = Some t \<and>
      (response_fingerprint (fst (POST (demo_route demo_env_done) demo_request demo_unconfigured)) =
         None \<or>
       response_fingerprint (fst (POST (demo_route demo_env_done) demo_request demo_unconfigured)) =
         Some (JStr (sha256_hex t)))) \<and>
   response_fingerprint (fst (POST (demo_route demo_env_done) demo_request demo_unconfigured)) =
     Some (JStr (sha256_hex (ascii ''Bom dia a todos vamos falar de economia''))) \<and>
   admitted (demo_route_text demo_env_done) demo_request demo_unconfigured InText (ascii ''abc'') \<and>
   admitted (demo_route_text demo_env_no_key) demo_request demo_unconfigured InText (ascii ''abc'') \<and>
   (InText = InText \<or> InText = InImage) \<and>
   sanitize (demo_route_text demo_env_done) (ascii ''abc'') 10000 =
     sanitize (demo_route_text demo_env_no_key) (ascii ''abc'') 10000 \<and>
   r_status (fst (POST (demo_route_text demo_env_done) demo_request demo_unconfigured)) = 200 \<and>
   r_status (fst (POST (demo_route_text demo_env_no_key) demo_request demo_unconfigured)) = 200 \<and>
   response_fingerprint (fst (POST (demo_route_text demo_env_done) demo_request demo_unconfigured))
     \<noteq> None \<and>
   response_fingerprint (fst (POST (demo_route_text demo_env_no_key) demo_request demo_unconfigured))
     \<noteq> None \<and>
   response_fingerprint (fst (POST (demo_route_text demo_env_done) demo_request demo_unconfigured)) =
   response_fingerprint (fst (POST (demo_route_text demo_env_no_key) demo_request demo_unconfigured)) \<and>
   isValidUrl demo_route_link (trim demo_link) \<and>
   extractFromUrl demo_route_link (trim demo_link) = Inr demo_page \<and>
   x_ok demo_page \<and> x_text demo_page = Some (ascii ''Texto da pagina'') \<and>
   ascii ''Texto da pagina'' \<noteq> [] \<and>
   analysed_text demo_route_link InLink demo_link =
     Some (sanitize demo_route_link (ascii ''Texto da pagina'') 10000) \<and>
   a_ok (fst (extractAudioTranscript (audio_service (demo_route demo_env_done)) demo_audio_url)) \<and>
   a_text (fst (extractAudioTranscript (audio_service (demo_route demo_env_done)) demo_audio_url)) =
     Some (ascii ''Bom dia a todos vamos falar de economia'') \<and>
   ascii ''Bom dia a todos vamos falar de economia'' \<noteq> [] \<and>
   analysed_text (demo_route demo_env_done) InAudio demo_audio_url =
     Some (sanitize (demo_route demo_env_done)
            (ascii ''Bom dia a todos vamos falar de economia'') 10000) \<and>
   analysed_text (demo_route_text demo_env_done) InText (ascii ''abc'') =
     analysed_text (demo_route_text demo_env_no_key) InText (ascii ''abc'')"
proof -
  have h1: "sanitize (demo_route_text demo_env_done) (ascii ''abc'') 10000 =
      sanitize (demo_route_text demo_env_no_key) (ascii ''abc'') 10000"
    by (simp add: demo_route_text_def demo_route_def)
  have h2: "response_fingerprint (fst (POST (demo_route_text s) demo_request demo_unconfigured))
      \<noteq> None" for s
    using demo_responses(3) [of s] by simp
  have h3: "r_status (fst (POST (demo_route_text s) demo_request demo_unconfigured)) = 200" for s
    using demo_responses(3) [of s] by simp
  have h4: "InText = InText \<or> InText = InImage" by simp
  note inst = C1_fingerprint_of_analysed_text [where ?env = "demo_route demo_env_done"
      and ?req = demo_request and ?m = demo_unconfigured and ?inputType = InAudio
      and ?content = demo_audio_url and ?env1.0 = "demo_route_text demo_env_done"
      and ?req1.0 = demo_request and ?m1.0 = demo_unconfigured and ?kind = InText
      and ?raw = "ascii ''abc''" and ?env2.0 = "demo_route_text demo_env_no_key"
      and ?req2.0 = demo_request and ?m2.0 = demo_unconfigured
      and ?env3.0 = demo_route_link and ?content3.0 = demo_link and ?extraction = demo_page
      and ?tx3.0 = "ascii ''Texto da pagina''" and ?env4.0 = "demo_route demo_env_done"
      and ?content4.0 = demo_audio_url
      and ?tx4.0 = "ascii ''Bom dia a todos vamos falar de economia''"
      and ?env5.0 = "demo_route_text demo_env_done" and ?req5.0 = demo_request
      and ?m5.0 = demo_unconfigured and ?kind5.0 = InText and ?raw5.0 = "ascii ''abc''"
      and ?env6.0 = "demo_route_text demo_env_no_key" and ?req6.0 = demo_request
      and ?m6.0 = demo_unconfigured and ?kind6.0 = InText and ?raw6.0 = "ascii ''abc''"]
  note digest = inst [THEN conjunct1]
  note direct = inst [THEN conjunct2, THEN conjunct1]
  note same = inst [THEN conjunct2, THEN conjunct2, THEN conjunct2, THEN conjunct1]
  note link = inst [THEN conjunct2, THEN conjunct2, THEN conjunct2, THEN conjunct2, THEN conjunct1]
  note audio = inst [THEN conjunct2, THEN conjunct2, THEN conjunct2, THEN conjunct2,
      THEN conjunct2, THEN conjunct1]
  note analysed = inst [THEN conjunct2, THEN conjunct2, THEN conjunct2, THEN conjunct2,
      THEN conjunct2, THEN conjunct2]
  have a1: "admitted (demo_route demo_env_done) demo_request demo_unconfigured InAudio demo_audio_url"
    by (rule demo_admitted(1))
  have a2: "r_status (fst (POST (demo_route demo_env_done) demo_request demo_unconfigured)) = 200"
    using demo_responses(1) by simp
  have a3: "response_fingerprint (fst (POST (demo_route demo_env_done) demo_request demo_unconfigured)) =
     Some (JStr (sha256_hex (ascii ''Bom dia a todos vamos falar de economia'')))"
    using demo_responses(1) by simp
  from a1 a2 have "admitted (demo_route demo_env_done) demo_request demo_unconfigured InAudio demo_audio_url \<and>
      r_status (fst (POST (demo_route demo_env_done) demo_request demo_unconfigured)) = 200"
    by (rule conjI)
  with digest
  have g1: "\<exists>t. analysed_text (demo_route demo_env_done) InAudio demo_audio_url = Some t \<and>
      (response_fingerprint (fst (POST (demo_route demo_env_done) demo_request demo_unconfigured)) =
         None \<or>
       response_fingerprint (fst (POST (demo_route demo_env_done) demo_request demo_unconfigured)) =
         Some (JStr (sha256_hex t)))"
    by (rule mp)
  have "admitted (demo_route_text demo_env_done) demo_request demo_unconfigured InText (ascii ''abc'') \<and>
    admitted (demo_route_text demo_env_no_key) demo_request demo_unconfigured InText (ascii ''abc'') \<and>
    (InText = InText \<or> InText = InImage) \<and>
    sanitize (demo_route_text demo_env_done) (ascii ''abc'') 10000 =
      sanitize (demo_route_text demo_env_no_key) (ascii ''abc'') 10000 \<and>
    r_status (fst (POST (demo_route_text demo_env_done) demo_request demo_unconfigured)) = 200 \<and>
    r_status (fst (POST (demo_route_text demo_env_no_key) demo_request demo_unconfigured)) = 200 \<and>
    response_fingerprint (fst (POST (demo_route_text demo_env_done) demo_request demo_unconfigured))
      \<noteq> None \<and>
    response_fingerprint (fst (POST (demo_route_text demo_env_no_key) demo_request demo_unconfigured))
      \<noteq> None"
    by (intro conjI) (fact demo_admitted_text h4 h1 h3 h2)+
  with same
  have g2: "response_fingerprint (fst (POST (demo_route_text demo_env_done) demo_request demo_unconfigured)) =
   response_fingerprint (fst (POST (demo_route_text demo_env_no_key) demo_request demo_unconfigured))"
    by (rule mp)
  have l: "isValidUrl demo_route_link (trim demo_link)"
    "extractFromUrl demo_route_link (trim demo_link) = Inr demo_page"
    "x_ok demo_page" "x_text demo_page = Some (ascii ''Texto da pagina'')"
    "ascii ''Texto da pagina'' \<noteq> []"
    by (simp_all add: demo_route_link_def demo_route_def demo_page_def demo_link_def ascii_def
        trim_def is_ws_def)
  then have "isValidUrl demo_route_link (trim demo_link) \<and>
    extractFromUrl demo_route_link (trim demo_link) = Inr demo_page \<and>
    x_ok demo_page \<and> x_text demo_page = Some (ascii ''Texto da pagina'') \<and>
    ascii ''Texto da pagina'' \<noteq> []"
    by (intro conjI)
  with link
  have g3: "analysed_text demo_route_link InLink demo_link =
     Some (sanitize demo_route_link (ascii ''Texto da pagina'') 10000)"
    by (rule mp)
  have s: "audio_service (demo_route demo_env_done) = demo_env_done"
    by (simp add: demo_route_def)
  have u: "a_ok (fst (extractAudioTranscript (audio_service (demo_route demo_env_done)) demo_audio_url))"
    "a_text (fst (extractAudioTranscript (audio_service (demo_route demo_env_done)) demo_audio_url)) =
       Some (ascii ''Bom dia a todos vamos falar de economia'')"
    "ascii ''Bom dia a todos vamos falar de economia'' \<noteq> []"
    unfolding s by (simp_all add: demo_done_run ascii_def)
  then have "a_ok (fst (extractAudioTranscript (audio_service (demo_route demo_env_done)) demo_audio_url)) \<and>
    a_text (fst (extractAudioTranscript (audio_service (demo_route demo_env_done)) demo_audio_url)) =
       Some (ascii ''Bom dia a todos vamos falar de economia'') \<and>
    ascii ''Bom dia a todos vamos falar de economia'' \<noteq> []"
    by (intro conjI)
  with audio
  have g4: "analysed_text (demo_route demo_env_done) InAudio demo_audio_url =
     Some (sanitize (demo_route demo_env_done)
            (ascii ''Bom dia a todos vamos falar de economia'') 10000)"
    by (rule mp)
  have g5: "analysed_text (demo_route_text demo_env_done) InText (ascii ''abc'') =
     analysed_text (demo_route_text demo_env_no_key) InText (ascii ''abc'')"
    by (simp only: analysed_text_direct h1)
  have "admitted (demo_route_text demo_env_done) demo_request demo_unconfigured InText (ascii ''abc'') \<and>
    admitted (demo_route_text demo_env_no_key) demo_request demo_unconfigured InText (ascii ''abc'') \<and>
    analysed_text (demo_route_text demo_env_done) InText (ascii ''abc'') =
      analysed_text (demo_route_text demo_env_no_key) InText (ascii ''abc'') \<and>
    r_status (fst (POST (demo_route_text demo_env_done) demo_request demo_unconfigured)) = 200 \<and>
    r_status (fst (POST (demo_route_text demo_env_no_key) demo_request demo_unconfigured)) = 200 \<and>
    response_fingerprint (fst (POST (demo_route_text demo_env_done) demo_request demo_unconfigured))
      \<noteq> None \<and>
    response_fingerprint (fst (POST (demo_route_text demo_env_no_key) demo_request demo_unconfigured))
      \<noteq> None"
    by (intro conjI) (fact demo_admitted_text g5 h3 h2)+
  with analysed
  have g6: "response_fingerprint (fst (POST (demo_route_text demo_env_done) demo_request demo_unconfigured)) =
   response_fingerprint (fst (POST (demo_route_text demo_env_no_key) demo_request demo_unconfigured))"
    by (rule mp)
  show ?thesis
    by (intro conjI) (fact a1 a2 g1 a3 demo_admitted_text h4 h1 h3 h2 g2 l g3 u g4 g5)+
qed

text \<open>
  The claim as written fails: the two requests below have the same raw content, an audio
  payload, and differ only in the subtitle document the transcription service returned;
  their fingerprints are the digests of the two transcripts.
\<close>

theorem C1_same_content_counterexample:
  "admitted (demo_route demo_env_done) demo_request demo_unconfigured InAudio demo_audio_url \<and>
   admitted (demo_route demo_env_done_other) demo_request demo_unconfigured InAudio demo_audio_url \<and>
   response_fingerprint (fst (POST (demo_route demo_env_done) demo_request demo_unconfigured)) =
     Some (JStr (ascii ''65c7fe5b147a423a0880ac38cd96fc83ea6d5376da9b356101e265d0aff2507a'')) \<and>
   response_fingerprint (fst (POST (demo_route demo_env_done_other) demo_request demo_unconfigured)) =
     Some (JStr (ascii ''53d32016ee7aa629d304464c2172e0cb821b701e7dc705aa7d2d317da3916b8b'')) \<and>
   response_fingerprint (fst (POST (demo_route demo_env_done) demo_request demo_unconfigured)) \<noteq>
   response_fingerprint (fst (POST (demo_route demo_env_done_other) demo_request demo_unconfigured))"
proof -
  have ne: "ascii ''65c7fe5b147a423a0880ac38cd96fc83ea6d5376da9b356101e265d0aff2507a'' \<noteq>
      ascii ''53d32016ee7aa629d304464c2172e0cb821b701e7dc705aa7d2d317da3916b8b''"
    by (simp add: ascii_def)
  from demo_responses(1,2) demo_digests ne
    demo_admitted(1) [of demo_env_done] demo_admitted(1) [of demo_env_done_other]
  show ?thesis by simp
qed

section \<open>Sanitizer: idempotence and the length cap\<close>

lemma filter_take_filter:
  "filter P (take n (filter P xs)) = take n (filter P xs)"
proof (rule filter_True)
  show "\<forall>x\<in>set (take n (filter P xs)). P x"
  proof
    fix x
    assume "x \<in> set (take n (filter P xs))"
    then have "x \<in> set (filter P xs)" by (rule in_set_takeD)
    then show "P x" by simp
  qed
qed

lemma sanitizeForLLM_idem:
  "sanitizeForLLM unsafe (sanitizeForLLM unsafe x maxLength) maxLength = sanitizeForLLM unsafe x maxLength"
  unfolding sanitizeForLLM_def filter_take_filter by simp

lemma sanitizeForLLM_length:
  "length (sanitizeForLLM unsafe x maxLength) \<le> maxLength"
  unfolding sanitizeForLLM_def by simp

lemma sanitizeForLLM_same:
  assumes "list_all (\<lambda>c. \<not> unsafe c) y" and "length y \<le> n"
  shows "sanitizeForLLM unsafe y n = y"
proof -
  from assms(1) have "\<forall>c\<in>set y. \<not> unsafe c" by (simp add: list_all_iff)
  then have "filter (\<lambda>c. \<not> unsafe c) y = y" by (rule filter_True)
  with assms(2) show ?thesis unfolding sanitizeForLLM_def by simp
qed

text \<open>
  Claim C9, on the model of the sanitizer. Sanitizing a sanitized text with the same bound
  changes nothing, the result is never longer than \<open>maxLength\<close>, and a text that is short
  enough and holds nothing unsafe is returned as it is.
\<close>

theorem C9_sanitize_idempotent_capped:
  "sanitizeForLLM unsafe (sanitizeForLLM unsafe x maxLength) maxLength =
     sanitizeForLLM unsafe x maxLength \<and>
   length (sanitizeForLLM unsafe x maxLength) \<le> maxLength \<and>
   (list_all (\<lambda>c. \<not> unsafe c) y \<and> length y \<le> n \<longrightarrow> sanitizeForLLM unsafe y n = y)"
proof (intro conjI impI)
  show "sanitizeForLLM unsafe (sanitizeForLLM unsafe x maxLength) maxLength =
     sanitizeForLLM unsafe x maxLength"
    by (rule sanitizeForLLM_idem)
  show "length (sanitizeForLLM unsafe x maxLength) \<le> maxLength"
    by (rule sanitizeForLLM_length)
  assume "list_all (\<lambda>c. \<not> unsafe c) y \<and> length y \<le> n"
  then show "sanitizeForLLM unsafe y n = y"
    by (intro sanitizeForLLM_same) (rule conjunct1, assumption, rule conjunct2, assumption)
qed

theorem C9_sanitize_idempotent_capped_witness:
  "sanitizeForLLM demo_unsafe (ascii ''<b>ok</b> fine'') 6 = ascii ''bok/b '' \<and>
   sanitizeForLLM demo_unsafe (sanitizeForLLM demo_unsafe (ascii ''<b>ok</b> fine'') 6) 6 =
     sanitizeForLLM demo_unsafe (ascii ''<b>ok</b> fine'') 6 \<and>
   length (sanitizeForLLM demo_unsafe (ascii ''<b>ok</b> fine'') 6) \<le> 6 \<and>
   list_all (\<lambda>c. \<not> demo_unsafe c) (ascii ''fine'') \<and> length (ascii ''fine'') \<le> 10 \<and>
   sanitizeForLLM demo_unsafe (ascii ''fine'') 10 = ascii ''fine''"
proof -
  have h0: "sanitizeForLLM demo_unsafe (ascii ''<b>ok</b> fine'') 6 = ascii ''bok/b ''"
    by (simp add: sanitizeForLLM_def demo_unsafe_def ascii_def)
  have h1: "list_all (\<lambda>c. \<not> demo_unsafe c) (ascii ''fine'')" "length (ascii ''fine'') \<le> 10"
    by (simp_all add: demo_unsafe_def ascii_def)
  note inst = C9_sanitize_idempotent_capped [where ?unsafe = demo_unsafe
      and ?x = "ascii ''<b>ok</b> fine''" and ?maxLength = 6 and ?y = "ascii ''fine''" and ?n = 10]
  from inst h0 h1 show ?thesis by blast
qed

end
